theory Spec2Isabelle
  imports Main "HOL-Library.Word"
begin

unbundle bit_operations_syntax

section \<open>Machine types and constants of GdbServer.cc\<close>

type_synonym byte = "8 word"
type_synonym pid_t = int

text \<open>A failed run of the C++ code: a dereferenced null pointer, a failed
  \<^verbatim>\<open>assert\<close>/\<^verbatim>\<open>ASSERT\<close>, a \<^verbatim>\<open>FATAL()\<close>, a read past the end of a
  buffer, and \<^verbatim>\<open>dbg->get_request()\<close> on a connection whose client has sent
  nothing more (the real call blocks).\<close>

datatype fault = NullPointer | AssertionFailed | FatalError | OutOfBounds | NoRequest

definition DBG_COMMAND_MAGIC_ADDRESS :: nat where
  "DBG_COMMAND_MAGIC_ADDRESS = 29298"

definition DBG_COMMAND_MSG_MASK :: "32 word" where
  "DBG_COMMAND_MSG_MASK = 0xFF000000"

definition DBG_COMMAND_MSG_CREATE_CHECKPOINT :: "32 word" where
  "DBG_COMMAND_MSG_CREATE_CHECKPOINT = 0x01000000"

definition DBG_COMMAND_MSG_DELETE_CHECKPOINT :: "32 word" where
  "DBG_COMMAND_MSG_DELETE_CHECKPOINT = 0x02000000"

definition DBG_COMMAND_PARAMETER_MASK :: "32 word" where
  "DBG_COMMAND_PARAMETER_MASK = 0x00FFFFFF"

definition DBG_WHEN_MAGIC_ADDRESS :: nat where
  "DBG_WHEN_MAGIC_ADDRESS = DBG_COMMAND_MAGIC_ADDRESS + 4"

text \<open>Signal numbers of \<^verbatim>\<open><signal.h>\<close> on Linux.\<close>

definition SIGTRAP :: int where
  "SIGTRAP = 5"

definition SIGKILL :: int where
  "SIGKILL = 9"

section \<open>Breakpoint conditions\<close>

text \<open>\<^verbatim>\<open>class GdbBreakpointCondition\<close>: the constructor stores one
  \<^verbatim>\<open>GdbExpression\<close> per byte-code program, in order.  The byte-code
  interpreter \<^verbatim>\<open>GdbExpression::evaluate(t, &v)\<close> is not part of
  GdbServer.cc; it is the parameter \<open>ev\<close>: \<open>None\<close> when evaluation fails,
  \<open>Some v\<close> with the 64-bit result \<open>v.i\<close> otherwise.\<close>

datatype GdbBreakpointCondition = GdbBreakpointCondition (expressions: "byte list list")

fun evaluate_loop :: "(byte list \<Rightarrow> 't \<Rightarrow> 64 word option) \<Rightarrow> byte list list \<Rightarrow> 't \<Rightarrow> bool" where
  "evaluate_loop ev [] t = False"
| "evaluate_loop ev (e # es) t =
     (case ev e t of
        None \<Rightarrow> True
      | Some v \<Rightarrow> if v \<noteq> 0 then True else evaluate_loop ev es t)"

definition evaluate :: "(byte list \<Rightarrow> 't \<Rightarrow> 64 word option) \<Rightarrow> GdbBreakpointCondition \<Rightarrow> 't \<Rightarrow> bool" where
  "evaluate ev c t = evaluate_loop ev (expressions c) t"

text \<open>\<^verbatim>\<open>breakpoint_condition(request)\<close>, on the condition list of the
  request's watch part: \<^verbatim>\<open>nullptr\<close> for an empty list.\<close>

definition breakpoint_condition :: "byte list list \<Rightarrow> GdbBreakpointCondition option" where
  "breakpoint_condition conds =
     (if conds = [] then None else Some (GdbBreakpointCondition conds))"

text \<open>Modelled from the spec: how the replay timeline (not part of
  GdbServer.cc) uses the condition attached to a breakpoint.  The spec says that
  a breakpoint without a condition object always breaks, and that one with a
  condition breaks as the condition's evaluation says.\<close>

definition should_break :: "(byte list \<Rightarrow> 't \<Rightarrow> 64 word option) \<Rightarrow> GdbBreakpointCondition option \<Rightarrow> 't \<Rightarrow> bool" where
  "should_break ev c t = (case c of None \<Rightarrow> True | Some cond \<Rightarrow> evaluate ev cond t)"

section \<open>Data model\<close>

text \<open>The types below are declared in headers that are not part of
  GdbServer.cc (GdbConnection.h, task.h, Session.h, ReplayTimeline.h, Registers.h).
  The records hold the fields and accessors that GdbServer.cc uses, under the
  names it uses.  Where two structures use one name, or the name is taken in
  HOL, a prefix is added: \<open>req_type\<close> for the \<^verbatim>\<open>type\<close> of a request,
  \<open>reg_name\<close>, \<open>reg_value\<close>, \<open>reg_size\<close> and \<open>reg_defined\<close> for the fields of a
  register value, \<open>watch_address\<close> for the \<^verbatim>\<open>addr\<close> of a watch request,
  \<open>action_type\<close> and \<open>action_target\<close> for the fields of a resume action,
  \<open>srv_target\<close> for the server's \<^verbatim>\<open>target\<close> and \<open>target_pid\<close> for its
  \<^verbatim>\<open>pid\<close>.  A \<^verbatim>\<open>Task*\<close> is the key (\<^verbatim>\<open>rec_tid\<close>) of the task in its
  session's task table, wrapped in \<open>option\<close>: \<open>None\<close> is the null pointer.
  A break status carries a copy of its task.\<close>

datatype SupportedArch = x86 | x86_64

type_synonym GdbRegister = nat

record Registers =
  reg_values :: "GdbRegister \<Rightarrow> byte list option"
  total_registers :: nat

record ExtraRegisters =
  extra_values :: "GdbRegister \<Rightarrow> byte list option"

record GdbRegisterValue =
  reg_name :: GdbRegister
  reg_value :: "byte list"
  reg_size :: nat
  reg_defined :: bool

record GdbThreadId =
  pid :: pid_t
  tid :: pid_t

datatype GdbRequestType =
    DREQ_NONE
  | DREQ_GET_CURRENT_THREAD
  | DREQ_GET_OFFSETS
  | DREQ_GET_REGS
  | DREQ_GET_STOP_REASON
  | DREQ_GET_THREAD_LIST
  | DREQ_INTERRUPT
  | DREQ_DETACH
  | DREQ_GET_AUXV
  | DREQ_GET_IS_THREAD_ALIVE
  | DREQ_GET_THREAD_EXTRA_INFO
  | DREQ_SET_CONTINUE_THREAD
  | DREQ_SET_QUERY_THREAD
  | DREQ_WRITE_SIGINFO
  | DREQ_GET_MEM
  | DREQ_SET_MEM
  | DREQ_READ_SIGINFO
  | DREQ_REMOVE_SW_BREAK
  | DREQ_REMOVE_HW_BREAK
  | DREQ_REMOVE_WR_WATCH
  | DREQ_REMOVE_RD_WATCH
  | DREQ_REMOVE_RDWR_WATCH
  | DREQ_SET_SW_BREAK
  | DREQ_SET_HW_BREAK
  | DREQ_SET_WR_WATCH
  | DREQ_SET_RD_WATCH
  | DREQ_SET_RDWR_WATCH
  | DREQ_GET_REG
  | DREQ_SET_REG
  | DREQ_CONT
  | DREQ_RESTART

datatype GdbRestartType = RESTART_FROM_PREVIOUS | RESTART_FROM_EVENT | RESTART_FROM_CHECKPOINT

datatype GdbActionType = ACTION_CONTINUE | ACTION_STEP

datatype RunDirection = RUN_FORWARD | RUN_BACKWARD

datatype RunCommand = RUN_CONTINUE | RUN_SINGLESTEP

datatype WatchType = WATCH_EXEC | WATCH_WRITE | WATCH_READWRITE

datatype ReportState = REPORT_NORMAL | REPORT_THREADS_DEAD

datatype ContinueOrStop = CONTINUE_DEBUGGING | STOP_DEBUGGING

record GdbContAction =
  action_type :: GdbActionType
  action_target :: GdbThreadId
  signal_to_deliver :: int

record Mem =
  addr :: nat
  len :: nat
  data :: "byte list"

record Watch =
  watch_address :: nat
  kind :: int
  conditions :: "byte list list"

record Restart =
  param :: int
  param_str :: string
  restart_type :: GdbRestartType

record Cont =
  run_direction :: RunDirection
  actions :: "GdbContAction list"

record GdbRequest =
  req_type :: GdbRequestType
  target :: GdbThreadId
  suppress_debugger_stop :: bool
  mem :: Mem
  watch :: Watch
  reg :: GdbRegisterValue
  restart :: Restart
  cont :: Cont

text \<open>\<^verbatim>\<open>GdbRequest(type)\<close>: a fresh request of the given type, the thread id
  that matches any thread, and \<^verbatim>\<open>suppress_debugger_stop(false)\<close>.\<close>

definition new_GdbRequest :: "GdbRequestType \<Rightarrow> GdbRequest" where
  "new_GdbRequest ty =
     \<lparr>req_type = ty, target = \<lparr>pid = -1, tid = -1\<rparr>, suppress_debugger_stop = False,
      mem = \<lparr>addr = 0, len = 0, data = []\<rparr>,
      watch = \<lparr>watch_address = 0, kind = 0, conditions = []\<rparr>,
      reg = \<lparr>reg_name = 0, reg_value = [], reg_size = 0, reg_defined = False\<rparr>,
      restart = \<lparr>param = 0, param_str = [], restart_type = RESTART_FROM_PREVIOUS\<rparr>,
      cont = \<lparr>run_direction = RUN_FORWARD, actions = []\<rparr>\<rparr>"

definition is_resume_request :: "GdbRequest \<Rightarrow> bool" where
  "is_resume_request req = (req_type req = DREQ_CONT)"

text \<open>What the adapter sends to the client: one constructor per method of the
  connection that GdbServer.cc calls.\<close>

datatype reply =
    reply_get_current_thread GdbThreadId
  | reply_get_offsets
  | reply_get_thread_list "GdbThreadId list"
  | notify_stop GdbThreadId int nat
  | reply_get_is_thread_alive bool
  | reply_get_thread_extra_info string
  | reply_select_thread bool
  | notify_no_such_thread GdbRequest
  | reply_get_auxv "byte list"
  | reply_get_mem "byte list"
  | reply_set_mem bool
  | reply_get_reg GdbRegisterValue
  | reply_get_regs "GdbRegisterValue list"
  | reply_set_reg bool
  | reply_get_stop_reason GdbThreadId int
  | reply_watchpoint_request bool
  | reply_read_siginfo "byte list"
  | reply_write_siginfo
  | reply_detach
  | notify_exit_code int
  | notify_restart_failed

text \<open>The connection \<^verbatim>\<open>dbg\<close>: everything the adapter has sent, in order,
  and the client's feature flag.  The requests the client sends are an argument
  of the functions that read them: \<^verbatim>\<open>dbg->get_request()\<close> takes the first
  one, and on an empty list it has nothing to return.\<close>

record GdbConnection =
  sent :: "reply list"
  reverse_execution :: bool

definition send :: "reply \<Rightarrow> GdbConnection \<Rightarrow> GdbConnection" where
  "send r c = c\<lparr>sent := sent c @ [r]\<rparr>"

record TaskGroup =
  tgid :: pid_t
  real_tgid :: pid_t
  tguid :: nat
  task_set :: "pid_t list"

record Task =
  rec_tid :: pid_t
  tuid :: nat
  name :: string
  arch :: SupportedArch
  regs :: Registers
  extra_regs :: ExtraRegisters
  child_sig :: int
  task_group :: TaskGroup
  vm :: nat

text \<open>An address space: the mapped bytes, the original bytes under the
  software breakpoints inserted in it, and its watchpoints.\<close>

record AddressSpace =
  memory :: "nat \<Rightarrow> byte option"
  vm_breakpoints :: "nat \<Rightarrow> byte option"
  vm_watchpoints :: "(nat \<times> int \<times> WatchType) list"
  execed :: bool

datatype SessionKind = RECORD | REPLAY | DIVERSION

record Session =
  session_kind :: SessionKind
  tasks :: "(pid_t \<times> Task) list"
  vms :: "nat \<Rightarrow> AddressSpace"
  current_task :: "pid_t option"
  trace_time :: "32 word"
  can_validate :: bool
  can_clone :: bool

definition is_diversion :: "Session \<Rightarrow> bool" where
  "is_diversion s = (session_kind s = DIVERSION)"

definition as_replay :: "Session \<Rightarrow> bool" where
  "as_replay s = (session_kind s = REPLAY)"

definition find_task :: "Session \<Rightarrow> pid_t \<Rightarrow> pid_t option" where
  "find_task s k = (case map_of (tasks s) k of None \<Rightarrow> None | Some T \<Rightarrow> Some k)"

definition find_task_by_tuid :: "Session \<Rightarrow> nat \<Rightarrow> pid_t option" where
  "find_task_by_tuid s u =
     (case filter (\<lambda>kv. tuid (snd kv) = u) (tasks s) of [] \<Rightarrow> None | kv # _ \<Rightarrow> Some (fst kv))"

text \<open>Following a \<^verbatim>\<open>Task*\<close>: the null pointer faults.\<close>

definition deref :: "Session \<Rightarrow> pid_t option \<Rightarrow> fault + Task" where
  "deref s p =
     (case p of
        None \<Rightarrow> Inl NullPointer
      | Some k \<Rightarrow> (case map_of (tasks s) k of None \<Rightarrow> Inl NullPointer | Some T \<Rightarrow> Inr T))"

definition update_task :: "pid_t \<Rightarrow> Task \<Rightarrow> Session \<Rightarrow> Session" where
  "update_task k T s = s\<lparr>tasks := map (\<lambda>kv. if fst kv = k then (k, T) else kv) (tasks s)\<rparr>"

record WatchConfig =
  wc_addr :: nat
  wc_num_bytes :: nat
  wc_type :: WatchType

record BreakStatus =
  task :: "Task option"
  watchpoints_hit :: "WatchConfig list"
  breakpoint_hit :: bool
  singlestep_complete :: bool
  signal :: int
  task_exit :: bool

text \<open>\<^verbatim>\<open>BreakStatus()\<close>: no task, nothing hit.\<close>

definition new_BreakStatus :: BreakStatus where
  "new_BreakStatus =
     \<lparr>task = None, watchpoints_hit = [], breakpoint_hit = False,
      singlestep_complete = False, signal = 0, task_exit = False\<rparr>"

section \<open>The replay timeline\<close>

text \<open>Modelled from the spec: \<^verbatim>\<open>ReplayTimeline\<close> and its marks are not part of
  GdbServer.cc.  A mark is a comparable handle for one execution point and
  carries that point's registers.  The timeline knows its current session and
  mark, the session the deterministic replay has at each mark, the cache that
  \<^verbatim>\<open>lazy_reverse_singlestep\<close> consults, its breakpoint and watchpoint sets,
  one entry of \<open>explicit_checkpoints\<close> per explicit checkpoint that was added
  and not yet removed, and the list of the seeks it has performed.\<close>

record Mark =
  mark_key :: nat
  mark_regs :: Registers
  mark_extra_regs :: ExtraRegisters

record ReplayTimeline =
  current_session :: Session
  is_running :: bool
  current_mark :: Mark
  session_at :: "Mark \<Rightarrow> Session"
  before_event :: "32 word \<Rightarrow> Mark"
  singlestep_cache :: "Mark \<Rightarrow> nat \<Rightarrow> Mark option"
  tl_breakpoints :: "(nat \<times> nat \<times> GdbBreakpointCondition option) list"
  tl_watchpoints :: "(nat \<times> nat \<times> int \<times> WatchType \<times> GdbBreakpointCondition option) list"
  breakpoints_applied :: bool
  explicit_checkpoints :: "Mark list"
  seeks :: "Mark list"

definition mark :: "ReplayTimeline \<Rightarrow> Mark" where
  "mark tml = current_mark tml"

definition can_add_checkpoint :: "ReplayTimeline \<Rightarrow> bool" where
  "can_add_checkpoint tml = can_clone (current_session tml)"

definition add_explicit_checkpoint :: "ReplayTimeline \<Rightarrow> Mark \<times> ReplayTimeline" where
  "add_explicit_checkpoint tml =
     (mark tml, tml\<lparr>explicit_checkpoints := mark tml # explicit_checkpoints tml\<rparr>)"

definition remove_explicit_checkpoint :: "Mark \<Rightarrow> ReplayTimeline \<Rightarrow> ReplayTimeline" where
  "remove_explicit_checkpoint m tml =
     tml\<lparr>explicit_checkpoints := remove1 m (explicit_checkpoints tml)\<rparr>"

definition seek_to_mark :: "Mark \<Rightarrow> ReplayTimeline \<Rightarrow> ReplayTimeline" where
  "seek_to_mark m tml =
     tml\<lparr>current_session := session_at tml m, current_mark := m, seeks := seeks tml @ [m]\<rparr>"

definition seek_to_before_event :: "32 word \<Rightarrow> ReplayTimeline \<Rightarrow> ReplayTimeline" where
  "seek_to_before_event e tml = seek_to_mark (before_event tml e) tml"

definition lazy_reverse_singlestep :: "ReplayTimeline \<Rightarrow> Mark \<Rightarrow> Task \<Rightarrow> Mark option" where
  "lazy_reverse_singlestep tml from T = singlestep_cache tml from (tuid T)"

definition remove_breakpoints_and_watchpoints :: "ReplayTimeline \<Rightarrow> ReplayTimeline" where
  "remove_breakpoints_and_watchpoints tml =
     tml\<lparr>tl_breakpoints := [], tl_watchpoints := [], breakpoints_applied := False\<rparr>"

definition apply_breakpoints_and_watchpoints :: "ReplayTimeline \<Rightarrow> ReplayTimeline" where
  "apply_breakpoints_and_watchpoints tml = tml\<lparr>breakpoints_applied := True\<rparr>"

text \<open>Modelled from the spec: breakpoints and watchpoints form one set in the
  timeline and are applied lazily before stepping.  A breakpoint can be set
  where the task's address space has a mapped byte; whether the debug registers
  can hold a list of watchpoints is the parameter \<open>fits\<close>.\<close>

definition add_breakpoint ::
  "ReplayTimeline \<Rightarrow> Task \<Rightarrow> nat \<Rightarrow> GdbBreakpointCondition option \<Rightarrow> bool \<times> ReplayTimeline" where
  "add_breakpoint tml T a c =
     (if memory (vms (current_session tml) (vm T)) a = None then (False, tml)
      else (True, tml\<lparr>tl_breakpoints :=
              (vm T, a, c) # filter (\<lambda>b. \<not> (fst b = vm T \<and> fst (snd b) = a)) (tl_breakpoints tml),
              breakpoints_applied := False\<rparr>))"

definition remove_breakpoint :: "ReplayTimeline \<Rightarrow> Task \<Rightarrow> nat \<Rightarrow> ReplayTimeline" where
  "remove_breakpoint tml T a =
     tml\<lparr>tl_breakpoints := filter (\<lambda>b. \<not> (fst b = vm T \<and> fst (snd b) = a)) (tl_breakpoints tml),
        breakpoints_applied := False\<rparr>"

definition same_watch :: "nat \<Rightarrow> nat \<Rightarrow> int \<Rightarrow> WatchType \<Rightarrow>
    (nat \<times> nat \<times> int \<times> WatchType \<times> GdbBreakpointCondition option) \<Rightarrow> bool" where
  "same_watch v a k ty w =
     (fst w = v \<and> fst (snd w) = a \<and> fst (snd (snd w)) = k \<and> fst (snd (snd (snd w))) = ty)"

definition add_watchpoint ::
  "((nat \<times> int \<times> WatchType) list \<Rightarrow> bool) \<Rightarrow> ReplayTimeline \<Rightarrow> Task \<Rightarrow> nat \<Rightarrow> int \<Rightarrow> WatchType \<Rightarrow>
     GdbBreakpointCondition option \<Rightarrow> bool \<times> ReplayTimeline" where
  "add_watchpoint fits tml T a k ty c =
     (let others = filter (\<lambda>w. \<not> same_watch (vm T) a k ty w) (tl_watchpoints tml)
      in if fits ((a, k, ty) #
                  map (\<lambda>w. (fst (snd w), fst (snd (snd w)), fst (snd (snd (snd w)))))
                    (filter (\<lambda>w. fst w = vm T) others))
         then (True, tml\<lparr>tl_watchpoints := (vm T, a, k, ty, c) # others, breakpoints_applied := False\<rparr>)
         else (False, tml))"

definition remove_watchpoint :: "ReplayTimeline \<Rightarrow> Task \<Rightarrow> nat \<Rightarrow> int \<Rightarrow> WatchType \<Rightarrow> ReplayTimeline" where
  "remove_watchpoint tml T a k ty =
     tml\<lparr>tl_watchpoints := filter (\<lambda>w. \<not> same_watch (vm T) a k ty w) (tl_watchpoints tml),
        breakpoints_applied := False\<rparr>"

text \<open>Modelled from the spec: the task primitive's memory access and the
  address space's own trap table.  A read is fallible and stops at the first
  unmapped byte (\<open>-1\<close> when nothing could be read); a software breakpoint keeps
  the original byte and puts the trap instruction \<open>0xCC\<close> in its place.\<close>

fun read_prefix :: "(nat \<Rightarrow> byte option) \<Rightarrow> nat \<Rightarrow> nat \<Rightarrow> byte list" where
  "read_prefix m a 0 = []"
| "read_prefix m a (Suc n) = (case m a of None \<Rightarrow> [] | Some b \<Rightarrow> b # read_prefix m (Suc a) n)"

definition read_bytes_fallible :: "AddressSpace \<Rightarrow> nat \<Rightarrow> nat \<Rightarrow> int \<times> byte list" where
  "read_bytes_fallible v a n =
     (let bs = read_prefix (memory v) a n
      in (if bs = [] \<and> 0 < n then -1 else int (length bs), bs))"

definition replace_breakpoints_with_original_values :: "AddressSpace \<Rightarrow> byte list \<Rightarrow> nat \<Rightarrow> byte list" where
  "replace_breakpoints_with_original_values v bs a =
     map (\<lambda>i. case vm_breakpoints v (a + i) of None \<Rightarrow> bs ! i | Some b \<Rightarrow> b) [0..<length bs]"

fun write_bytes :: "nat \<Rightarrow> byte list \<Rightarrow> (nat \<Rightarrow> byte option) \<Rightarrow> (nat \<Rightarrow> byte option)" where
  "write_bytes a [] m = m"
| "write_bytes a (b # bs) m = write_bytes (Suc a) bs (m(a \<mapsto> b))"

definition vm_add_breakpoint :: "nat \<Rightarrow> AddressSpace \<Rightarrow> bool \<times> AddressSpace" where
  "vm_add_breakpoint a v =
     (case memory v a of
        None \<Rightarrow> (False, v)
      | Some b \<Rightarrow>
          (True, v\<lparr>memory := (memory v)(a \<mapsto> 0xCC),
                   vm_breakpoints := (vm_breakpoints v)(a \<mapsto>
                     (case vm_breakpoints v a of None \<Rightarrow> b | Some orig \<Rightarrow> orig))\<rparr>))"

definition vm_remove_breakpoint :: "nat \<Rightarrow> AddressSpace \<Rightarrow> AddressSpace" where
  "vm_remove_breakpoint a v =
     (case vm_breakpoints v a of
        None \<Rightarrow> v
      | Some orig \<Rightarrow> v\<lparr>memory := (memory v)(a \<mapsto> orig), vm_breakpoints := (vm_breakpoints v)(a := None)\<rparr>)"

definition vm_add_watchpoint ::
  "((nat \<times> int \<times> WatchType) list \<Rightarrow> bool) \<Rightarrow> nat \<Rightarrow> int \<Rightarrow> WatchType \<Rightarrow> AddressSpace \<Rightarrow> bool \<times> AddressSpace" where
  "vm_add_watchpoint fits a k ty v =
     (if fits ((a, k, ty) # vm_watchpoints v)
      then (True, v\<lparr>vm_watchpoints := (a, k, ty) # vm_watchpoints v\<rparr>)
      else (False, v))"

definition vm_remove_watchpoint :: "nat \<Rightarrow> int \<Rightarrow> WatchType \<Rightarrow> AddressSpace \<Rightarrow> AddressSpace" where
  "vm_remove_watchpoint a k ty v = v\<lparr>vm_watchpoints := remove1 (a, k, ty) (vm_watchpoints v)\<rparr>"

definition update_vm :: "nat \<Rightarrow> AddressSpace \<Rightarrow> Session \<Rightarrow> Session" where
  "update_vm i v s = s\<lparr>vms := (vms s)(i := v)\<rparr>"

section \<open>The server state and its external collaborators\<close>

record Target =
  event :: "32 word"
  target_pid :: pid_t
  require_exec :: bool

record GdbServer =
  timeline :: ReplayTimeline
  dbg :: GdbConnection
  checkpoints :: "int \<Rightarrow> Mark option"
  debugger_restart_mark :: "Mark option"
  debuggee_tguid :: nat
  srv_target :: Target
  stop_replaying_to_target :: bool

text \<open>The \<^verbatim>\<open>Session& session\<close> argument of the dispatcher either is the
  timeline's current session itself or another session object (a diversion).
  The code compares the two addresses, so the model keeps the difference.\<close>

datatype session_ref = Current | Other Session

definition the_session :: "GdbServer \<Rightarrow> session_ref \<Rightarrow> Session" where
  "the_session srv sr = (case sr of Current \<Rightarrow> current_session (timeline srv) | Other s \<Rightarrow> s)"

definition put_session :: "GdbServer \<Rightarrow> session_ref \<Rightarrow> Session \<Rightarrow> GdbServer \<times> session_ref" where
  "put_session srv sr s =
     (case sr of
        Current \<Rightarrow> (srv\<lparr>timeline := (timeline srv)\<lparr>current_session := s\<rparr>\<rparr>, Current)
      | Other _ \<Rightarrow> (srv, Other s))"

datatype auxv_file = OpenFails | ReadFails | Content "byte list"

datatype ReplayStatus = REPLAY_CONTINUE | REPLAY_EXITED

record ReplayResult =
  replay_status :: ReplayStatus
  replay_break_status :: BreakStatus

datatype DiversionStatus = DIVERSION_CONTINUE | DIVERSION_EXITED

record DiversionResult =
  diversion_status :: DiversionStatus
  diversion_break_status :: BreakStatus

text \<open>What GdbServer.cc calls and does not define, as parameters: the replay
  and diversion engines, the instruction-tracing switch, the file
  \<^verbatim>\<open>/proc/<tgid>/auxv\<close>, the debug-register allocator and the numbers of the
  two registers that hold the original system-call number.\<close>

record extern =
  replay_step :: "ReplayTimeline \<Rightarrow> RunCommand \<Rightarrow> RunDirection \<Rightarrow> 32 word \<Rightarrow> ReplayResult \<times> ReplayTimeline"
  diversion_step :: "Session \<Rightarrow> pid_t \<Rightarrow> RunCommand \<Rightarrow> int \<Rightarrow> DiversionResult \<times> Session"
  trace_instructions_up_to_event :: "32 word \<Rightarrow> bool"
  proc_auxv :: "pid_t \<Rightarrow> auxv_file"
  watchpoints_fit :: "(nat \<times> int \<times> WatchType) list \<Rightarrow> bool"
  DREG_ORIG_EAX :: GdbRegister
  DREG_ORIG_RAX :: GdbRegister

text \<open>Modelled from the spec: \<^verbatim>\<open>ReplaySession::clone_diversion\<close> forks a
  diversion session from the replay session; the replay session is not
  changed.\<close>

definition clone_diversion :: "Session \<Rightarrow> Session" where
  "clone_diversion s = s\<lparr>session_kind := DIVERSION\<rparr>"

section \<open>Helpers of GdbServer.cc\<close>

definition and_then :: "fault + 'a \<Rightarrow> ('a \<Rightarrow> fault + 'b) \<Rightarrow> fault + 'b" where
  "and_then m f = (case m of Inl e \<Rightarrow> Inl e | Inr x \<Rightarrow> f x)"

definition reply_to :: "GdbServer \<Rightarrow> reply \<Rightarrow> GdbServer" where
  "reply_to srv r = srv\<lparr>dbg := send r (dbg srv)\<rparr>"

text \<open>\<^verbatim>\<open>read_register(buf, regname, &defined)\<close> of \<^verbatim>\<open>Registers\<close> and of
  \<^verbatim>\<open>ExtraRegisters\<close>: the bytes written to \<^verbatim>\<open>buf\<close>, their number, and
  \<^verbatim>\<open>defined\<close>.\<close>

definition read_register :: "(GdbRegister \<Rightarrow> byte list option) \<Rightarrow> GdbRegister \<Rightarrow> byte list \<times> nat \<times> bool" where
  "read_register vals regname =
     (case vals regname of None \<Rightarrow> ([], 0, False) | Some bs \<Rightarrow> (bs, length bs, True))"

definition write_register :: "GdbRegister \<Rightarrow> byte list \<Rightarrow> nat \<Rightarrow> Registers \<Rightarrow> Registers" where
  "write_register regname v n r = r\<lparr>reg_values := (reg_values r)(regname \<mapsto> take n v)\<rparr>"

text \<open>The static helper \<^verbatim>\<open>get_reg\<close>.\<close>

definition get_reg_static :: "Registers \<Rightarrow> ExtraRegisters \<Rightarrow> GdbRegister \<Rightarrow> byte list \<times> nat \<times> bool" where
  "get_reg_static rs extra regname =
     (case read_register (reg_values rs) regname of
        (buf, num_bytes, defined) \<Rightarrow>
          if \<not> defined then read_register (extra_values extra) regname
          else (buf, num_bytes, defined))"

text \<open>\<^verbatim>\<open>GdbServer::get_reg\<close>.\<close>

definition get_reg :: "Registers \<Rightarrow> ExtraRegisters \<Rightarrow> GdbRegister \<Rightarrow> GdbRegisterValue" where
  "get_reg rs extra which =
     (case get_reg_static rs extra which of
        (buf, num_bytes, defined) \<Rightarrow>
          \<lparr>reg_name = which, reg_value = buf, reg_size = num_bytes, reg_defined = defined\<rparr>)"

definition get_threadid :: "Task \<Rightarrow> GdbThreadId" where
  "get_threadid T = \<lparr>pid = tgid (task_group T), tid = rec_tid T\<rparr>"

definition matches_threadid :: "Task \<Rightarrow> GdbThreadId \<Rightarrow> bool" where
  "matches_threadid T tg =
     ((pid tg \<le> 0 \<or> pid tg = tgid (task_group T)) \<and> (tid tg \<le> 0 \<or> tid tg = rec_tid T))"

definition watchpoint_type :: "GdbRequestType \<Rightarrow> fault + WatchType" where
  "watchpoint_type r =
     (if r = DREQ_SET_HW_BREAK \<or> r = DREQ_REMOVE_HW_BREAK then Inr WATCH_EXEC
      else if r = DREQ_SET_WR_WATCH \<or> r = DREQ_REMOVE_WR_WATCH then Inr WATCH_WRITE
      else if r = DREQ_REMOVE_RDWR_WATCH \<or> r = DREQ_SET_RDWR_WATCH
              \<or> r = DREQ_REMOVE_RD_WATCH \<or> r = DREQ_SET_RD_WATCH then Inr WATCH_READWRITE
      else Inl FatalError)"

text \<open>\<^verbatim>\<open>memcpy\<close> between a byte buffer and an integer on the little-endian
  hosts the program runs on.\<close>

definition le_word32 :: "byte list \<Rightarrow> 32 word" where
  "le_word32 bs = foldr (\<lambda>b w. ucast b OR push_bit 8 w) bs 0"

definition le_bytes64 :: "64 word \<Rightarrow> byte list" where
  "le_bytes64 w = map (\<lambda>i. ucast (drop_bit (8 * i) w)) [0..<8]"

definition maybe_singlestep_for_event :: "extern \<Rightarrow> Session \<Rightarrow> Task \<Rightarrow> GdbRequest \<Rightarrow> GdbRequest" where
  "maybe_singlestep_for_event X s T req =
     (if trace_instructions_up_to_event X (trace_time s)
      then (new_GdbRequest DREQ_CONT)
             \<lparr>suppress_debugger_stop := True,
              cont := \<lparr>run_direction = RUN_FORWARD,
                       actions = [\<lparr>action_type = ACTION_STEP, action_target = get_threadid T,
                                   signal_to_deliver = 0\<rparr>]\<rparr>\<rparr>
      else req)"

section \<open>The magic channel\<close>

definition maybe_process_magic_command :: "GdbServer \<Rightarrow> GdbRequest \<Rightarrow> fault + (bool \<times> GdbServer)" where
  "maybe_process_magic_command srv req =
     (if \<not> (addr (mem req) = DBG_COMMAND_MAGIC_ADDRESS \<and> len (mem req) = 4) then Inr (False, srv)
      else if length (data (mem req)) < 4 then Inl OutOfBounds
      else
        let cmd = le_word32 (take 4 (data (mem req)));
            param = uint (cmd AND DBG_COMMAND_PARAMETER_MASK)
        in if cmd AND DBG_COMMAND_MSG_MASK = DBG_COMMAND_MSG_CREATE_CHECKPOINT then
             (if can_add_checkpoint (timeline srv) then
                (case add_explicit_checkpoint (timeline srv) of
                   (m, tml') \<Rightarrow>
                     Inr (True, reply_to (srv\<lparr>timeline := tml', checkpoints := (checkpoints srv)(param \<mapsto> m)\<rparr>)
                                  (reply_set_mem True)))
              else Inr (True, reply_to srv (reply_set_mem True)))
           else if cmd AND DBG_COMMAND_MSG_MASK = DBG_COMMAND_MSG_DELETE_CHECKPOINT then
             (case checkpoints srv param of
                Some m \<Rightarrow>
                  Inr (True, reply_to (srv\<lparr>timeline := remove_explicit_checkpoint m (timeline srv),
                                           checkpoints := (checkpoints srv)(param := None)\<rparr>)
                               (reply_set_mem True))
              | None \<Rightarrow> Inr (True, reply_to srv (reply_set_mem True)))
           else Inr (False, srv))"

definition maybe_process_magic_read :: "GdbServer \<Rightarrow> Session \<Rightarrow> GdbRequest \<Rightarrow> bool \<times> GdbServer" where
  "maybe_process_magic_read srv s req =
     (if addr (mem req) = DBG_WHEN_MAGIC_ADDRESS \<and> len (mem req) = 8 then
        let when = (if as_replay s then ucast (trace_time s) else (-1 :: 64 word))
        in (True, reply_to srv (reply_get_mem (le_bytes64 when)))
      else (False, srv))"

definition dispatch_regs_request :: "GdbServer \<Rightarrow> Registers \<Rightarrow> ExtraRegisters \<Rightarrow> GdbServer" where
  "dispatch_regs_request srv rs extra =
     reply_to srv (reply_get_regs (map (get_reg rs extra) [0..<total_registers rs]))"

section \<open>The stop reporter\<close>

definition is_last_thread_exit :: "BreakStatus \<Rightarrow> fault + bool" where
  "is_last_thread_exit break_status =
     (if \<not> task_exit break_status then Inr False
      else (case task break_status of
              None \<Rightarrow> Inl NullPointer
            | Some T \<Rightarrow> Inr (length (task_set (task_group T)) = 1)))"

text \<open>The value of \<^verbatim>\<open>sig\<close> and of \<^verbatim>\<open>watch_addr\<close> when
  \<^verbatim>\<open>maybe_notify_stop\<close> reaches its last test; \<open>last_exit\<close> is the value of
  \<^verbatim>\<open>is_last_thread_exit(break_status)\<close>.\<close>

definition stop_signal :: "BreakStatus \<Rightarrow> bool \<Rightarrow> bool \<Rightarrow> int" where
  "stop_signal break_status last_exit rev_exec =
     (let sig = -1;
          sig = (if watchpoints_hit break_status \<noteq> [] then SIGTRAP else sig);
          sig = (if breakpoint_hit break_status \<or> singlestep_complete break_status then SIGTRAP else sig);
          sig = (if signal break_status \<noteq> 0 then signal break_status else sig);
          sig = (if last_exit \<and> rev_exec then SIGKILL else sig)
      in sig)"

definition stop_watch_addr :: "BreakStatus \<Rightarrow> nat" where
  "stop_watch_addr break_status =
     (case watchpoints_hit break_status of [] \<Rightarrow> 0 | w # _ \<Rightarrow> wc_addr w)"

definition maybe_notify_stop :: "GdbServer \<Rightarrow> BreakStatus \<Rightarrow> fault + GdbServer" where
  "maybe_notify_stop srv break_status =
     and_then (is_last_thread_exit break_status) (\<lambda>last_exit.
       let sig = stop_signal break_status last_exit (reverse_execution (dbg srv))
       in if 0 \<le> sig then
            (case task break_status of
               None \<Rightarrow> Inl NullPointer
             | Some T \<Rightarrow> Inr (reply_to srv (notify_stop (get_threadid T) sig (stop_watch_addr break_status))))
          else Inr srv)"

fun compute_run_command_from_actions_loop :: "Task \<Rightarrow> GdbContAction list \<Rightarrow> RunCommand \<times> int" where
  "compute_run_command_from_actions_loop T [] = (RUN_CONTINUE, 0)"
| "compute_run_command_from_actions_loop T (a # as) =
     (if matches_threadid T (action_target a)
      then (if action_type a = ACTION_STEP then RUN_SINGLESTEP else RUN_CONTINUE, signal_to_deliver a)
      else compute_run_command_from_actions_loop T as)"

definition compute_run_command_from_actions :: "Task \<Rightarrow> GdbRequest \<Rightarrow> RunCommand \<times> int" where
  "compute_run_command_from_actions T req =
     compute_run_command_from_actions_loop T (actions (cont req))"

section \<open>The request dispatcher\<close>

definition sizeof_GdbAuxvPair :: nat where
  "sizeof_GdbAuxvPair = 16"

definition sizeof_breakpoint_insn :: int where
  "sizeof_breakpoint_insn = 1"

text \<open>The third \<^verbatim>\<open>switch\<close> of \<^verbatim>\<open>dispatch_debugger_request\<close>: the requests
  that need a valid target task.  \<open>t\<close> is the \<^verbatim>\<open>Task* t\<close> of the caller and
  \<open>tg\<close> the non-null \<^verbatim>\<open>target\<close>.\<close>

definition dispatch_target_request ::
  "extern \<Rightarrow> GdbServer \<Rightarrow> session_ref \<Rightarrow> pid_t option \<Rightarrow> pid_t \<Rightarrow> GdbRequest \<Rightarrow> fault + (GdbServer \<times> session_ref)" where
  "dispatch_target_request X srv sr t tg req =
     (let session = the_session srv sr in
      and_then (deref session (Some tg)) (\<lambda>TG.
      if req_type req = DREQ_GET_AUXV then
        (case proc_auxv X (real_tgid (task_group TG)) of
           OpenFails \<Rightarrow> Inr (reply_to srv (reply_get_auxv []), sr)
         | ReadFails \<Rightarrow> Inr (reply_to srv (reply_get_auxv []), sr)
         | Content bs \<Rightarrow>
             let n = min (length bs) (sizeof_GdbAuxvPair * 4096)
             in if n mod sizeof_GdbAuxvPair \<noteq> 0 then Inl AssertionFailed
                else Inr (reply_to srv (reply_get_auxv (take n bs)), sr))
      else if req_type req = DREQ_GET_MEM then
        (case maybe_process_magic_read srv session req of
           (True, srv') \<Rightarrow> Inr (srv', sr)
         | (False, _) \<Rightarrow>
             (case read_bytes_fallible (vms session (vm TG)) (addr (mem req)) (len (mem req)) of
                (nread, buf) \<Rightarrow>
                  let m = take (nat (max 0 nread)) buf
                  in Inr (reply_to srv (reply_get_mem
                            (replace_breakpoints_with_original_values (vms session (vm TG)) m (addr (mem req)))),
                          sr)))
      else if req_type req = DREQ_SET_MEM then
        (if len (mem req) = 0 then Inr (reply_to srv (reply_set_mem True), sr)
         else
           and_then (maybe_process_magic_command srv req) (\<lambda>(handled, srv').
             if handled then Inr (srv', sr)
             else if \<not> is_diversion session then Inr (reply_to srv (reply_set_mem False), sr)
             else if length (data (mem req)) < len (mem req) then Inl OutOfBounds
             else
               let v = vms session (vm TG);
                   v' = v\<lparr>memory := write_bytes (addr (mem req)) (take (len (mem req)) (data (mem req))) (memory v)\<rparr>
               in (case put_session srv sr (update_vm (vm TG) v' session) of
                     (srv1, sr1) \<Rightarrow> Inr (reply_to srv1 (reply_set_mem True), sr1))))
      else if req_type req = DREQ_GET_REG then
        Inr (reply_to srv (reply_get_reg (get_reg (regs TG) (extra_regs TG) (reg_name (reg req)))), sr)
      else if req_type req = DREQ_GET_REGS then
        Inr (dispatch_regs_request srv (regs TG) (extra_regs TG), sr)
      else if req_type req = DREQ_SET_REG then
        (if \<not> is_diversion session then
           and_then (deref session t) (\<lambda>T.
             if (arch T = x86 \<and> reg_name (reg req) = DREG_ORIG_EAX X)
                \<or> (arch T = x86_64 \<and> reg_name (reg req) = DREG_ORIG_RAX X)
             then Inr (reply_to srv (reply_set_reg True), sr)
             else Inr (reply_to srv (reply_set_reg False), sr))
         else if reg_defined (reg req) then
           (let rs = write_register (reg_name (reg req)) (reg_value (reg req)) (reg_size (reg req)) (regs TG)
            in (case put_session srv sr (update_task tg (TG\<lparr>regs := rs\<rparr>) session) of
                  (srv1, sr1) \<Rightarrow> Inr (reply_to srv1 (reply_set_reg True), sr1)))
         else Inr (reply_to srv (reply_set_reg True), sr))
      else if req_type req = DREQ_GET_STOP_REASON then
        Inr (reply_to srv (reply_get_stop_reason (get_threadid TG) (child_sig TG)), sr)
      else if req_type req = DREQ_SET_SW_BREAK then
        (if kind (watch req) \<noteq> sizeof_breakpoint_insn then Inl AssertionFailed
         else
           and_then (deref session t) (\<lambda>T.
           and_then (deref (current_session (timeline srv))
                       (find_task_by_tuid (current_session (timeline srv)) (tuid T))) (\<lambda>replay_task.
             (case add_breakpoint (timeline srv) replay_task (watch_address (watch req))
                     (breakpoint_condition (conditions (watch req))) of
                (ok, tml') \<Rightarrow>
                  if ok \<and> sr \<noteq> Current then
                    (case vm_add_breakpoint (watch_address (watch req)) (vms session (vm TG)) of
                       (diversion_ok, v') \<Rightarrow>
                         if \<not> diversion_ok then Inl AssertionFailed
                         else (case put_session (srv\<lparr>timeline := tml'\<rparr>) sr (update_vm (vm TG) v' session) of
                                 (srv1, sr1) \<Rightarrow> Inr (reply_to srv1 (reply_watchpoint_request ok), sr1)))
                  else Inr (reply_to (srv\<lparr>timeline := tml'\<rparr>) (reply_watchpoint_request ok), sr)))))
      else if req_type req = DREQ_SET_HW_BREAK \<or> req_type req = DREQ_SET_RD_WATCH
              \<or> req_type req = DREQ_SET_WR_WATCH \<or> req_type req = DREQ_SET_RDWR_WATCH then
        and_then (deref session t) (\<lambda>T.
        and_then (deref (current_session (timeline srv))
                    (find_task_by_tuid (current_session (timeline srv)) (tuid T))) (\<lambda>replay_task.
        and_then (watchpoint_type (req_type req)) (\<lambda>ty.
          (case add_watchpoint (watchpoints_fit X) (timeline srv) replay_task (watch_address (watch req))
                  (kind (watch req)) ty (breakpoint_condition (conditions (watch req))) of
             (ok, tml') \<Rightarrow>
               if ok \<and> sr \<noteq> Current then
                 (case vm_add_watchpoint (watchpoints_fit X) (watch_address (watch req)) (kind (watch req)) ty
                         (vms session (vm TG)) of
                    (diversion_ok, v') \<Rightarrow>
                      if \<not> diversion_ok then Inl AssertionFailed
                      else (case put_session (srv\<lparr>timeline := tml'\<rparr>) sr (update_vm (vm TG) v' session) of
                              (srv1, sr1) \<Rightarrow> Inr (reply_to srv1 (reply_watchpoint_request ok), sr1)))
               else Inr (reply_to (srv\<lparr>timeline := tml'\<rparr>) (reply_watchpoint_request ok), sr)))))
      else if req_type req = DREQ_REMOVE_SW_BREAK then
        and_then (deref session t) (\<lambda>T.
        and_then (deref (current_session (timeline srv))
                    (find_task_by_tuid (current_session (timeline srv)) (tuid T))) (\<lambda>replay_task.
          let srv' = srv\<lparr>timeline := remove_breakpoint (timeline srv) replay_task (watch_address (watch req))\<rparr>
          in if sr \<noteq> Current then
               (case put_session srv' sr
                       (update_vm (vm TG) (vm_remove_breakpoint (watch_address (watch req)) (vms session (vm TG)))
                          session) of
                  (srv1, sr1) \<Rightarrow> Inr (reply_to srv1 (reply_watchpoint_request True), sr1))
             else Inr (reply_to srv' (reply_watchpoint_request True), sr)))
      else if req_type req = DREQ_REMOVE_HW_BREAK \<or> req_type req = DREQ_REMOVE_RD_WATCH
              \<or> req_type req = DREQ_REMOVE_WR_WATCH \<or> req_type req = DREQ_REMOVE_RDWR_WATCH then
        and_then (deref session t) (\<lambda>T.
        and_then (deref (current_session (timeline srv))
                    (find_task_by_tuid (current_session (timeline srv)) (tuid T))) (\<lambda>replay_task.
        and_then (watchpoint_type (req_type req)) (\<lambda>ty.
          let srv' = srv\<lparr>timeline := remove_watchpoint (timeline srv) replay_task (watch_address (watch req))
                                         (kind (watch req)) ty\<rparr>
          in if sr \<noteq> Current then
               (case put_session srv' sr
                       (update_vm (vm TG)
                          (vm_remove_watchpoint (watch_address (watch req)) (kind (watch req)) ty (vms session (vm TG)))
                          session) of
                  (srv1, sr1) \<Rightarrow> Inr (reply_to srv1 (reply_watchpoint_request True), sr1))
             else Inr (reply_to srv' (reply_watchpoint_request True), sr))))
      else if req_type req = DREQ_READ_SIGINFO then
        Inr (reply_to srv (reply_read_siginfo []), sr)
      else if req_type req = DREQ_WRITE_SIGINFO then
        Inr (reply_to srv (reply_write_siginfo), sr)
      else Inl FatalError))"

text \<open>\<^verbatim>\<open>GdbServer::dispatch_debugger_request(session, t, req, state)\<close>: the
  first two \<^verbatim>\<open>switch\<close> statements, the computation of \<^verbatim>\<open>target\<close> between
  them, and the test for a null target before the third.\<close>

definition dispatch_debugger_request ::
  "extern \<Rightarrow> GdbServer \<Rightarrow> session_ref \<Rightarrow> pid_t option \<Rightarrow> GdbRequest \<Rightarrow> ReportState \<Rightarrow>
     fault + (GdbServer \<times> session_ref)" where
  "dispatch_debugger_request X srv sr t req state =
     (let session = the_session srv sr in
      if is_resume_request req then Inl AssertionFailed
      else if req_type req = DREQ_RESTART then Inl AssertionFailed
      else if req_type req = DREQ_GET_CURRENT_THREAD then
        and_then (deref session t) (\<lambda>T. Inr (reply_to srv (reply_get_current_thread (get_threadid T)), sr))
      else if req_type req = DREQ_GET_OFFSETS then
        Inr (reply_to srv reply_get_offsets, sr)
      else if req_type req = DREQ_GET_THREAD_LIST then
        Inr (reply_to srv (reply_get_thread_list
               (if state \<noteq> REPORT_THREADS_DEAD then map (\<lambda>kv. get_threadid (snd kv)) (tasks session) else [])),
             sr)
      else if req_type req = DREQ_INTERRUPT then
        and_then (deref session t) (\<lambda>T. Inr (reply_to srv (notify_stop (get_threadid T) 0 0), sr))
      else
        and_then (if 0 < tid (target req)
                  then and_then (deref session t) (\<lambda>T. Inr (find_task session (tid (target req))))
                  else Inr t) (\<lambda>tg.
          if req_type req = DREQ_GET_IS_THREAD_ALIVE then
            Inr (reply_to srv (reply_get_is_thread_alive (tg \<noteq> None)), sr)
          else if req_type req = DREQ_GET_THREAD_EXTRA_INFO then
            and_then (deref session tg) (\<lambda>TG. Inr (reply_to srv (reply_get_thread_extra_info (name TG)), sr))
          else if req_type req = DREQ_SET_CONTINUE_THREAD \<or> req_type req = DREQ_SET_QUERY_THREAD then
            Inr (reply_to srv (reply_select_thread (tg \<noteq> None)), sr)
          else
            (case tg of
               None \<Rightarrow> Inr (reply_to srv (notify_no_such_thread req), sr)
             | Some k \<Rightarrow> dispatch_target_request X srv sr t k req)))"

section \<open>The diversion controller\<close>

lemma and_then_cong [fundef_cong]:
  "m = m' \<Longrightarrow> (\<And>x. m' = Inr x \<Longrightarrow> f x = f' x) \<Longrightarrow> and_then m f = and_then m' f'"
  by (auto simp: and_then_def split: sum.splits)

text \<open>\<^verbatim>\<open>diverter_process_debugger_requests(t, diversion_session,
  diversion_refcount, req)\<close>.  The result holds the returned \<^verbatim>\<open>Task*\<close>, the
  request \<^verbatim>\<open>*req\<close>, the server, the diversion session, the reference count
  and the requests not read yet.\<close>

fun diverter_process_debugger_requests ::
  "extern \<Rightarrow> GdbServer \<Rightarrow> pid_t option \<Rightarrow> Session \<Rightarrow> 32 word \<Rightarrow> GdbRequest list \<Rightarrow>
     fault + (pid_t option \<times> GdbRequest \<times> GdbServer \<times> Session \<times> 32 word \<times> GdbRequest list)" where
  "diverter_process_debugger_requests X srv t diversion_session diversion_refcount [] = Inl NoRequest"
| "diverter_process_debugger_requests X srv t diversion_session diversion_refcount (req # rest) =
     (if is_resume_request req then
        (if diversion_refcount = 0 then Inr (None, req, srv, diversion_session, diversion_refcount, rest)
         else Inr (t, req, srv, diversion_session, diversion_refcount, rest))
      else if req_type req = DREQ_RESTART \<or> req_type req = DREQ_DETACH then
        Inr (None, req, srv, diversion_session, 0, rest)
      else if req_type req = DREQ_READ_SIGINFO then
        diverter_process_debugger_requests X
          (reply_to srv (reply_read_siginfo (replicate (len (mem req)) 0)))
          t diversion_session (diversion_refcount + 1) rest
      else if req_type req = DREQ_WRITE_SIGINFO then
        (if \<not> 0 < diversion_refcount then Inl AssertionFailed
         else diverter_process_debugger_requests X (reply_to srv reply_write_siginfo)
                t diversion_session (diversion_refcount - 1) rest)
      else
        (case (if req_type req = DREQ_SET_QUERY_THREAD \<and> tid (target req) \<noteq> 0
               then (case deref diversion_session t of
                       Inl e \<Rightarrow> Inl e
                     | Inr T \<Rightarrow> Inr (case find_task diversion_session (tid (target req)) of
                                        None \<Rightarrow> t | Some next \<Rightarrow> Some next))
               else Inr t) of
           Inl e \<Rightarrow> Inl e
         | Inr t' \<Rightarrow>
             (case dispatch_debugger_request X srv (Other diversion_session) t' req REPORT_NORMAL of
                Inl e \<Rightarrow> Inl e
              | Inr (srv', sr') \<Rightarrow>
                  diverter_process_debugger_requests X srv' t'
                    (case sr' of Other s' \<Rightarrow> s' | Current \<Rightarrow> diversion_session)
                    diversion_refcount rest)))"

lemma diverter_process_debugger_requests_consumes:
  "diverter_process_debugger_requests X srv t ds rc reqs = Inr (t', req, srv', ds', rc', rest)
   \<Longrightarrow> length rest < length reqs"
proof (induction X srv t ds rc reqs rule: diverter_process_debugger_requests.induct)
  case (1 X srv t ds rc)
  then show ?case by simp
next
  case (2 X srv t ds rc req rs)
  then show ?case
    by (fastforce split: if_splits sum.splits prod.splits)
qed

text \<open>The \<^verbatim>\<open>while (true)\<close> loop of \<^verbatim>\<open>divert\<close>, with the assertion and the
  return that follow it.  Killing the tasks of the diversion session ends the
  session: nothing of it is returned.\<close>

function divert_loop ::
  "extern \<Rightarrow> GdbServer \<Rightarrow> pid_t option \<Rightarrow> Session \<Rightarrow> 32 word \<Rightarrow> GdbRequest list \<Rightarrow>
     fault + (GdbRequest \<times> GdbServer \<times> GdbRequest list)" where
  "divert_loop X srv t diversion_session diversion_refcount reqs =
     (case diverter_process_debugger_requests X srv t diversion_session diversion_refcount reqs of
        Inl e \<Rightarrow> Inl e
      | Inr (t', req, srv', ds', rc', rest) \<Rightarrow>
          (case t' of
             None \<Rightarrow> if rc' \<noteq> 0 then Inl AssertionFailed else Inr (req, srv', rest)
           | Some k \<Rightarrow>
               (case deref ds' t' of
                  Inl e \<Rightarrow> Inl e
                | Inr T \<Rightarrow>
                    if run_direction (cont req) = RUN_BACKWARD then
                      divert_loop X (reply_to srv' (notify_stop (get_threadid T) SIGTRAP 0)) t' ds' rc' rest
                    else
                      (case compute_run_command_from_actions T req of
                         (command, to_deliver) \<Rightarrow>
                           (case diversion_step X ds' k command to_deliver of
                              (result, ds'') \<Rightarrow>
                                if diversion_status result = DIVERSION_EXITED then
                                  Inr (new_GdbRequest DREQ_NONE, srv', rest)
                                else
                                  (case maybe_notify_stop srv' (diversion_break_status result) of
                                     Inl e \<Rightarrow> Inl e
                                   | Inr srv'' \<Rightarrow> divert_loop X srv'' t' ds'' rc' rest))))))"
  by pat_completeness auto
termination
  by (relation "measure (\<lambda>(X, srv, t, ds, rc, reqs). length reqs)")
    (auto dest: diverter_process_debugger_requests_consumes)

declare divert_loop.simps [simp del]

text \<open>\<^verbatim>\<open>GdbServer::divert(replay, task)\<close>.\<close>

definition divert ::
  "extern \<Rightarrow> GdbServer \<Rightarrow> Session \<Rightarrow> pid_t \<Rightarrow> GdbRequest list \<Rightarrow>
     fault + (GdbRequest \<times> GdbServer \<times> GdbRequest list)" where
  "divert X srv replay task_id reqs =
     (let srv1 = (if is_running (timeline srv)
                  then srv\<lparr>timeline := apply_breakpoints_and_watchpoints (timeline srv)\<rparr>
                  else srv);
          diversion_session = clone_diversion replay;
          diversion_refcount = 1;
          t = find_task diversion_session task_id
      in divert_loop X srv1 t diversion_session diversion_refcount reqs)"

section \<open>The reverse-step fast path\<close>

text \<open>The inner \<^verbatim>\<open>while (true)\<close> loop of \<^verbatim>\<open>try_lazy_reverse_singlesteps\<close>:
  it answers \<^verbatim>\<open>get_regs\<close> requests from the registers of the mark \<open>now\<close>
  and returns the first request of another type.\<close>

fun lazy_get_regs_loop ::
  "GdbServer \<Rightarrow> Mark \<Rightarrow> GdbRequest list \<Rightarrow> fault + (GdbRequest \<times> GdbServer \<times> GdbRequest list)" where
  "lazy_get_regs_loop srv now [] = Inl NoRequest"
| "lazy_get_regs_loop srv now (r # rest) =
     (let req = r\<lparr>suppress_debugger_stop := False\<rparr>
      in if req_type req \<noteq> DREQ_GET_REGS then Inr (req, srv, rest)
         else lazy_get_regs_loop (dispatch_regs_request srv (mark_regs now) (mark_extra_regs now)) now rest)"

lemma lazy_get_regs_loop_consumes:
  "lazy_get_regs_loop srv now reqs = Inr (req, srv', rest) \<Longrightarrow> length rest < length reqs"
  by (induction srv now reqs rule: lazy_get_regs_loop.induct)
    (auto simp: Let_def split: if_splits)

text \<open>The condition of the outer \<^verbatim>\<open>while\<close>, which dereferences \<^verbatim>\<open>t\<close> only
  when the tests before \<^verbatim>\<open>matches_threadid\<close> hold.\<close>

definition lazy_step_requested :: "Session \<Rightarrow> pid_t option \<Rightarrow> GdbRequest \<Rightarrow> fault + bool" where
  "lazy_step_requested s t req =
     (if req_type req = DREQ_CONT \<and> run_direction (cont req) = RUN_BACKWARD
         \<and> length (actions (cont req)) = 1
         \<and> action_type (actions (cont req) ! 0) = ACTION_STEP
         \<and> signal_to_deliver (actions (cont req) ! 0) = 0
      then and_then (deref s t) (\<lambda>T.
             Inr (matches_threadid T (action_target (actions (cont req) ! 0))
                  \<and> \<not> suppress_debugger_stop req))
      else Inr False)"

text \<open>The outer \<^verbatim>\<open>while\<close> loop; the result holds \<^verbatim>\<open>req\<close>, \<^verbatim>\<open>now\<close>,
  \<^verbatim>\<open>need_seek\<close>, the server and the requests not read yet.\<close>

function try_lazy_reverse_singlesteps_loop ::
  "GdbServer \<Rightarrow> pid_t option \<Rightarrow> GdbRequest \<Rightarrow> Mark option \<Rightarrow> bool \<Rightarrow> GdbRequest list \<Rightarrow>
     fault + (GdbRequest \<times> Mark option \<times> bool \<times> GdbServer \<times> GdbRequest list)" where
  "try_lazy_reverse_singlesteps_loop srv t req now need_seek reqs =
     (case lazy_step_requested (current_session (timeline srv)) t req of
        Inl e \<Rightarrow> Inl e
      | Inr False \<Rightarrow> Inr (req, now, need_seek, srv, reqs)
      | Inr True \<Rightarrow>
          (case deref (current_session (timeline srv)) t of
             Inl e \<Rightarrow> Inl e
           | Inr T \<Rightarrow>
               let now1 = (case now of None \<Rightarrow> mark (timeline srv) | Some m \<Rightarrow> m)
               in (case lazy_reverse_singlestep (timeline srv) now1 T of
                     None \<Rightarrow> Inr (req, Some now1, need_seek, srv, reqs)
                   | Some previous \<Rightarrow>
                       (case maybe_notify_stop srv
                               (new_BreakStatus\<lparr>task := Some T, singlestep_complete := True\<rparr>) of
                          Inl e \<Rightarrow> Inl e
                        | Inr srv1 \<Rightarrow>
                            (case lazy_get_regs_loop srv1 previous reqs of
                               Inl e \<Rightarrow> Inl e
                             | Inr (req', srv2, rest) \<Rightarrow>
                                 try_lazy_reverse_singlesteps_loop srv2 t req' (Some previous) True rest)))))"
  by pat_completeness auto
termination
  by (relation "measure (\<lambda>(srv, t, req, now, need_seek, reqs). length reqs)")
    (auto dest: lazy_get_regs_loop_consumes)

declare try_lazy_reverse_singlesteps_loop.simps [simp del]

text \<open>\<^verbatim>\<open>GdbServer::try_lazy_reverse_singlesteps(t, req)\<close>.\<close>

definition try_lazy_reverse_singlesteps ::
  "GdbServer \<Rightarrow> pid_t option \<Rightarrow> GdbRequest \<Rightarrow> GdbRequest list \<Rightarrow>
     fault + (GdbRequest \<times> GdbServer \<times> GdbRequest list)" where
  "try_lazy_reverse_singlesteps srv t req reqs =
     (case try_lazy_reverse_singlesteps_loop srv t req None False reqs of
        Inl e \<Rightarrow> Inl e
      | Inr (req', now, need_seek, srv', rest) \<Rightarrow>
          if need_seek then
            (case now of
               None \<Rightarrow> Inl NullPointer
             | Some m \<Rightarrow> Inr (req', srv'\<lparr>timeline := seek_to_mark m (timeline srv')\<rparr>, rest))
          else Inr (req', srv', rest))"

section \<open>The session driver\<close>

lemma divert_loop_consumes:
  "divert_loop X srv t ds rc reqs = Inr (req, srv', rest) \<Longrightarrow> length rest \<le> length reqs"
proof (induction X srv t ds rc reqs arbitrary: req srv' rest rule: divert_loop.induct)
  case (1 X srv t ds rc reqs)
  show ?case
  proof (cases "diverter_process_debugger_requests X srv t ds rc reqs")
    case (Inl e)
    with "1.prems" show ?thesis by (simp add: divert_loop.simps)
  next
    case (Inr res)
    then obtain t' rq srv1 ds' rc' rest1 where
      res: "diverter_process_debugger_requests X srv t ds rc reqs = Inr (t', rq, srv1, ds', rc', rest1)"
      by (cases res) auto
    from res have len: "length rest1 < length reqs"
      by (rule diverter_process_debugger_requests_consumes)
    note IH = "1.IH" [OF res refl refl refl refl refl]
    from "1.prems" res len IH show ?thesis
      apply (subst (asm) divert_loop.simps)
      apply (auto split: sum.splits prod.splits option.splits if_splits)
       apply fastforce+
      done
  qed
qed

lemma divert_consumes:
  "divert X srv replay k reqs = Inr (req, srv', rest) \<Longrightarrow> length rest \<le> length reqs"
  unfolding divert_def Let_def by (rule divert_loop_consumes)

lemma try_lazy_reverse_singlesteps_loop_consumes:
  "try_lazy_reverse_singlesteps_loop srv t req now need_seek reqs = Inr (req', now', need_seek', srv', rest)
   \<Longrightarrow> length rest \<le> length reqs"
proof (induction srv t req now need_seek reqs arbitrary: req' now' need_seek' srv' rest
    rule: try_lazy_reverse_singlesteps_loop.induct)
  case (1 srv t req now need_seek reqs)
  let ?s = "current_session (timeline srv)"
  let ?now1 = "case now of None \<Rightarrow> mark (timeline srv) | Some m \<Rightarrow> m"
  note unfold = "1.prems" [unfolded try_lazy_reverse_singlesteps_loop.simps [of srv t req now need_seek reqs]]
  show ?case
  proof (cases "lazy_step_requested ?s t req = Inr True")
    case False
    with unfold show ?thesis
      by (auto split: sum.splits bool.splits)
  next
    case requested: True
    show ?thesis
    proof (cases "deref ?s t")
      case (Inl e)
      with unfold requested show ?thesis by simp
    next
      case T: (Inr T)
      show ?thesis
      proof (cases "lazy_reverse_singlestep (timeline srv) ?now1 T")
        case None
        with unfold requested T show ?thesis by (simp add: Let_def)
      next
        case previous: (Some previous)
        show ?thesis
        proof (cases "maybe_notify_stop srv (new_BreakStatus\<lparr>task := Some T, singlestep_complete := True\<rparr>)")
          case (Inl e)
          with unfold requested T previous show ?thesis by (simp add: Let_def)
        next
          case srv1: (Inr srv1)
          show ?thesis
          proof (cases "lazy_get_regs_loop srv1 previous reqs")
            case (Inl e)
            with unfold requested T previous srv1 show ?thesis by (simp add: Let_def)
          next
            case (Inr res)
            then obtain rq srv2 rest1 where res: "lazy_get_regs_loop srv1 previous reqs = Inr (rq, srv2, rest1)"
              by (cases res) auto
            from res have "length rest1 < length reqs"
              by (rule lazy_get_regs_loop_consumes)
            moreover from unfold requested T previous srv1 res
            have "try_lazy_reverse_singlesteps_loop srv2 t rq (Some previous) True rest1
                  = Inr (req', now', need_seek', srv', rest)"
              by (simp add: Let_def)
            then have "length rest \<le> length rest1"
              by (rule "1.IH" [OF requested refl T refl previous srv1 res refl refl])
            ultimately show ?thesis by simp
          qed
        qed
      qed
    qed
  qed
qed

lemma try_lazy_reverse_singlesteps_consumes:
  "try_lazy_reverse_singlesteps srv t req reqs = Inr (req', srv', rest) \<Longrightarrow> length rest \<le> length reqs"
  unfolding try_lazy_reverse_singlesteps_def
  by (auto split: sum.splits prod.splits option.splits if_splits
      dest: try_lazy_reverse_singlesteps_loop_consumes)

text \<open>\<^verbatim>\<open>t->replay_session()\<close>: the session of the task as a replay session.\<close>

definition replay_session :: "Session \<Rightarrow> fault + Session" where
  "replay_session s = (if as_replay s then Inr s else Inl NullPointer)"

text \<open>\<^verbatim>\<open>GdbServer::process_debugger_requests(t, state)\<close>.  The task \<^verbatim>\<open>t\<close> is
  a task of the timeline's current session, which is the session the dispatcher
  is given.\<close>

function process_debugger_requests ::
  "extern \<Rightarrow> GdbServer \<Rightarrow> pid_t option \<Rightarrow> ReportState \<Rightarrow> GdbRequest list \<Rightarrow>
     fault + (GdbRequest \<times> GdbServer \<times> GdbRequest list)" where
  "process_debugger_requests X srv t state [] = Inl NoRequest"
| "process_debugger_requests X srv t state (r # reqs) =
     (let req = r\<lparr>suppress_debugger_stop := False\<rparr> in
      case (if is_running (timeline srv) \<and> t \<noteq> None then
              (case deref (current_session (timeline srv)) t of
                 Inl e \<Rightarrow> Inl e
               | Inr T \<Rightarrow>
                   (case try_lazy_reverse_singlesteps srv t req reqs of
                      Inl e \<Rightarrow> Inl e
                    | Inr (req1, srv1, reqs1) \<Rightarrow>
                        Inr (req1, srv1, reqs1, find_task_by_tuid (current_session (timeline srv1)) (tuid T))))
            else Inr (req, srv, reqs, t)) of
        Inl e \<Rightarrow> Inl e
      | Inr (req1, srv1, reqs1, t1) \<Rightarrow>
          (case (if req_type req1 = DREQ_READ_SIGINFO then
                   (case deref (current_session (timeline srv1)) t1 of
                      Inl e \<Rightarrow> Inl e
                    | Inr T1 \<Rightarrow>
                        (case replay_session (current_session (timeline srv1)) of
                           Inl e \<Rightarrow> Inl e
                         | Inr replay \<Rightarrow>
                             divert X (reply_to srv1 (reply_read_siginfo (replicate (len (mem req1)) 0)))
                               replay (rec_tid T1) reqs1))
                 else Inr (req1, srv1, reqs1)) of
             Inl e \<Rightarrow> Inl e
           | Inr (req2, srv2, reqs2) \<Rightarrow>
               if req_type req1 = DREQ_READ_SIGINFO \<and> req_type req2 = DREQ_NONE then
                 process_debugger_requests X srv2 t1 state reqs2
               else if is_resume_request req2 then
                 (case deref (current_session (timeline srv2)) t1 of
                    Inl e \<Rightarrow> Inl e
                  | Inr T1 \<Rightarrow>
                      (case replay_session (current_session (timeline srv2)) of
                         Inl e \<Rightarrow> Inl e
                       | Inr replay \<Rightarrow> Inr (maybe_singlestep_for_event X replay T1 req2, srv2, reqs2)))
               else if req_type req2 = DREQ_RESTART then Inr (req2, srv2, reqs2)
               else if req_type req2 = DREQ_DETACH then Inr (req2, reply_to srv2 reply_detach, reqs2)
               else
                 (case dispatch_debugger_request X srv2 Current t1 req2 state of
                    Inl e \<Rightarrow> Inl e
                  | Inr (srv3, sr3) \<Rightarrow> process_debugger_requests X srv3 t1 state reqs2)))"
  by pat_completeness auto
termination
proof (relation "measure (\<lambda>(X, srv, t, state, reqs). length reqs)", goal_cases)
  case 1
  show ?case by simp
next
  case (2 X srv t state r reqs req x1 req1 x2 srv1 x3 reqs1 t1 x4 req2 x5 srv2 reqs2)
  then show ?case
    by (auto split: if_splits sum.splits prod.splits
        dest!: try_lazy_reverse_singlesteps_consumes divert_consumes)
next
  case (3 X srv t state r reqs req x1 req1 x2 srv1 x3 reqs1 t1 x4 req2 x5 srv2 reqs2 x6 srv3 sr3)
  then show ?case
    by (auto split: if_splits sum.splits prod.splits
        dest!: try_lazy_reverse_singlesteps_consumes divert_consumes)
qed

declare process_debugger_requests.simps [simp del]

text \<open>\<^verbatim>\<open>GdbServer::at_target()\<close>.\<close>

definition at_target :: "GdbServer \<Rightarrow> fault + bool" where
  "at_target srv =
     (let s = current_session (timeline srv) in
      if \<not> can_validate s then Inr False
      else if current_task s = None then Inr False
      else if \<not> can_add_checkpoint (timeline srv) then Inr False
      else if stop_replaying_to_target srv then Inr True
      else
        and_then (deref s (current_task s)) (\<lambda>T.
          Inr (event (srv_target srv) < trace_time s
               \<and> (target_pid (srv_target srv) = 0 \<or> tgid (task_group T) = target_pid (srv_target srv))
               \<and> (\<not> require_exec (srv_target srv) \<or> execed (vms s (vm T))))))"

text \<open>\<^verbatim>\<open>GdbServer::activate_debugger()\<close>; the message on standard error is
  left out.\<close>

definition activate_debugger :: "GdbServer \<Rightarrow> fault + GdbServer" where
  "activate_debugger srv =
     (let event_now = trace_time (current_session (timeline srv)) in
      case add_explicit_checkpoint (timeline srv) of
        (m, tml') \<Rightarrow>
          and_then (deref (current_session (timeline srv)) (current_task (current_session (timeline srv)))) (\<lambda>T0.
          and_then (deref (current_session tml') (find_task (current_session tml') (rec_tid T0))) (\<lambda>T.
            Inr (srv\<lparr>timeline := tml', debugger_restart_mark := Some m,
                     srv_target := \<lparr>event = event_now, target_pid = tgid (task_group T),
                                     require_exec = False\<rparr>\<rparr>))))"

text \<open>The \<^verbatim>\<open>do ... while (!at_target())\<close> loop of \<^verbatim>\<open>restart_session\<close>.
  Nothing in GdbServer.cc bounds the number of replay steps, so the loop is a
  partial function: \<open>None\<close> when it does not end.\<close>

partial_function (option) restart_replay_loop :: "extern \<Rightarrow> GdbServer \<Rightarrow> (fault + GdbServer) option" where
  "restart_replay_loop X srv =
     (case replay_step X (timeline srv) RUN_CONTINUE RUN_FORWARD (event (srv_target srv)) of
        (result, tml') \<Rightarrow>
          if replay_status result = REPLAY_EXITED then
            Some (Inr (srv\<lparr>timeline := seek_to_before_event (event (srv_target srv)) tml'\<rparr>))
          else
            (case is_last_thread_exit (replay_break_status result) of
               Inl e \<Rightarrow> Some (Inl e)
             | Inr last_exit \<Rightarrow>
                 if last_exit \<and> (case task (replay_break_status result) of
                                    None \<Rightarrow> False
                                  | Some T \<Rightarrow> tgid (task_group T) = target_pid (srv_target srv))
                 then Some (Inr (srv\<lparr>timeline := tml'\<rparr>))
                 else
                   (case at_target (srv\<lparr>timeline := tml'\<rparr>) of
                      Inl e \<Rightarrow> Some (Inl e)
                    | Inr reached \<Rightarrow>
                        if reached then Some (Inr (srv\<lparr>timeline := tml'\<rparr>))
                        else restart_replay_loop X (srv\<lparr>timeline := tml'\<rparr>))))"

text \<open>\<^verbatim>\<open>GdbServer::restart_session(req)\<close>; what it prints on standard output
  when the checkpoint is not found is left out.\<close>

definition restart_session :: "extern \<Rightarrow> GdbServer \<Rightarrow> GdbRequest \<Rightarrow> (fault + GdbServer) option" where
  "restart_session X srv req =
     (if req_type req \<noteq> DREQ_RESTART then Some (Inl AssertionFailed)
      else
        let srv1 = srv\<lparr>timeline := remove_breakpoints_and_watchpoints (timeline srv)\<rparr> in
        if restart_type (restart req) = RESTART_FROM_CHECKPOINT
           \<and> checkpoints srv1 (param (restart req)) = None
        then Some (Inr (reply_to srv1 notify_restart_failed))
        else
          let mark_to_restore =
                (if restart_type (restart req) = RESTART_FROM_CHECKPOINT then checkpoints srv1 (param (restart req))
                 else if restart_type (restart req) = RESTART_FROM_PREVIOUS then debugger_restart_mark srv1
                 else None)
          in (case mark_to_restore of
                Some m \<Rightarrow>
                  let tml1 = seek_to_mark m (timeline srv1);
                      tml2 = (case debugger_restart_mark srv1 of
                                None \<Rightarrow> tml1
                              | Some old \<Rightarrow> remove_explicit_checkpoint old tml1);
                      tml3 = (if can_add_checkpoint tml2 then snd (add_explicit_checkpoint tml2) else tml2)
                  in Some (Inr (srv1\<lparr>timeline := tml3, debugger_restart_mark := Some m\<rparr>))
              | None \<Rightarrow>
                  if restart_type (restart req) \<noteq> RESTART_FROM_EVENT then Some (Inl AssertionFailed)
                  else
                    let e = (word_of_int (param (restart req)) :: 32 word);
                        srv2 = srv1\<lparr>stop_replaying_to_target := False,
                                    srv_target := (srv_target srv1)\<lparr>event := e\<rparr>,
                                    timeline := seek_to_before_event e (timeline srv1)\<rparr>
                    in (case restart_replay_loop X srv2 of
                          None \<Rightarrow> None
                        | Some (Inl f) \<Rightarrow> Some (Inl f)
                        | Some (Inr srv3) \<Rightarrow> Some (activate_debugger srv3))))"

text \<open>\<^verbatim>\<open>GdbServer::detach_or_restart(req, &s)\<close>: the returned flag and, when
  it is true, the value stored in \<^verbatim>\<open>*s\<close>.\<close>

definition detach_or_restart ::
  "extern \<Rightarrow> GdbServer \<Rightarrow> GdbRequest \<Rightarrow> (fault + (ContinueOrStop option \<times> GdbServer)) option" where
  "detach_or_restart X srv req =
     (if req_type req = DREQ_RESTART then
        (case restart_session X srv req of
           None \<Rightarrow> None
         | Some (Inl f) \<Rightarrow> Some (Inl f)
         | Some (Inr srv') \<Rightarrow> Some (Inr (Some CONTINUE_DEBUGGING, srv')))
      else if req_type req = DREQ_DETACH then Some (Inr (Some STOP_DEBUGGING, srv))
      else Some (Inr (None, srv)))"

text \<open>\<^verbatim>\<open>GdbServer::handle_exited_state(t)\<close>.\<close>

definition handle_exited_state ::
  "extern \<Rightarrow> GdbServer \<Rightarrow> pid_t option \<Rightarrow> GdbRequest list \<Rightarrow>
     (fault + (ContinueOrStop \<times> GdbServer \<times> GdbRequest list)) option" where
  "handle_exited_state X srv t reqs =
     (let srv1 = reply_to srv (notify_exit_code 0) in
      if t = None then Some (Inl FatalError)
      else
        (case process_debugger_requests X srv1 t REPORT_THREADS_DEAD reqs of
           Inl f \<Rightarrow> Some (Inl f)
         | Inr (req, srv2, rest) \<Rightarrow>
             (case detach_or_restart X srv2 req of
                None \<Rightarrow> None
              | Some (Inl f) \<Rightarrow> Some (Inl f)
              | Some (Inr (Some s, srv3)) \<Rightarrow> Some (Inr (s, srv3, rest))
              | Some (Inr (None, srv3)) \<Rightarrow> Some (Inl FatalError))))"

section \<open>Predicates and functions used to state the properties\<close>

text \<open>A write that the magic channel handles: four bytes at the command
  address whose opcode is one of the two known ones.\<close>

definition magic_command :: "GdbRequest \<Rightarrow> bool" where
  "magic_command req =
     (addr (mem req) = DBG_COMMAND_MAGIC_ADDRESS \<and> len (mem req) = 4
      \<and> (le_word32 (take 4 (data (mem req))) AND DBG_COMMAND_MSG_MASK = DBG_COMMAND_MSG_CREATE_CHECKPOINT
         \<or> le_word32 (take 4 (data (mem req))) AND DBG_COMMAND_MSG_MASK = DBG_COMMAND_MSG_DELETE_CHECKPOINT))"

text \<open>The register special case: a write to the register that holds the
  original system-call number of the architecture of \<^verbatim>\<open>t\<close>.\<close>

definition orig_ax_write :: "extern \<Rightarrow> Task \<Rightarrow> GdbRequest \<Rightarrow> bool" where
  "orig_ax_write X T req =
     ((arch T = x86 \<and> reg_name (reg req) = DREG_ORIG_EAX X)
      \<or> (arch T = x86_64 \<and> reg_name (reg req) = DREG_ORIG_RAX X))"

text \<open>The value of \<^verbatim>\<open>target\<close> in the dispatcher when \<^verbatim>\<open>t\<close> is not null.\<close>

definition resolve_target :: "Session \<Rightarrow> pid_t option \<Rightarrow> GdbRequest \<Rightarrow> pid_t option" where
  "resolve_target s t req = (if 0 < tid (target req) then find_task s (tid (target req)) else t)"

text \<open>Reading eight bytes as a little-endian 64-bit integer.\<close>

definition le_word64 :: "byte list \<Rightarrow> 64 word" where
  "le_word64 bs = foldr (\<lambda>b w. ucast b OR push_bit 8 w) bs 0"

text \<open>The bytes the dispatcher replies with on the normal path of
  \<^verbatim>\<open>get_mem\<close>: what could be read of the target's memory, with the original
  bytes in the place of the inserted breakpoints.\<close>

definition normal_memory_read :: "Session \<Rightarrow> Task \<Rightarrow> GdbRequest \<Rightarrow> byte list" where
  "normal_memory_read s TG req =
     (case read_bytes_fallible (vms s (vm TG)) (addr (mem req)) (len (mem req)) of
        (nread, buf) \<Rightarrow>
          replace_breakpoints_with_original_values (vms s (vm TG))
            (take (nat (max 0 nread)) buf) (addr (mem req)))"

text \<open>The server after it has sent the replies \<open>rs\<close>.\<close>

definition sent_more :: "GdbServer \<Rightarrow> reply list \<Rightarrow> GdbServer" where
  "sent_more srv rs = srv\<lparr>dbg := (dbg srv)\<lparr>sent := sent (dbg srv) @ rs\<rparr>\<rparr>"

text \<open>The condition of the loop of the reverse-step fast path on a task that
  \<^verbatim>\<open>t\<close> points to: a backward resume request with a single action that
  steps, delivers no signal and names the task.\<close>

definition lazy_step_request :: "Task \<Rightarrow> GdbRequest \<Rightarrow> bool" where
  "lazy_step_request T req =
     (req_type req = DREQ_CONT \<and> run_direction (cont req) = RUN_BACKWARD
      \<and> length (actions (cont req)) = 1
      \<and> action_type (actions (cont req) ! 0) = ACTION_STEP
      \<and> signal_to_deliver (actions (cont req) ! 0) = 0
      \<and> matches_threadid T (action_target (actions (cont req) ! 0))
      \<and> \<not> suppress_debugger_stop req)"

text \<open>A run of the fast path, as a list of rounds.  A round is a lazy reverse
  step: the pending request asks for one and the timeline has the mark
  \<open>previous\<close> before the current one in its cache; then the client sends the
  \<^verbatim>\<open>get_regs\<close> requests \<open>gs\<close> and the request \<open>r\<close> of another type, which is
  the pending request of the next round.  After the last round the pending
  request asks for no lazy step, or the cache has no mark.\<close>

fun lazy_rounds ::
  "ReplayTimeline \<Rightarrow> Task \<Rightarrow> Mark \<Rightarrow> GdbRequest \<Rightarrow> (Mark \<times> GdbRequest list \<times> GdbRequest) list \<Rightarrow> bool" where
  "lazy_rounds tml T now req [] =
     (\<not> lazy_step_request T req \<or> lazy_reverse_singlestep tml now T = None)"
| "lazy_rounds tml T now req ((previous, gs, r) # rounds) =
     (lazy_step_request T req \<and> lazy_reverse_singlestep tml now T = Some previous
      \<and> (\<forall>g \<in> set gs. req_type g = DREQ_GET_REGS) \<and> req_type r \<noteq> DREQ_GET_REGS
      \<and> lazy_rounds tml T previous (r\<lparr>suppress_debugger_stop := False\<rparr>) rounds)"

text \<open>What the client sends during the rounds, what the adapter answers (per
  round a stop notification with SIGTRAP and one register file, read from the
  mark, per \<^verbatim>\<open>get_regs\<close>), the request pending after them and the mark
  reached.\<close>

fun rounds_requests :: "(Mark \<times> GdbRequest list \<times> GdbRequest) list \<Rightarrow> GdbRequest list" where
  "rounds_requests [] = []"
| "rounds_requests ((previous, gs, r) # rounds) = gs @ r # rounds_requests rounds"

definition regs_reply :: "Mark \<Rightarrow> reply" where
  "regs_reply m =
     reply_get_regs (map (get_reg (mark_regs m) (mark_extra_regs m)) [0..<total_registers (mark_regs m)])"

fun rounds_replies :: "Task \<Rightarrow> (Mark \<times> GdbRequest list \<times> GdbRequest) list \<Rightarrow> reply list" where
  "rounds_replies T [] = []"
| "rounds_replies T ((previous, gs, r) # rounds) =
     notify_stop (get_threadid T) SIGTRAP 0 # map (\<lambda>g. regs_reply previous) gs @ rounds_replies T rounds"

fun final_request :: "GdbRequest \<Rightarrow> (Mark \<times> GdbRequest list \<times> GdbRequest) list \<Rightarrow> GdbRequest" where
  "final_request req [] = req"
| "final_request req ((previous, gs, r) # rounds) =
     final_request (r\<lparr>suppress_debugger_stop := False\<rparr>) rounds"

fun final_mark :: "Mark \<Rightarrow> (Mark \<times> GdbRequest list \<times> GdbRequest) list \<Rightarrow> Mark" where
  "final_mark now [] = now"
| "final_mark now ((previous, gs, r) # rounds) = final_mark previous rounds"

text \<open>The requests that a diversion serves without coming to an end: all
  but the resume, restart and detach requests.\<close>

definition diversion_request :: "GdbRequest \<Rightarrow> bool" where
  "diversion_request q =
     (\<not> is_resume_request q \<and> req_type q \<noteq> DREQ_RESTART \<and> req_type q \<noteq> DREQ_DETACH)"

text \<open>The reference count of a diversion after the requests \<open>qs\<close>: a
  \<^verbatim>\<open>read_siginfo\<close> request adds one, a \<^verbatim>\<open>write_siginfo\<close> request takes one
  away (\<open>None\<close> when it arrives at count 0), and any other request leaves the
  count as it is.\<close>

fun refcount_after :: "32 word \<Rightarrow> GdbRequest list \<Rightarrow> 32 word option" where
  "refcount_after rc [] = Some rc"
| "refcount_after rc (q # qs) =
     (if req_type q = DREQ_READ_SIGINFO then refcount_after (rc + 1) qs
      else if req_type q = DREQ_WRITE_SIGINFO then (if rc = 0 then None else refcount_after (rc - 1) qs)
      else refcount_after rc qs)"

text \<open>The adapter's answer to a siginfo request: zero bytes of the requested
  length to \<^verbatim>\<open>read_siginfo\<close>, the ack to \<^verbatim>\<open>write_siginfo\<close>.\<close>

definition siginfo_reply :: "GdbRequest \<Rightarrow> reply" where
  "siginfo_reply q =
     (if req_type q = DREQ_READ_SIGINFO then reply_read_siginfo (replicate (len (mem q)) 0)
      else reply_write_siginfo)"

text \<open>What serving the requests \<open>qs\<close> does to the server, the task pointer and
  the diversion session: a siginfo request is answered; any other request is
  dispatched against the diversion session, for the task that a
  \<^verbatim>\<open>set_query_thread\<close> request naming a task of the session has selected.\<close>

fun diversion_serves ::
  "extern \<Rightarrow> GdbServer \<Rightarrow> pid_t option \<Rightarrow> Session \<Rightarrow> GdbRequest list \<Rightarrow>
     fault + (GdbServer \<times> pid_t option \<times> Session)" where
  "diversion_serves X srv t ds [] = Inr (srv, t, ds)"
| "diversion_serves X srv t ds (q # qs) =
     (if req_type q = DREQ_READ_SIGINFO \<or> req_type q = DREQ_WRITE_SIGINFO then
        diversion_serves X (reply_to srv (siginfo_reply q)) t ds qs
      else
        (case (if req_type q = DREQ_SET_QUERY_THREAD \<and> tid (target q) \<noteq> 0
               then (case deref ds t of
                       Inl e \<Rightarrow> Inl e
                     | Inr T \<Rightarrow> Inr (case find_task ds (tid (target q)) of
                                        None \<Rightarrow> t | Some next \<Rightarrow> Some next))
               else Inr t) of
           Inl e \<Rightarrow> Inl e
         | Inr t' \<Rightarrow>
             (case dispatch_debugger_request X srv (Other ds) t' q REPORT_NORMAL of
                Inl e \<Rightarrow> Inl e
              | Inr (srv', sr') \<Rightarrow>
                  diversion_serves X srv' t' (case sr' of Other s' \<Rightarrow> s' | Current \<Rightarrow> ds) qs)))"

text \<open>The requests that the request loop of the canonical session dispatches:
  all but the resume, restart, detach and \<^verbatim>\<open>read_siginfo\<close> requests.\<close>

definition answered_request :: "GdbRequest \<Rightarrow> bool" where
  "answered_request q =
     (\<not> is_resume_request q \<and> req_type q \<noteq> DREQ_RESTART \<and> req_type q \<noteq> DREQ_DETACH
      \<and> req_type q \<noteq> DREQ_READ_SIGINFO)"

text \<open>The server after the requests \<open>qs\<close> were answered in the state that
  follows the end of the trace: a thread-list request gets the empty list, and
  any other request gets what the dispatcher answers during normal debugging.\<close>

fun exited_answers :: "extern \<Rightarrow> GdbServer \<Rightarrow> pid_t option \<Rightarrow> GdbRequest list \<Rightarrow> fault + GdbServer" where
  "exited_answers X srv t [] = Inr srv"
| "exited_answers X srv t (q # qs) =
     (if req_type q = DREQ_GET_THREAD_LIST then
        exited_answers X (reply_to srv (reply_get_thread_list [])) t qs
      else
        (case dispatch_debugger_request X srv Current t (q\<lparr>suppress_debugger_stop := False\<rparr>) REPORT_NORMAL of
           Inl e \<Rightarrow> Inl e
         | Inr (srv', sr') \<Rightarrow> exited_answers X srv' t qs))"

section \<open>Example states\<close>

text \<open>One replay session with a single task (thread 7 of task group 7), a
  timeline at mark 10 whose cache holds the mark 9 before it, and a server
  attached to them.  The concrete instances of the theorems below are stated on
  these.\<close>

definition example_regs :: Registers where
  "example_regs = \<lparr>reg_values = (\<lambda>r. if r = 0 then Some [1, 0, 0, 0] else None), total_registers = 1\<rparr>"

definition example_task :: Task where
  "example_task =
     \<lparr>rec_tid = 7, tuid = 1, name = ''a.out'', arch = x86_64, regs = example_regs,
      extra_regs = \<lparr>extra_values = (\<lambda>r. None)\<rparr>, child_sig = 0,
      task_group = \<lparr>tgid = 7, real_tgid = 1007, tguid = 1, task_set = [7]\<rparr>, vm = 0\<rparr>"

definition example_vm :: AddressSpace where
  "example_vm =
     \<lparr>memory = (\<lambda>a. if 4096 \<le> a \<and> a < 4100 then Some 0x90 else None),
      vm_breakpoints = (\<lambda>a. None), vm_watchpoints = [], execed = True\<rparr>"

definition example_session :: Session where
  "example_session =
     \<lparr>session_kind = REPLAY, tasks = [(7, example_task)], vms = (\<lambda>i. example_vm),
      current_task = Some 7, trace_time = 42, can_validate = True, can_clone = True\<rparr>"

definition example_mark :: "nat \<Rightarrow> Mark" where
  "example_mark k =
     \<lparr>mark_key = k,
      mark_regs = \<lparr>reg_values = (\<lambda>r. if r = 0 then Some [of_nat k, 0, 0, 0] else None), total_registers = 1\<rparr>,
      mark_extra_regs = \<lparr>extra_values = (\<lambda>r. None)\<rparr>\<rparr>"

definition example_timeline :: ReplayTimeline where
  "example_timeline =
     \<lparr>current_session = example_session, is_running = True, current_mark = example_mark 10,
      session_at = (\<lambda>m. example_session), before_event = (\<lambda>e. example_mark 0),
      singlestep_cache = (\<lambda>m u. if mark_key m = 10 \<and> u = 1 then Some (example_mark 9) else None),
      tl_breakpoints = [], tl_watchpoints = [], breakpoints_applied = True,
      explicit_checkpoints = [], seeks = []\<rparr>"

definition example_server :: GdbServer where
  "example_server =
     \<lparr>timeline = example_timeline, dbg = \<lparr>sent = [], reverse_execution = True\<rparr>,
      checkpoints = (\<lambda>i. None), debugger_restart_mark = None, debuggee_tguid = 1,
      srv_target = \<lparr>event = 0, target_pid = 7, require_exec = False\<rparr>,
      stop_replaying_to_target = False\<rparr>"

definition example_extern :: extern where
  "example_extern =
     \<lparr>replay_step = (\<lambda>tml c d e. (\<lparr>replay_status = REPLAY_EXITED, replay_break_status = new_BreakStatus\<rparr>, tml)),
      diversion_step = (\<lambda>s k c sig.
         (\<lparr>diversion_status = DIVERSION_CONTINUE,
           diversion_break_status = new_BreakStatus\<lparr>task := Some example_task, singlestep_complete := True\<rparr>\<rparr>, s)),
      trace_instructions_up_to_event = (\<lambda>e. False),
      proc_auxv = (\<lambda>p. OpenFails),
      watchpoints_fit = (\<lambda>ws. length ws \<le> 4),
      DREG_ORIG_EAX = 41, DREG_ORIG_RAX = 57\<rparr>"

definition example_request :: "GdbRequestType \<Rightarrow> GdbRequest" where
  "example_request ty = (new_GdbRequest ty)\<lparr>target := \<lparr>pid = 7, tid = 7\<rparr>\<rparr>"

text \<open>The write that the client's \<^verbatim>\<open>checkpoint\<close> macro sends for index 5:
  the word \<open>0x01000005\<close> at the command address; and the example server after
  this write was handled at mark \<open>k\<close>.\<close>

definition example_create_checkpoint :: GdbRequest where
  "example_create_checkpoint =
     (example_request DREQ_SET_MEM)\<lparr>mem := \<lparr>addr = 29298, len = 4, data = [5, 0, 0, 1]\<rparr>\<rparr>"

definition example_checkpoint_5 :: "nat \<Rightarrow> GdbServer" where
  "example_checkpoint_5 k =
     example_server
       \<lparr>timeline := example_timeline\<lparr>current_mark := example_mark k, explicit_checkpoints := [example_mark k]\<rparr>,
        checkpoints := [5 \<mapsto> example_mark k],
        dbg := \<lparr>sent = [reply_set_mem True], reverse_execution = True\<rparr>\<rparr>"

text \<open>The example server after the debugger was activated at mark 10, and
  the requests \<^verbatim>\<open>restart\<close> from the previous point and from event 3.\<close>

definition example_activated :: GdbServer where
  "example_activated =
     example_server
       \<lparr>timeline := example_timeline\<lparr>explicit_checkpoints := [example_mark 10]\<rparr>,
        debugger_restart_mark := Some (example_mark 10),
        srv_target := \<lparr>event = 42, target_pid = 7, require_exec = False\<rparr>\<rparr>"

definition example_restart_previous :: GdbRequest where
  "example_restart_previous =
     (example_request DREQ_RESTART)
       \<lparr>restart := \<lparr>param = 0, param_str = [], restart_type = RESTART_FROM_PREVIOUS\<rparr>\<rparr>"

definition example_restart_event :: GdbRequest where
  "example_restart_event =
     (example_request DREQ_RESTART)
       \<lparr>restart := \<lparr>param = 3, param_str = ''3'', restart_type = RESTART_FROM_EVENT\<rparr>\<rparr>"

text \<open>A reverse single-step of thread 7, and a \<^verbatim>\<open>read_siginfo\<close> request
  for four bytes.\<close>

definition example_reverse_step :: GdbRequest where
  "example_reverse_step =
     (example_request DREQ_CONT)
       \<lparr>cont := \<lparr>run_direction = RUN_BACKWARD,
                 actions = [\<lparr>action_type = ACTION_STEP, action_target = \<lparr>pid = 7, tid = 7\<rparr>,
                             signal_to_deliver = 0\<rparr>]\<rparr>\<rparr>"

definition example_read_siginfo :: GdbRequest where
  "example_read_siginfo = (example_request DREQ_READ_SIGINFO)\<lparr>mem := \<lparr>addr = 0, len = 4, data = []\<rparr>\<rparr>"

text \<open>A write of four bytes to the mapped address 4096 and a read of them,
  and the diversion of the example session after that write.\<close>

definition example_write_memory :: GdbRequest where
  "example_write_memory =
     (example_request DREQ_SET_MEM)\<lparr>mem := \<lparr>addr = 4096, len = 4, data = [1, 2, 3, 4]\<rparr>\<rparr>"

definition example_read_memory :: GdbRequest where
  "example_read_memory = (example_request DREQ_GET_MEM)\<lparr>mem := \<lparr>addr = 4096, len = 4, data = []\<rparr>\<rparr>"

definition example_diversion :: Session where
  "example_diversion =
     update_vm 0 (example_vm\<lparr>memory := write_bytes 4096 [1, 2, 3, 4] (memory example_vm)\<rparr>)
       (clone_diversion example_session)"

text \<open>A task that is the only thread of another task group than the
  debuggee's.\<close>

definition example_other_task :: Task where
  "example_other_task =
     example_task\<lparr>rec_tid := 8, tuid := 2,
                  task_group := \<lparr>tgid = 8, real_tgid = 1008, tguid = 2, task_set = [8]\<rparr>\<rparr>"

section \<open>Shared lemmas\<close>

lemma sent_more_simps:
  "sent_more srv [] = srv"
  "timeline (sent_more srv rs) = timeline srv"
  "reply_to srv r = sent_more srv [r]"
  "sent_more (sent_more srv rs) rs' = sent_more srv (rs @ rs')"
  "dispatch_regs_request srv (mark_regs m) (mark_extra_regs m) = sent_more srv [regs_reply m]"
  by (simp_all add: sent_more_def reply_to_def send_def dispatch_regs_request_def regs_reply_def)

lemma deref_find_task:
  "find_task s k = Some k' \<Longrightarrow> \<exists>T. deref s (Some k') = Inr T"
  by (auto simp: find_task_def deref_def split: option.splits)

lemma dispatch_to_target:
  assumes "req_type req = DREQ_SET_MEM \<or> req_type req = DREQ_SET_REG \<or> req_type req = DREQ_GET_MEM"
    and "deref (the_session srv sr) t = Inr T"
  shows "dispatch_debugger_request X srv sr t req state =
           (case resolve_target (the_session srv sr) t req of
              None \<Rightarrow> Inr (reply_to srv (notify_no_such_thread req), sr)
            | Some k \<Rightarrow> dispatch_target_request X srv sr t k req)"
  using assms
  by (auto simp: dispatch_debugger_request_def resolve_target_def is_resume_request_def
      and_then_def Let_def)

lemma example_server_task:
  "deref (current_session (timeline example_server)) (Some 7) = Inr example_task"
  "find_task_by_tuid (current_session (timeline example_server)) (tuid example_task) = Some 7"
  "as_replay (current_session (timeline example_server))"
  by (simp_all add: deref_def find_task_by_tuid_def as_replay_def example_server_def
      example_timeline_def example_session_def example_task_def)

lemma example_apply_breakpoints:
  "(if is_running (timeline example_server)
    then example_server\<lparr>timeline := apply_breakpoints_and_watchpoints (timeline example_server)\<rparr>
    else example_server) = example_server"
  by (simp add: apply_breakpoints_and_watchpoints_def example_server_def example_timeline_def)

lemma example_create_checkpoint_fields:
  "addr (mem example_create_checkpoint) = DBG_COMMAND_MAGIC_ADDRESS"
  "len (mem example_create_checkpoint) = 4"
  "\<not> length (data (mem example_create_checkpoint)) < 4"
  "le_word32 (take 4 (data (mem example_create_checkpoint))) AND DBG_COMMAND_MSG_MASK
     = DBG_COMMAND_MSG_CREATE_CHECKPOINT"
  "uint (le_word32 (take 4 (data (mem example_create_checkpoint))) AND DBG_COMMAND_PARAMETER_MASK) = 5"
  by (simp_all add: example_create_checkpoint_def example_request_def new_GdbRequest_def
      le_word32_def DBG_COMMAND_MAGIC_ADDRESS_def DBG_COMMAND_MSG_MASK_def
      DBG_COMMAND_MSG_CREATE_CHECKPOINT_def DBG_COMMAND_PARAMETER_MASK_def)

lemma maybe_process_magic_command_not_handled:
  "\<not> magic_command req \<Longrightarrow> length (data (mem req)) = len (mem req)
   \<Longrightarrow> maybe_process_magic_command srv req = Inr (False, srv)"
  by (auto simp: maybe_process_magic_command_def magic_command_def Let_def)

lemma dispatch_target_get_mem:
  assumes "deref (the_session srv sr) (Some k) = Inr TG"
    and "req_type req = DREQ_GET_MEM"
  shows "dispatch_target_request X srv sr t k req =
           (if addr (mem req) = DBG_WHEN_MAGIC_ADDRESS \<and> len (mem req) = 8
            then Inr (snd (maybe_process_magic_read srv (the_session srv sr) req), sr)
            else Inr (reply_to srv (reply_get_mem (normal_memory_read (the_session srv sr) TG req)), sr))"
  using assms
  by (auto simp: dispatch_target_request_def and_then_def Let_def maybe_process_magic_read_def
      normal_memory_read_def split: prod.splits)

section \<open>Breakpoint conditions: evaluation\<close>

lemma evaluate_loop_iff:
  "evaluate_loop ev P t \<longleftrightarrow> (\<exists>p \<in> set P. ev p t = None \<or> (\<exists>v. ev p t = Some v \<and> v \<noteq> 0))"
  by (induction P) (auto split: option.splits)

text \<open>C7. A condition built from the byte-code programs \<open>P\<close> evaluates to
  true exactly when some program of \<open>P\<close> fails to evaluate or evaluates to a
  non-zero integer.  For an empty \<open>P\<close> no condition object is attached, and a
  breakpoint without condition object always breaks; for a non-empty \<open>P\<close> the
  attached object holds exactly the programs \<open>P\<close>.\<close>

theorem breakpoint_condition_evaluate:
  "(evaluate ev (GdbBreakpointCondition P) t \<longleftrightarrow>
      (\<exists>p \<in> set P. ev p t = None \<or> (\<exists>v. ev p t = Some v \<and> v \<noteq> 0)))
   \<and> (breakpoint_condition P = None \<longleftrightarrow> P = [])
   \<and> (P = [] \<longrightarrow> should_break ev (breakpoint_condition P) t)
   \<and> (P \<noteq> [] \<longrightarrow> breakpoint_condition P = Some (GdbBreakpointCondition P))"
  by (simp add: evaluate_def evaluate_loop_iff breakpoint_condition_def should_break_def)

theorem breakpoint_condition_evaluate_witness:
  "evaluate (\<lambda>p t. if p = [] then None else Some (ucast (hd p))) (GdbBreakpointCondition [[0], [7]]) ()
   \<and> breakpoint_condition [[0], [7 :: byte]] = Some (GdbBreakpointCondition [[0], [7]])
   \<and> breakpoint_condition ([] :: byte list list) = None
   \<and> should_break (\<lambda>p t. if p = [] then None else Some (ucast (hd p))) (breakpoint_condition []) ()"
proof -
  let ?ev = "\<lambda>(p :: byte list) (t :: unit). if p = [] then None else Some (ucast (hd p) :: 64 word)"
  have "\<exists>p \<in> set [[0], [7 :: byte]]. ?ev p () = None \<or> (\<exists>v. ?ev p () = Some v \<and> v \<noteq> 0)"
    by simp
  with breakpoint_condition_evaluate [of ?ev "[[0], [7]]" "()"]
  have "evaluate ?ev (GdbBreakpointCondition [[0], [7]]) ()"
    and "breakpoint_condition [[0], [7 :: byte]] = Some (GdbBreakpointCondition [[0], [7]])"
    by blast+
  moreover from breakpoint_condition_evaluate [of ?ev "[]" "()"]
  have "breakpoint_condition ([] :: byte list list) = None"
    and "should_break ?ev (breakpoint_condition []) ()"
    by blast+
  ultimately show ?thesis
    by blast
qed

section \<open>Writes outside a diversion\<close>

lemma dispatch_target_set_mem_fails:
  assumes "deref (the_session srv sr) (Some k) = Inr TG"
    and "\<not> is_diversion (the_session srv sr)"
    and "req_type req = DREQ_SET_MEM" and "len (mem req) \<noteq> 0" and "\<not> magic_command req"
    and "length (data (mem req)) = len (mem req)"
  shows "dispatch_target_request X srv sr t k req = Inr (reply_to srv (reply_set_mem False), sr)"
  using assms
  by (simp add: dispatch_target_request_def and_then_def Let_def
      maybe_process_magic_command_not_handled)

lemma dispatch_target_set_reg_fails:
  assumes "deref (the_session srv sr) (Some k) = Inr TG"
    and "deref (the_session srv sr) t = Inr T"
    and "\<not> is_diversion (the_session srv sr)"
    and "req_type req = DREQ_SET_REG" and "\<not> orig_ax_write X T req"
  shows "dispatch_target_request X srv sr t k req = Inr (reply_to srv (reply_set_reg False), sr)"
  using assms
  by (auto simp: dispatch_target_request_def and_then_def Let_def orig_ax_write_def)

text \<open>C1. A memory write or a register write dispatched against a session that
  is not a diversion, other than a zero-length write, a write handled by the
  magic channel and a write to the original-system-call-number register, changes
  nothing but the list of replies sent (the server, its timeline and the session
  are returned as they were), and the reply is a failure: the failed
  \<^verbatim>\<open>set_mem\<close> or \<^verbatim>\<open>set_reg\<close> reply when the target thread resolves, and the
  no-such-thread error when it does not.  Here \<^verbatim>\<open>t\<close> points to a task and the
  data of a memory write has the length the request states.\<close>

theorem write_outside_diversion_fails:
  assumes nd: "\<not> is_diversion (the_session srv sr)"
    and t: "deref (the_session srv sr) t = Inr T"
    and ty: "req_type req = DREQ_SET_MEM \<and> len (mem req) \<noteq> 0 \<and> \<not> magic_command req
               \<and> length (data (mem req)) = len (mem req)
             \<or> req_type req = DREQ_SET_REG \<and> \<not> orig_ax_write X T req"
  shows "dispatch_debugger_request X srv sr t req state =
           Inr (reply_to srv
                  (if resolve_target (the_session srv sr) t req = None then notify_no_such_thread req
                   else if req_type req = DREQ_SET_MEM then reply_set_mem False
                   else reply_set_reg False),
                sr)"
proof -
  from ty have ty': "req_type req = DREQ_SET_MEM \<or> req_type req = DREQ_SET_REG \<or> req_type req = DREQ_GET_MEM"
    by blast
  note disp = dispatch_to_target [OF ty' t, of X state]
  show ?thesis
  proof (cases "resolve_target (the_session srv sr) t req")
    case None
    with disp show ?thesis by simp
  next
    case (Some k)
    with t have "\<exists>TG. deref (the_session srv sr) (Some k) = Inr TG"
      by (auto simp: resolve_target_def dest: deref_find_task split: if_splits)
    then obtain TG where TG: "deref (the_session srv sr) (Some k) = Inr TG" ..
    from ty show ?thesis
    proof
      assume "req_type req = DREQ_SET_MEM \<and> len (mem req) \<noteq> 0 \<and> \<not> magic_command req
               \<and> length (data (mem req)) = len (mem req)"
      with disp Some dispatch_target_set_mem_fails [OF TG nd, of req X t] show ?thesis
        by simp
    next
      assume "req_type req = DREQ_SET_REG \<and> \<not> orig_ax_write X T req"
      with disp Some dispatch_target_set_reg_fails [OF TG t nd, of req X] show ?thesis
        by simp
    qed
  qed
qed

theorem write_outside_diversion_fails_witness:
  "dispatch_debugger_request example_extern example_server Current (Some 7)
     ((example_request DREQ_SET_MEM)\<lparr>mem := \<lparr>addr = 4096, len = 2, data = [1, 2]\<rparr>\<rparr>) REPORT_NORMAL
   = Inr (reply_to example_server (reply_set_mem False), Current)
   \<and> dispatch_debugger_request example_extern example_server Current (Some 7)
     ((example_request DREQ_SET_REG)\<lparr>target := \<lparr>pid = 7, tid = 99\<rparr>\<rparr>) REPORT_NORMAL
   = Inr (reply_to example_server
            (notify_no_such_thread ((example_request DREQ_SET_REG)\<lparr>target := \<lparr>pid = 7, tid = 99\<rparr>\<rparr>)),
          Current)"
proof -
  let ?m = "(example_request DREQ_SET_MEM)\<lparr>mem := \<lparr>addr = 4096, len = 2, data = [1, 2]\<rparr>\<rparr>"
  let ?r = "(example_request DREQ_SET_REG)\<lparr>target := \<lparr>pid = 7, tid = 99\<rparr>\<rparr>"
  have nd: "\<not> is_diversion (the_session example_server Current)"
    by (simp add: is_diversion_def the_session_def example_server_def example_timeline_def
        example_session_def)
  have t: "deref (the_session example_server Current) (Some 7) = Inr example_task"
    by (simp add: deref_def the_session_def example_server_def example_timeline_def
        example_session_def)
  have m: "req_type ?m = DREQ_SET_MEM \<and> len (mem ?m) \<noteq> 0 \<and> \<not> magic_command ?m
             \<and> length (data (mem ?m)) = len (mem ?m)
           \<or> req_type ?m = DREQ_SET_REG \<and> \<not> orig_ax_write example_extern example_task ?m"
    by (simp add: example_request_def new_GdbRequest_def magic_command_def
        DBG_COMMAND_MAGIC_ADDRESS_def)
  have r: "req_type ?r = DREQ_SET_MEM \<and> len (mem ?r) \<noteq> 0 \<and> \<not> magic_command ?r
             \<and> length (data (mem ?r)) = len (mem ?r)
           \<or> req_type ?r = DREQ_SET_REG \<and> \<not> orig_ax_write example_extern example_task ?r"
    by (simp add: example_request_def new_GdbRequest_def orig_ax_write_def example_extern_def
        example_task_def)
  have rm: "resolve_target (the_session example_server Current) (Some 7) ?m \<noteq> None"
    by (simp add: resolve_target_def find_task_def example_request_def new_GdbRequest_def
        the_session_def example_server_def example_timeline_def example_session_def)
  have rr: "resolve_target (the_session example_server Current) (Some 7) ?r = None"
    by (simp add: resolve_target_def find_task_def example_request_def new_GdbRequest_def
        the_session_def example_server_def example_timeline_def example_session_def)
  have tys: "req_type ?m = DREQ_SET_MEM" "req_type ?r \<noteq> DREQ_SET_MEM"
    by (simp_all add: example_request_def new_GdbRequest_def)
  from write_outside_diversion_fails [OF nd t m, of REPORT_NORMAL]
    write_outside_diversion_fails [OF nd t r, of REPORT_NORMAL] rm rr tys
  show ?thesis
    by simp
qed

section \<open>Thread extra info\<close>

lemma thread_extra_info_resolved:
  assumes "req_type req = DREQ_GET_THREAD_EXTRA_INFO"
    and "deref (the_session srv sr) t = Inr T"
    and "resolve_target (the_session srv sr) t req = Some k"
    and "deref (the_session srv sr) (Some k) = Inr TG"
  shows "dispatch_debugger_request X srv sr t req state =
           Inr (reply_to srv (reply_get_thread_extra_info (name TG)), sr)"
  using assms
  by (auto simp: dispatch_debugger_request_def resolve_target_def is_resume_request_def
      and_then_def Let_def)

lemma thread_extra_info_unresolved:
  assumes "req_type req = DREQ_GET_THREAD_EXTRA_INFO"
    and "deref (the_session srv sr) t = Inr T"
    and "resolve_target (the_session srv sr) t req = None"
  shows "dispatch_debugger_request X srv sr t req state = Inl NullPointer"
  using assms
  by (auto simp: dispatch_debugger_request_def resolve_target_def is_resume_request_def
      and_then_def Let_def deref_def split: if_splits option.splits)

text \<open>C10. A \<^verbatim>\<open>thread_extra_info\<close> request whose target thread 99 is not a
  task of the session: the dispatcher follows the null \<^verbatim>\<open>target\<close> pointer
  to read the task's name, and sends no reply.\<close>

theorem thread_extra_info_unresolved_target_faults:
  "dispatch_debugger_request example_extern example_server Current (Some 7)
     ((example_request DREQ_GET_THREAD_EXTRA_INFO)\<lparr>target := \<lparr>pid = 7, tid = 99\<rparr>\<rparr>) REPORT_NORMAL
   = Inl NullPointer"
proof -
  let ?r = "(example_request DREQ_GET_THREAD_EXTRA_INFO)\<lparr>target := \<lparr>pid = 7, tid = 99\<rparr>\<rparr>"
  have ty: "req_type ?r = DREQ_GET_THREAD_EXTRA_INFO"
    by (simp add: example_request_def new_GdbRequest_def)
  have t: "deref (the_session example_server Current) (Some 7) = Inr example_task"
    by (simp add: deref_def the_session_def example_server_def example_timeline_def
        example_session_def)
  have r: "resolve_target (the_session example_server Current) (Some 7) ?r = None"
    by (simp add: resolve_target_def find_task_def example_request_def new_GdbRequest_def
        the_session_def example_server_def example_timeline_def example_session_def)
  from thread_extra_info_unresolved [OF ty t r] show ?thesis .
qed

section \<open>The magic read\<close>

lemma le_step:
  "ucast (ucast x :: 8 word) OR push_bit 8 (take_bit m (drop_bit 8 x)) = take_bit (8 + m) (x :: 64 word)"
  by (rule bit_word_eqI) (auto simp: bit_simps)

lemma le_fold:
  "foldr (\<lambda>b w. ucast b OR push_bit 8 w) (map (\<lambda>i. ucast (drop_bit (8 * i) w) :: 8 word) [k..<k + n]) 0
   = take_bit (8 * n) (drop_bit (8 * k) (w :: 64 word))"
proof (induction n arbitrary: k)
  case 0
  show ?case by simp
next
  case (Suc n)
  have "[k..<k + Suc n] = k # [Suc k..<Suc k + n]"
    by (simp add: upt_rec)
  moreover have "drop_bit (8 * Suc k) w = drop_bit 8 (drop_bit (8 * k) w)"
    by (simp add: add.commute)
  ultimately show ?case
    using Suc.IH [of "Suc k"] le_step [of "drop_bit (8 * k) w" "8 * n"]
    by simp
qed

lemma le_word64_le_bytes64: "le_word64 (le_bytes64 w) = w"
  using le_fold [of w 0 8] by (simp add: le_word64_def le_bytes64_def take_bit_word_eq_self)

lemma length_le_bytes64: "length (le_bytes64 w) = 8"
  by (simp add: le_bytes64_def)

lemma sint_when: "sint (ucast (e :: 32 word) :: 64 word) = uint e"
proof -
  have "uint e < 2 ^ 32"
    using uint_bounded [of e] by simp
  then have "uint e < 2 ^ 63"
    by simp
  moreover have "- (2 ^ 63) \<le> uint e"
    by (rule order_trans [OF _ uint_nonnegative]) simp
  ultimately
  have "signed_take_bit 63 (uint e) = uint e"
    by (intro signed_take_bit_int_eq_self)
  then show ?thesis
    by (simp add: signed_ucast_eq)
qed

text \<open>C8. For a \<^verbatim>\<open>get_mem\<close> request whose target thread resolves: a read of
  8 bytes at the "when" address is handled by the magic channel, and the reply
  holds 8 bytes that are the little-endian two's-complement encoding of the
  current trace frame's event number when the session is a replay session and
  of \<open>-1\<close> otherwise; a read of another size or at another address is not
  handled by the magic channel, and the reply is that of the normal memory
  path.\<close>

theorem magic_read_when:
  assumes ty: "req_type req = DREQ_GET_MEM"
    and t: "deref (the_session srv sr) t = Inr T"
    and k: "resolve_target (the_session srv sr) t req = Some k"
    and TG: "deref (the_session srv sr) (Some k) = Inr TG"
  shows "(addr (mem req) = DBG_WHEN_MAGIC_ADDRESS \<and> len (mem req) = 8 \<longrightarrow>
            (\<exists>bs. maybe_process_magic_read srv (the_session srv sr) req = (True, reply_to srv (reply_get_mem bs))
               \<and> dispatch_debugger_request X srv sr t req state = Inr (reply_to srv (reply_get_mem bs), sr)
               \<and> length bs = 8
               \<and> sint (le_word64 bs) =
                   (if as_replay (the_session srv sr) then uint (trace_time (the_session srv sr)) else -1)))
       \<and> (\<not> (addr (mem req) = DBG_WHEN_MAGIC_ADDRESS \<and> len (mem req) = 8) \<longrightarrow>
            maybe_process_magic_read srv (the_session srv sr) req = (False, srv)
            \<and> dispatch_debugger_request X srv sr t req state =
                Inr (reply_to srv (reply_get_mem (normal_memory_read (the_session srv sr) TG req)), sr))"
proof -
  from ty have ty': "req_type req = DREQ_SET_MEM \<or> req_type req = DREQ_SET_REG \<or> req_type req = DREQ_GET_MEM"
    by simp
  have disp: "dispatch_debugger_request X srv sr t req state = dispatch_target_request X srv sr t k req"
    using dispatch_to_target [OF ty' t, of X state] k by simp
  show ?thesis
  proof (intro conjI impI)
    assume magic: "addr (mem req) = DBG_WHEN_MAGIC_ADDRESS \<and> len (mem req) = 8"
    let ?when = "if as_replay (the_session srv sr) then ucast (trace_time (the_session srv sr)) else (-1 :: 64 word)"
    have "maybe_process_magic_read srv (the_session srv sr) req
            = (True, reply_to srv (reply_get_mem (le_bytes64 ?when)))"
      using magic by (simp add: maybe_process_magic_read_def)
    moreover from this have "dispatch_debugger_request X srv sr t req state
            = Inr (reply_to srv (reply_get_mem (le_bytes64 ?when)), sr)"
      using disp dispatch_target_get_mem [OF TG ty, of X t] magic by simp
    moreover have "length (le_bytes64 ?when) = 8"
      by (rule length_le_bytes64)
    moreover have "sint (le_word64 (le_bytes64 ?when)) =
        (if as_replay (the_session srv sr) then uint (trace_time (the_session srv sr)) else -1)"
      by (simp add: le_word64_le_bytes64 sint_when)
    ultimately show "\<exists>bs. maybe_process_magic_read srv (the_session srv sr) req = (True, reply_to srv (reply_get_mem bs))
               \<and> dispatch_debugger_request X srv sr t req state = Inr (reply_to srv (reply_get_mem bs), sr)
               \<and> length bs = 8
               \<and> sint (le_word64 bs) =
                   (if as_replay (the_session srv sr) then uint (trace_time (the_session srv sr)) else -1)"
      by blast
  next
    assume other: "\<not> (addr (mem req) = DBG_WHEN_MAGIC_ADDRESS \<and> len (mem req) = 8)"
    then show "maybe_process_magic_read srv (the_session srv sr) req = (False, srv)"
      by (auto simp: maybe_process_magic_read_def)
  next
    assume other: "\<not> (addr (mem req) = DBG_WHEN_MAGIC_ADDRESS \<and> len (mem req) = 8)"
    then show "dispatch_debugger_request X srv sr t req state =
                Inr (reply_to srv (reply_get_mem (normal_memory_read (the_session srv sr) TG req)), sr)"
      using disp dispatch_target_get_mem [OF TG ty, of X t] by auto
  qed
qed

theorem magic_read_when_witness:
  "(\<exists>bs. dispatch_debugger_request example_extern example_server Current (Some 7)
            ((example_request DREQ_GET_MEM)\<lparr>mem := \<lparr>addr = 29302, len = 8, data = []\<rparr>\<rparr>) REPORT_NORMAL
          = Inr (reply_to example_server (reply_get_mem bs), Current)
        \<and> length bs = 8 \<and> sint (le_word64 bs) = 42)
   \<and> dispatch_debugger_request example_extern example_server Current (Some 7)
        ((example_request DREQ_GET_MEM)\<lparr>mem := \<lparr>addr = 4098, len = 8, data = []\<rparr>\<rparr>) REPORT_NORMAL
      = Inr (reply_to example_server (reply_get_mem [0x90, 0x90]), Current)"
proof -
  let ?w = "(example_request DREQ_GET_MEM)\<lparr>mem := \<lparr>addr = 29302, len = 8, data = []\<rparr>\<rparr>"
  let ?m = "(example_request DREQ_GET_MEM)\<lparr>mem := \<lparr>addr = 4098, len = 8, data = []\<rparr>\<rparr>"
  let ?s = "the_session example_server Current"
  have t: "deref ?s (Some 7) = Inr example_task"
    by (simp add: deref_def the_session_def example_server_def example_timeline_def
        example_session_def)
  have tys: "req_type ?w = DREQ_GET_MEM" "req_type ?m = DREQ_GET_MEM"
    by (simp_all add: example_request_def new_GdbRequest_def)
  have ks: "resolve_target ?s (Some 7) ?w = Some 7" "resolve_target ?s (Some 7) ?m = Some 7"
    by (simp_all add: resolve_target_def find_task_def example_request_def new_GdbRequest_def
        the_session_def example_server_def example_timeline_def example_session_def)
  have w: "addr (mem ?w) = DBG_WHEN_MAGIC_ADDRESS \<and> len (mem ?w) = 8"
    by (simp add: DBG_WHEN_MAGIC_ADDRESS_def DBG_COMMAND_MAGIC_ADDRESS_def)
  have m: "\<not> (addr (mem ?m) = DBG_WHEN_MAGIC_ADDRESS \<and> len (mem ?m) = 8)"
    by (simp add: DBG_WHEN_MAGIC_ADDRESS_def DBG_COMMAND_MAGIC_ADDRESS_def)
  have s: "as_replay ?s" "uint (trace_time ?s) = 42"
    by (simp_all add: as_replay_def the_session_def example_server_def example_timeline_def
        example_session_def)
  have "read_prefix (memory example_vm) 4098 8 = [0x90, 0x90]"
    by (simp add: example_vm_def eval_nat_numeral)
  then have n: "normal_memory_read ?s example_task ?m = [0x90, 0x90]"
    by (simp add: normal_memory_read_def read_bytes_fallible_def
        replace_breakpoints_with_original_values_def the_session_def example_server_def
        example_timeline_def example_session_def example_vm_def upt_rec)
  from magic_read_when [OF tys(1) t ks(1) t, of example_extern REPORT_NORMAL] w s
  have "\<exists>bs. dispatch_debugger_request example_extern example_server Current (Some 7) ?w REPORT_NORMAL
          = Inr (reply_to example_server (reply_get_mem bs), Current)
        \<and> length bs = 8 \<and> sint (le_word64 bs) = 42"
    by auto
  moreover from magic_read_when [OF tys(2) t ks(2) t, of example_extern REPORT_NORMAL] m n
  have "dispatch_debugger_request example_extern example_server Current (Some 7) ?m REPORT_NORMAL
      = Inr (reply_to example_server (reply_get_mem [0x90, 0x90]), Current)"
    by simp
  ultimately show ?thesis
    by blast
qed

section \<open>Checkpoints created through the magic channel\<close>

lemma create_checkpoint_adds_without_release:
  assumes "addr (mem req) = DBG_COMMAND_MAGIC_ADDRESS" and "len (mem req) = 4"
    and "4 \<le> length (data (mem req))"
    and "le_word32 (take 4 (data (mem req))) AND DBG_COMMAND_MSG_MASK = DBG_COMMAND_MSG_CREATE_CHECKPOINT"
    and "can_add_checkpoint (timeline srv)"
  shows "\<exists>srv'. maybe_process_magic_command srv req = Inr (True, srv')
           \<and> checkpoints srv' = (checkpoints srv)
                (uint (le_word32 (take 4 (data (mem req))) AND DBG_COMMAND_PARAMETER_MASK) \<mapsto> mark (timeline srv))
           \<and> explicit_checkpoints (timeline srv') = mark (timeline srv) # explicit_checkpoints (timeline srv)
           \<and> sent (dbg srv') = sent (dbg srv) @ [reply_set_mem True]"
  using assms
  by (simp add: maybe_process_magic_command_def Let_def add_explicit_checkpoint_def reply_to_def
      send_def)

lemma delete_checkpoint_releases_one:
  assumes "addr (mem req) = DBG_COMMAND_MAGIC_ADDRESS" and "len (mem req) = 4"
    and "4 \<le> length (data (mem req))"
    and "le_word32 (take 4 (data (mem req))) AND DBG_COMMAND_MSG_MASK = DBG_COMMAND_MSG_DELETE_CHECKPOINT"
    and "checkpoints srv (uint (le_word32 (take 4 (data (mem req))) AND DBG_COMMAND_PARAMETER_MASK)) = Some m"
  shows "\<exists>srv'. maybe_process_magic_command srv req = Inr (True, srv')
           \<and> checkpoints srv' = (checkpoints srv)
                (uint (le_word32 (take 4 (data (mem req))) AND DBG_COMMAND_PARAMETER_MASK) := None)
           \<and> explicit_checkpoints (timeline srv') = remove1 m (explicit_checkpoints (timeline srv))"
  using assms
  by (simp add: maybe_process_magic_command_def Let_def remove_explicit_checkpoint_def reply_to_def
      DBG_COMMAND_MSG_DELETE_CHECKPOINT_def DBG_COMMAND_MSG_CREATE_CHECKPOINT_def)

text \<open>C3. The create-checkpoint command is sent for index 5 at mark 10 and,
  after the timeline has moved to mark 11, for index 5 again.  Both commands are
  handled.  After the second one the table binds index 5 to mark 11 alone, and
  the timeline still holds the explicit checkpoint of mark 10 beside that of
  mark 11: the old entry's explicit mark was not released.\<close>

theorem create_checkpoint_twice_keeps_old_mark:
  "maybe_process_magic_command example_server example_create_checkpoint
     = Inr (True, example_checkpoint_5 10)
   \<and> maybe_process_magic_command
       ((example_checkpoint_5 10)\<lparr>timeline := (timeline (example_checkpoint_5 10))\<lparr>current_mark := example_mark 11\<rparr>\<rparr>)
       example_create_checkpoint
     = Inr (True,
            (example_checkpoint_5 11)
              \<lparr>timeline := (timeline (example_checkpoint_5 11))
                   \<lparr>explicit_checkpoints := [example_mark 11, example_mark 10]\<rparr>,
               dbg := \<lparr>sent = [reply_set_mem True, reply_set_mem True], reverse_execution = True\<rparr>\<rparr>)"
  by (simp add: maybe_process_magic_command_def Let_def example_create_checkpoint_fields
      can_add_checkpoint_def add_explicit_checkpoint_def mark_def reply_to_def send_def
      example_checkpoint_5_def example_server_def example_timeline_def example_session_def)

section \<open>Restart and the restart mark\<close>

text \<open>A restart from checkpoint \<open>i\<close> whose table entry is the mark \<open>m\<close>
  clears the breakpoints and watchpoints, seeks (once) to \<open>m\<close>, releases the
  explicit checkpoint of the old \<^verbatim>\<open>debugger_restart_mark\<close> (if there is one)
  and makes \<open>m\<close> the new restart mark, for which a fresh explicit checkpoint
  is taken at \<open>m\<close> when the session restored there can be cloned.  The
  checkpoint table is unchanged and nothing is sent to the client.\<close>

lemma restart_from_checkpoint_adopts_mark:
  assumes ty: "req_type req = DREQ_RESTART"
    and rt: "restart_type (restart req) = RESTART_FROM_CHECKPOINT"
    and cp: "checkpoints srv (param (restart req)) = Some m"
  shows "\<exists>srv'. restart_session X srv req = Some (Inr srv')
           \<and> debugger_restart_mark srv' = Some m
           \<and> checkpoints srv' = checkpoints srv
           \<and> current_mark (timeline srv') = m
           \<and> seeks (timeline srv') = seeks (timeline srv) @ [m]
           \<and> explicit_checkpoints (timeline srv') =
                (if can_clone (session_at (timeline srv) m) then [m] else [])
                @ (case debugger_restart_mark srv of
                     None \<Rightarrow> explicit_checkpoints (timeline srv)
                   | Some old \<Rightarrow> remove1 old (explicit_checkpoints (timeline srv)))
           \<and> tl_breakpoints (timeline srv') = [] \<and> tl_watchpoints (timeline srv') = []
           \<and> dbg srv' = dbg srv"
  using assms
  by (auto simp: restart_session_def Let_def seek_to_mark_def remove_explicit_checkpoint_def
      add_explicit_checkpoint_def can_add_checkpoint_def mark_def
      remove_breakpoints_and_watchpoints_def split: option.splits)

lemma example_replay_exits:
  "restart_replay_loop example_extern srv
     = Some (Inr (srv\<lparr>timeline := seek_to_before_event (event (srv_target srv)) (timeline srv)\<rparr>))"
  by (subst restart_replay_loop.simps) (simp add: example_extern_def)

text \<open>C4. The debugger is activated at mark 10: the explicit checkpoint taken
  there is the restart mark, and the checkpoint table is empty.  A restart from
  the previous point releases that explicit checkpoint before it sets the
  restart mark again, so that the timeline holds one explicit checkpoint
  afterwards, that of the restart mark.  A restart from event 3 does not release
  it: the restart mark becomes a fresh explicit checkpoint, taken at mark 0 (the
  point before event 3, where the replay of the example stops), and the
  timeline still holds the explicit checkpoint of mark 10, which neither an
  entry of the checkpoint table nor the restart mark owns.\<close>

theorem restart_from_event_keeps_old_restart_mark:
  "activate_debugger example_server = Inr example_activated
   \<and> restart_session example_extern example_activated example_restart_previous
     = Some (Inr (example_activated
                    \<lparr>timeline := (timeline example_activated)
                         \<lparr>breakpoints_applied := False, seeks := [example_mark 10],
                          explicit_checkpoints := [example_mark 10]\<rparr>,
                     debugger_restart_mark := Some (example_mark 10)\<rparr>))
   \<and> restart_session example_extern example_activated example_restart_event
     = Some (Inr (example_activated
                    \<lparr>timeline := (timeline example_activated)
                         \<lparr>current_mark := example_mark 0, breakpoints_applied := False,
                          seeks := [example_mark 0, example_mark 0],
                          explicit_checkpoints := [example_mark 0, example_mark 10]\<rparr>,
                     debugger_restart_mark := Some (example_mark 0)\<rparr>))
   \<and> checkpoints example_activated = Map.empty
   \<and> example_mark 10 \<noteq> example_mark 0"
proof -
  have p: "req_type example_restart_previous = DREQ_RESTART"
    "restart_type (restart example_restart_previous) = RESTART_FROM_PREVIOUS"
    by (simp_all add: example_restart_previous_def example_request_def new_GdbRequest_def)
  have r: "req_type example_restart_event = DREQ_RESTART"
    "restart_type (restart example_restart_event) = RESTART_FROM_EVENT"
    "param (restart example_restart_event) = 3"
    by (simp_all add: example_restart_event_def example_request_def new_GdbRequest_def)
  have a: "activate_debugger example_server = Inr example_activated"
    by (simp add: activate_debugger_def Let_def add_explicit_checkpoint_def mark_def and_then_def
        deref_def find_task_def example_activated_def example_server_def example_timeline_def
        example_session_def example_task_def)
  have b: "restart_session example_extern example_activated example_restart_previous
     = Some (Inr (example_activated
                    \<lparr>timeline := (timeline example_activated)
                         \<lparr>breakpoints_applied := False, seeks := [example_mark 10],
                          explicit_checkpoints := [example_mark 10]\<rparr>,
                     debugger_restart_mark := Some (example_mark 10)\<rparr>))"
    by (simp add: restart_session_def Let_def p can_add_checkpoint_def add_explicit_checkpoint_def
        mark_def seek_to_mark_def remove_explicit_checkpoint_def
        remove_breakpoints_and_watchpoints_def example_activated_def
        example_server_def example_timeline_def example_session_def)
  have c: "restart_session example_extern example_activated example_restart_event
     = Some (Inr (example_activated
                    \<lparr>timeline := (timeline example_activated)
                         \<lparr>current_mark := example_mark 0, breakpoints_applied := False,
                          seeks := [example_mark 0, example_mark 0],
                          explicit_checkpoints := [example_mark 0, example_mark 10]\<rparr>,
                     debugger_restart_mark := Some (example_mark 0)\<rparr>))"
    by (simp add: restart_session_def Let_def r example_replay_exits
        activate_debugger_def add_explicit_checkpoint_def mark_def and_then_def
        deref_def find_task_def seek_to_before_event_def seek_to_mark_def
        remove_breakpoints_and_watchpoints_def example_activated_def
        example_server_def example_timeline_def example_session_def example_task_def)
  have d: "checkpoints example_activated = Map.empty"
    by (simp add: example_activated_def example_server_def)
  have e: "example_mark 10 \<noteq> example_mark 0"
    by (simp add: example_mark_def)
  from a b c d e show ?thesis by blast
qed

section \<open>The stop reporter: signal selection\<close>

text \<open>C5, as amended. For a break status with a task and a signal number that
  is not negative, the stop reporter notifies the client exactly when a
  watchpoint fired, a breakpoint fired, a singlestep completed, the replay
  delivered a signal, or the task is the last thread of its own task group
  exiting and the client advertised reverse execution.  The signal of the
  notification is SIGKILL in the last case, else the delivered signal if there
  is one, else SIGTRAP; the watch address is that of the first watchpoint hit,
  if any.\<close>

theorem stop_reporter_signal:
  assumes T: "task break_status = Some T"
    and sig: "0 \<le> signal break_status"
  shows "maybe_notify_stop srv break_status =
           Inr (if watchpoints_hit break_status \<noteq> [] \<or> breakpoint_hit break_status
                   \<or> singlestep_complete break_status \<or> signal break_status \<noteq> 0
                   \<or> (task_exit break_status \<and> length (task_set (task_group T)) = 1
                       \<and> reverse_execution (dbg srv))
                then reply_to srv
                       (notify_stop (get_threadid T)
                          (if task_exit break_status \<and> length (task_set (task_group T)) = 1
                              \<and> reverse_execution (dbg srv) then SIGKILL
                           else if signal break_status \<noteq> 0 then signal break_status
                           else SIGTRAP)
                          (case watchpoints_hit break_status of [] \<Rightarrow> 0 | w # ws \<Rightarrow> wc_addr w))
                else srv)"
  using assms
  by (auto simp: maybe_notify_stop_def is_last_thread_exit_def stop_signal_def stop_watch_addr_def
      and_then_def Let_def SIGTRAP_def SIGKILL_def)

theorem stop_reporter_signal_witness:
  "maybe_notify_stop example_server
     (new_BreakStatus\<lparr>task := Some example_task,
        watchpoints_hit := [\<lparr>wc_addr = 4096, wc_num_bytes = 4, wc_type = WATCH_WRITE\<rparr>],
        signal := 11\<rparr>)
   = Inr (reply_to example_server (notify_stop \<lparr>pid = 7, tid = 7\<rparr> 11 4096))
   \<and> maybe_notify_stop example_server
     (new_BreakStatus\<lparr>task := Some example_task, signal := 11, task_exit := True\<rparr>)
   = Inr (reply_to example_server (notify_stop \<lparr>pid = 7, tid = 7\<rparr> SIGKILL 0))
   \<and> maybe_notify_stop example_server (new_BreakStatus\<lparr>task := Some example_task\<rparr>)
   = Inr example_server"
proof -
  let ?a = "new_BreakStatus\<lparr>task := Some example_task,
        watchpoints_hit := [\<lparr>wc_addr = 4096, wc_num_bytes = 4, wc_type = WATCH_WRITE\<rparr>],
        signal := 11\<rparr>"
  let ?b = "new_BreakStatus\<lparr>task := Some example_task, signal := 11, task_exit := True\<rparr>"
  let ?c = "new_BreakStatus\<lparr>task := Some example_task\<rparr>"
  have a: "task ?a = Some example_task" "0 \<le> signal ?a"
    and b: "task ?b = Some example_task" "0 \<le> signal ?b"
    and c: "task ?c = Some example_task" "0 \<le> signal ?c"
    by (simp_all add: new_BreakStatus_def)
  from stop_reporter_signal [OF a, of example_server] stop_reporter_signal [OF b, of example_server]
    stop_reporter_signal [OF c, of example_server]
  show ?thesis
    by (simp add: new_BreakStatus_def example_task_def example_server_def get_threadid_def)
qed

text \<open>C5, as stated, fails. The last thread of a task group that is not the
  debuggee's exits, nothing else happened, and the client advertised reverse
  execution: the stop reporter notifies a stop with SIGKILL.\<close>

theorem stop_reporter_sigkill_other_task_group:
  "maybe_notify_stop example_server (new_BreakStatus\<lparr>task := Some example_other_task, task_exit := True\<rparr>)
     = Inr (reply_to example_server (notify_stop \<lparr>pid = 8, tid = 8\<rparr> SIGKILL 0))
   \<and> tguid (task_group example_other_task) \<noteq> debuggee_tguid example_server"
  by (simp add: maybe_notify_stop_def is_last_thread_exit_def stop_signal_def stop_watch_addr_def
      and_then_def Let_def SIGKILL_def new_BreakStatus_def get_threadid_def
      example_other_task_def example_task_def example_server_def)

section \<open>The reverse-step fast path: lazy steps\<close>

lemma lazy_step_requested_eq:
  "deref s t = Inr T \<Longrightarrow> lazy_step_requested s t req = Inr (lazy_step_request T req)"
  by (auto simp: lazy_step_requested_def lazy_step_request_def and_then_def)

lemma maybe_notify_stop_singlestep:
  "maybe_notify_stop srv (new_BreakStatus\<lparr>task := Some T, singlestep_complete := True\<rparr>)
     = Inr (sent_more srv [notify_stop (get_threadid T) SIGTRAP 0])"
  by (simp add: maybe_notify_stop_def new_BreakStatus_def is_last_thread_exit_def and_then_def
      stop_signal_def stop_watch_addr_def Let_def SIGTRAP_def sent_more_simps)

lemma lazy_get_regs_loop_drains:
  assumes "\<forall>g \<in> set gs. req_type g = DREQ_GET_REGS" and "req_type r \<noteq> DREQ_GET_REGS"
  shows "lazy_get_regs_loop srv now (gs @ r # rest)
           = Inr (r\<lparr>suppress_debugger_stop := False\<rparr>, sent_more srv (map (\<lambda>g. regs_reply now) gs), rest)"
  using assms
  by (induction gs arbitrary: srv) (simp_all add: Let_def sent_more_simps)

lemma try_lazy_reverse_singlesteps_loop_rounds:
  assumes "deref (current_session (timeline srv)) t = Inr T"
    and "lazy_rounds (timeline srv) T (case now of None \<Rightarrow> mark (timeline srv) | Some m \<Rightarrow> m) req rounds"
  shows "try_lazy_reverse_singlesteps_loop srv t req now need_seek (rounds_requests rounds @ rest)
           = Inr (final_request req rounds,
                  (if rounds = [] \<and> \<not> lazy_step_request T req then now
                   else Some (final_mark (case now of None \<Rightarrow> mark (timeline srv) | Some m \<Rightarrow> m) rounds)),
                  need_seek \<or> rounds \<noteq> [],
                  sent_more srv (rounds_replies T rounds), rest)"
  using assms
proof (induction rounds arbitrary: srv req now need_seek)
  case Nil
  then show ?case
    by (subst try_lazy_reverse_singlesteps_loop.simps)
      (auto simp: lazy_step_requested_eq Let_def sent_more_simps)
next
  case (Cons round rounds)
  obtain previous gs r where round: "round = (previous, gs, r)"
    by (cases round)
  from Cons.prems(2) round
  have req: "lazy_step_request T req"
    and prev: "lazy_reverse_singlestep (timeline srv) (case now of None \<Rightarrow> mark (timeline srv) | Some m \<Rightarrow> m) T
                 = Some previous"
    and gs: "\<forall>g \<in> set gs. req_type g = DREQ_GET_REGS" and r: "req_type r \<noteq> DREQ_GET_REGS"
    and rest: "lazy_rounds (timeline srv) T previous (r\<lparr>suppress_debugger_stop := False\<rparr>) rounds"
    by simp_all
  let ?srv2 = "sent_more srv (notify_stop (get_threadid T) SIGTRAP 0 # map (\<lambda>g. regs_reply previous) gs)"
  have IH: "try_lazy_reverse_singlesteps_loop ?srv2 t (r\<lparr>suppress_debugger_stop := False\<rparr>)
              (Some previous) True (rounds_requests rounds @ rest)
            = Inr (final_request (r\<lparr>suppress_debugger_stop := False\<rparr>) rounds,
                   Some (final_mark previous rounds), True,
                   sent_more ?srv2 (rounds_replies T rounds), rest)"
    using Cons.IH [of ?srv2 "Some previous" "r\<lparr>suppress_debugger_stop := False\<rparr>" True]
      Cons.prems(1) rest
    by (cases rounds) (auto simp: sent_more_simps)
  show ?case
    apply (subst try_lazy_reverse_singlesteps_loop.simps)
    apply (simp add: lazy_step_requested_eq [OF Cons.prems(1)] Cons.prems(1) req prev round
        maybe_notify_stop_singlestep lazy_get_regs_loop_drains [OF gs r] IH Let_def
        sent_more_simps(1,2,4,5))
    done
qed

text \<open>C6. Let the pending request and the requests that follow it form the
  rounds \<open>rounds\<close> of lazy reverse steps (\<open>lazy_rounds\<close>).  Then the fast
  path answers each round with a stop notification with SIGTRAP for the task
  and answers each \<^verbatim>\<open>get_regs\<close> of the round with the registers of the
  round's mark; it leaves each round's loop at the first request that is not a
  \<^verbatim>\<open>get_regs\<close>; the timeline is not touched during the rounds; the request
  pending after the last round is returned with the requests not read; and
  before returning the timeline is sought exactly once, to the mark of the last
  round, if there was a round, and not at all if there was none.\<close>

theorem lazy_reverse_singlesteps:
  assumes t: "deref (current_session (timeline srv)) t = Inr T"
    and rounds: "lazy_rounds (timeline srv) T (mark (timeline srv)) req rounds"
  shows "try_lazy_reverse_singlesteps srv t req (rounds_requests rounds @ rest)
           = Inr (final_request req rounds,
                  (sent_more srv (rounds_replies T rounds))
                    \<lparr>timeline := (if rounds = [] then timeline srv
                                  else seek_to_mark (final_mark (mark (timeline srv)) rounds) (timeline srv))\<rparr>,
                  rest)
         \<and> seeks (if rounds = [] then timeline srv
                   else seek_to_mark (final_mark (mark (timeline srv)) rounds) (timeline srv))
             = seeks (timeline srv) @ (if rounds = [] then [] else [final_mark (mark (timeline srv)) rounds])"
proof -
  from rounds have "lazy_rounds (timeline srv) T
      (case None of None \<Rightarrow> mark (timeline srv) | Some m \<Rightarrow> m) req rounds"
    by simp
  note loop = try_lazy_reverse_singlesteps_loop_rounds [OF t this, of False rest]
  have "sent_more srv [] \<lparr>timeline := timeline srv\<rparr> = srv"
    by (simp add: sent_more_simps)
  with loop show ?thesis
    by (simp add: try_lazy_reverse_singlesteps_def seek_to_mark_def sent_more_simps(1,2,4,5))
qed

theorem lazy_reverse_singlesteps_witness:
  "try_lazy_reverse_singlesteps example_server (Some 7) example_reverse_step
     [example_request DREQ_GET_REGS, example_request DREQ_GET_REGS, example_request DREQ_GET_MEM,
      example_request DREQ_DETACH]
   = Inr (example_request DREQ_GET_MEM,
          example_server
            \<lparr>dbg := \<lparr>sent = [notify_stop \<lparr>pid = 7, tid = 7\<rparr> SIGTRAP 0,
                             regs_reply (example_mark 9), regs_reply (example_mark 9)],
                     reverse_execution = True\<rparr>,
             timeline := example_timeline
               \<lparr>current_mark := example_mark 9, seeks := [example_mark 9]\<rparr>\<rparr>,
          [example_request DREQ_DETACH])
   \<and> try_lazy_reverse_singlesteps example_server (Some 7) (example_request DREQ_GET_MEM)
       [example_request DREQ_DETACH]
     = Inr (example_request DREQ_GET_MEM, example_server, [example_request DREQ_DETACH])"
proof -
  let ?g = "example_request DREQ_GET_REGS"
  let ?m = "example_request DREQ_GET_MEM"
  let ?rounds = "[(example_mark 9, [?g, ?g], ?m)]"
  have t: "deref (current_session (timeline example_server)) (Some 7) = Inr example_task"
    by (simp add: deref_def example_server_def example_timeline_def example_session_def)
  have step: "lazy_step_request example_task example_reverse_step"
    by (simp add: lazy_step_request_def example_reverse_step_def example_request_def
        new_GdbRequest_def matches_threadid_def example_task_def)
  have nostep: "\<not> lazy_step_request example_task (?m\<lparr>suppress_debugger_stop := False\<rparr>)"
    "\<not> lazy_step_request example_task ?m"
    by (simp_all add: lazy_step_request_def example_request_def new_GdbRequest_def)
  have cache: "lazy_reverse_singlestep (timeline example_server) (mark (timeline example_server)) example_task
                 = Some (example_mark 9)"
    by (simp add: lazy_reverse_singlestep_def mark_def example_server_def example_timeline_def
        example_task_def example_mark_def)
  have types: "req_type ?g = DREQ_GET_REGS" "req_type ?m \<noteq> DREQ_GET_REGS"
    by (simp_all add: example_request_def new_GdbRequest_def)
  have r1: "lazy_rounds (timeline example_server) example_task (mark (timeline example_server))
              example_reverse_step ?rounds"
    using step nostep cache types by simp
  have r0: "lazy_rounds (timeline example_server) example_task (mark (timeline example_server)) ?m []"
    using nostep by simp
  have same: "?m\<lparr>suppress_debugger_stop := False\<rparr> = ?m"
    by (simp add: example_request_def new_GdbRequest_def)
  from lazy_reverse_singlesteps [OF t r1, of "[example_request DREQ_DETACH]"]
    lazy_reverse_singlesteps [OF t r0, of "[example_request DREQ_DETACH]"] same
  show ?thesis
    by (simp add: sent_more_def seek_to_mark_def get_threadid_def example_task_def
        example_server_def example_timeline_def)
qed

section \<open>The diversion reference count\<close>

lemma diverter_serves:
  assumes "\<forall>q \<in> set pre. diversion_request q"
    and "refcount_after rc0 pre = Some rc"
  shows "diverter_process_debugger_requests X srv t ds rc0 (pre @ rest) =
           (case diversion_serves X srv t ds pre of
              Inl e \<Rightarrow> Inl e
            | Inr (srv1, t1, ds1) \<Rightarrow> diverter_process_debugger_requests X srv1 t1 ds1 rc rest)"
  using assms
proof (induction pre arbitrary: srv t ds rc0)
  case Nil
  then show ?case by simp
next
  case (Cons q pre)
  from Cons.prems have q: "\<not> is_resume_request q" "req_type q \<noteq> DREQ_RESTART" "req_type q \<noteq> DREQ_DETACH"
    and pre: "\<forall>q \<in> set pre. diversion_request q"
    by (simp_all add: diversion_request_def)
  show ?case
  proof (cases "req_type q = DREQ_READ_SIGINFO")
    case True
    with Cons.prems have "refcount_after (rc0 + 1) pre = Some rc" by simp
    from Cons.IH [OF pre this] True q show ?thesis
      by (simp add: siginfo_reply_def)
  next
    case nr: False
    show ?thesis
    proof (cases "req_type q = DREQ_WRITE_SIGINFO")
      case True
      with Cons.prems nr have nz: "rc0 \<noteq> 0" and "refcount_after (rc0 - 1) pre = Some rc"
        by (simp_all split: if_splits)
      from Cons.IH [OF pre this(2)] True q nr nz show ?thesis
        by (simp add: siginfo_reply_def word_greater_zero_iff)
    next
      case nw: False
      with Cons.prems nr have c: "refcount_after rc0 pre = Some rc" by simp
      note IH = Cons.IH [OF pre c]
      from q nr nw show ?thesis
        by (simp add: IH split: sum.splits prod.splits)
    qed
  qed
qed


lemma diverter_underflow:
  assumes "\<forall>q \<in> set pre. diversion_request q"
    and "refcount_after rc0 pre = None"
  shows "\<exists>e. diverter_process_debugger_requests X srv t ds rc0 (pre @ rest) = Inl e"
  using assms
proof (induction pre arbitrary: srv t ds rc0)
  case Nil
  then show ?case by simp
next
  case (Cons q pre)
  from Cons.prems have q: "\<not> is_resume_request q" "req_type q \<noteq> DREQ_RESTART" "req_type q \<noteq> DREQ_DETACH"
    and pre: "\<forall>q \<in> set pre. diversion_request q"
    by (simp_all add: diversion_request_def)
  show ?case
  proof (cases "req_type q = DREQ_READ_SIGINFO")
    case True
    with Cons.prems have "refcount_after (rc0 + 1) pre = None" by simp
    from Cons.IH [OF pre this] True q show ?thesis by simp
  next
    case nr: False
    show ?thesis
    proof (cases "req_type q = DREQ_WRITE_SIGINFO")
      case w: True
      show ?thesis
      proof (cases "rc0 = 0")
        case True
        with w q nr show ?thesis by simp
      next
        case False
        with Cons.prems nr w have "refcount_after (rc0 - 1) pre = None" by simp
        from Cons.IH [OF pre this] w q nr False show ?thesis
          by (simp add: word_greater_zero_iff)
      qed
    next
      case nw: False
      with Cons.prems nr have c: "refcount_after rc0 pre = None" by simp
      note IH = Cons.IH [OF pre c]
      from q nr nw IH show ?thesis
        by (auto split: sum.splits prod.splits)
    qed
  qed
qed

lemma diverter_ends:
  assumes "is_resume_request r \<or> req_type r = DREQ_RESTART \<or> req_type r = DREQ_DETACH"
  shows "diverter_process_debugger_requests X srv t ds rc (r # rest)
           = Inr (if is_resume_request r \<and> rc \<noteq> 0 then t else None, r, srv, ds,
                  if is_resume_request r then rc else 0, rest)"
  using assms by (auto simp: is_resume_request_def)

lemma dispatch_target_set_mem_diversion:
  assumes "deref (the_session srv sr) (Some k) = Inr TG"
    and "is_diversion (the_session srv sr)"
    and "req_type req = DREQ_SET_MEM" and "len (mem req) \<noteq> 0" and "\<not> magic_command req"
    and "length (data (mem req)) = len (mem req)"
  shows "dispatch_target_request X srv sr t k req =
           (case put_session srv sr
                   (update_vm (vm TG)
                      ((vms (the_session srv sr) (vm TG))
                         \<lparr>memory := write_bytes (addr (mem req)) (data (mem req))
                                      (memory (vms (the_session srv sr) (vm TG)))\<rparr>)
                      (the_session srv sr)) of
              (srv1, sr1) \<Rightarrow> Inr (reply_to srv1 (reply_set_mem True), sr1))"
  using assms
  by (simp add: dispatch_target_request_def and_then_def Let_def
      maybe_process_magic_command_not_handled)

lemma example_diversion_task:
  "deref (clone_diversion example_session) (Some 7) = Inr example_task"
  "deref example_diversion (Some 7) = Inr example_task"
  "find_task (clone_diversion example_session) 7 = Some 7"
  "find_task example_diversion 7 = Some 7"
  "is_diversion (clone_diversion example_session)"
  "is_diversion example_diversion"
  by (simp_all add: deref_def find_task_def is_diversion_def example_diversion_def update_vm_def
      clone_diversion_def example_session_def)

lemma example_memory_requests:
  "req_type example_write_memory = DREQ_SET_MEM" "req_type example_read_memory = DREQ_GET_MEM"
  "tid (target example_write_memory) = 7" "tid (target example_read_memory) = 7"
  "mem example_write_memory = \<lparr>addr = 4096, len = 4, data = [1, 2, 3, 4]\<rparr>"
  "mem example_read_memory = \<lparr>addr = 4096, len = 4, data = []\<rparr>"
  "\<not> magic_command example_write_memory"
  by (simp_all add: example_write_memory_def example_read_memory_def example_request_def
      new_GdbRequest_def magic_command_def DBG_COMMAND_MAGIC_ADDRESS_def)

lemma example_diversion_write:
  "dispatch_debugger_request example_extern srv (Other (clone_diversion example_session)) (Some 7)
     example_write_memory REPORT_NORMAL
   = Inr (reply_to srv (reply_set_mem True), Other example_diversion)"
proof -
  have "dispatch_debugger_request example_extern srv (Other (clone_diversion example_session)) (Some 7)
     example_write_memory REPORT_NORMAL
     = dispatch_target_request example_extern srv (Other (clone_diversion example_session)) (Some 7) 7
         example_write_memory"
    using dispatch_to_target [of example_write_memory srv "Other (clone_diversion example_session)"
        "Some 7" example_task example_extern REPORT_NORMAL]
    by (simp add: example_memory_requests the_session_def example_diversion_task resolve_target_def)
  also have "\<dots> =
      (case put_session srv (Other (clone_diversion example_session))
              (update_vm (vm example_task)
                 ((vms (clone_diversion example_session) (vm example_task))
                    \<lparr>memory := write_bytes (addr (mem example_write_memory)) (data (mem example_write_memory))
                                 (memory (vms (clone_diversion example_session) (vm example_task)))\<rparr>)
                 (clone_diversion example_session)) of
         (srv1, sr1) \<Rightarrow> Inr (reply_to srv1 (reply_set_mem True), sr1))"
    using dispatch_target_set_mem_diversion [of srv "Other (clone_diversion example_session)" 7
        example_task example_write_memory example_extern "Some 7"]
    by (simp only: the_session_def session_ref.simps example_diversion_task example_memory_requests)
       simp
  also have "\<dots> = Inr (reply_to srv (reply_set_mem True), Other example_diversion)"
    by (simp add: example_memory_requests put_session_def
        example_diversion_def example_task_def clone_diversion_def example_session_def)
  finally show ?thesis .
qed

lemma example_diversion_read:
  "dispatch_debugger_request example_extern srv (Other example_diversion) (Some 7)
     example_read_memory REPORT_NORMAL
   = Inr (reply_to srv (reply_get_mem [1, 2, 3, 4]), Other example_diversion)"
proof -
  have "dispatch_debugger_request example_extern srv (Other example_diversion) (Some 7)
     example_read_memory REPORT_NORMAL
     = dispatch_target_request example_extern srv (Other example_diversion) (Some 7) 7 example_read_memory"
    using dispatch_to_target [of example_read_memory srv "Other example_diversion"
        "Some 7" example_task example_extern REPORT_NORMAL]
    by (simp add: example_memory_requests the_session_def example_diversion_task resolve_target_def)
  also have "\<dots> = Inr (reply_to srv (reply_get_mem
                        (normal_memory_read example_diversion example_task example_read_memory)),
                      Other example_diversion)"
    using dispatch_target_get_mem [of srv "Other example_diversion" 7 example_task example_read_memory
        example_extern "Some 7"]
    by (simp add: example_memory_requests the_session_def example_diversion_task
        DBG_WHEN_MAGIC_ADDRESS_def)
  also have "normal_memory_read example_diversion example_task example_read_memory = [1, 2, 3, 4]"
    by (simp add: normal_memory_read_def read_bytes_fallible_def
        replace_breakpoints_with_original_values_def example_memory_requests
        example_diversion_def update_vm_def example_task_def example_vm_def
        eval_nat_numeral upt_rec)
  finally show ?thesis .
qed

lemma example_diversion_serves:
  "diversion_serves example_extern example_server (Some 7) (clone_diversion example_session)
     [example_write_memory, example_read_memory, example_read_siginfo]
   = Inr (sent_more example_server
            [reply_set_mem True, reply_get_mem [1, 2, 3, 4], reply_read_siginfo [0, 0, 0, 0]],
          Some 7, example_diversion)"
proof -
  have s: "req_type example_read_siginfo = DREQ_READ_SIGINFO"
    "siginfo_reply example_read_siginfo = reply_read_siginfo [0, 0, 0, 0]"
    by (simp_all add: siginfo_reply_def example_read_siginfo_def example_request_def new_GdbRequest_def
        eval_nat_numeral)
  show ?thesis
    by (simp add: example_memory_requests(1,2) s example_diversion_write example_diversion_read
        sent_more_simps(3,4) del: reply.simps)
qed


text \<open>C2, as amended. The diversion starts its loop at reference count 1.
  Let the loop stand at the count \<open>rc0\<close> and receive the requests \<open>pre\<close>, none
  of them a resume, restart or detach request, and then such a request \<open>r\<close>.
  Each \<^verbatim>\<open>read_siginfo\<close> of \<open>pre\<close> increments the count and is answered with
  zero bytes of the requested length, each \<^verbatim>\<open>write_siginfo\<close> (it arrives at
  a count other than 0) decrements it and is answered with the ack, and every
  other request is dispatched against the diversion session and leaves the
  count as it is; \<open>rc\<close> is the count when \<open>r\<close> arrives.  A restart or detach
  request ends the diversion at any count and a resume request ends it when
  \<open>rc = 0\<close>; the request that ended the diversion is returned for the canonical
  session.  A resume request at another count does not end the diversion: a
  backward one is only answered with a SIGTRAP stop, a forward one runs one
  diversion step, whose break status goes to the stop reporter, and the loop
  goes on at the same count \<open>rc\<close>; when the step reports that the diversion
  exited, the diversion ends with the request \<^verbatim>\<open>DREQ_NONE\<close>.  (Without a
  task, a resume request at a count other than 0 fails the assertion that
  follows the loop.)\<close>

theorem diversion_refcount_protocol:
  assumes pre: "\<forall>q \<in> set pre. diversion_request q"
    and count: "refcount_after rc0 pre = Some rc"
    and r: "is_resume_request r \<or> req_type r = DREQ_RESTART \<or> req_type r = DREQ_DETACH"
  shows "divert X srv replay task_id reqs =
           divert_loop X
             (if is_running (timeline srv)
              then srv\<lparr>timeline := apply_breakpoints_and_watchpoints (timeline srv)\<rparr> else srv)
             (find_task (clone_diversion replay) task_id) (clone_diversion replay) 1 reqs
         \<and> divert_loop X S t ds rc0 (pre @ r # rest) =
           (case diversion_serves X S t ds pre of
              Inl e \<Rightarrow> Inl e
            | Inr (srv1, t1, ds1) \<Rightarrow>
                if \<not> is_resume_request r \<or> rc = 0 then Inr (r, srv1, rest)
                else
                  (case t1 of
                     None \<Rightarrow> Inl AssertionFailed
                   | Some k \<Rightarrow>
                       (case deref ds1 t1 of
                          Inl e \<Rightarrow> Inl e
                        | Inr T \<Rightarrow>
                            if run_direction (cont r) = RUN_BACKWARD then
                              divert_loop X (reply_to srv1 (notify_stop (get_threadid T) SIGTRAP 0))
                                t1 ds1 rc rest
                            else
                              (case compute_run_command_from_actions T r of
                                 (command, to_deliver) \<Rightarrow>
                                   (case diversion_step X ds1 k command to_deliver of
                                      (result, ds2) \<Rightarrow>
                                        if diversion_status result = DIVERSION_EXITED
                                        then Inr (new_GdbRequest DREQ_NONE, srv1, rest)
                                        else (case maybe_notify_stop srv1 (diversion_break_status result) of
                                                Inl e \<Rightarrow> Inl e
                                              | Inr srv2 \<Rightarrow> divert_loop X srv2 t1 ds2 rc rest))))))"
proof
  show "divert X srv replay task_id reqs =
           divert_loop X
             (if is_running (timeline srv)
              then srv\<lparr>timeline := apply_breakpoints_and_watchpoints (timeline srv)\<rparr> else srv)
             (find_task (clone_diversion replay) task_id) (clone_diversion replay) 1 reqs"
    by (simp add: divert_def Let_def)
next
  have inner: "diverter_process_debugger_requests X S t ds rc0 (pre @ r # rest) =
           (case diversion_serves X S t ds pre of
              Inl e \<Rightarrow> Inl e
            | Inr (srv1, t1, ds1) \<Rightarrow>
                Inr (if is_resume_request r \<and> rc \<noteq> 0 then t1 else None, r, srv1, ds1,
                     if is_resume_request r then rc else 0, rest))"
    by (simp only: diverter_serves [OF pre count] diverter_ends [OF r])
  show "divert_loop X S t ds rc0 (pre @ r # rest) =
           (case diversion_serves X S t ds pre of
              Inl e \<Rightarrow> Inl e
            | Inr (srv1, t1, ds1) \<Rightarrow>
                if \<not> is_resume_request r \<or> rc = 0 then Inr (r, srv1, rest)
                else
                  (case t1 of
                     None \<Rightarrow> Inl AssertionFailed
                   | Some k \<Rightarrow>
                       (case deref ds1 t1 of
                          Inl e \<Rightarrow> Inl e
                        | Inr T \<Rightarrow>
                            if run_direction (cont r) = RUN_BACKWARD then
                              divert_loop X (reply_to srv1 (notify_stop (get_threadid T) SIGTRAP 0))
                                t1 ds1 rc rest
                            else
                              (case compute_run_command_from_actions T r of
                                 (command, to_deliver) \<Rightarrow>
                                   (case diversion_step X ds1 k command to_deliver of
                                      (result, ds2) \<Rightarrow>
                                        if diversion_status result = DIVERSION_EXITED
                                        then Inr (new_GdbRequest DREQ_NONE, srv1, rest)
                                        else (case maybe_notify_stop srv1 (diversion_break_status result) of
                                                Inl e \<Rightarrow> Inl e
                                              | Inr srv2 \<Rightarrow> divert_loop X srv2 t1 ds2 rc rest))))))"
    apply (subst divert_loop.simps)
    apply (simp only: inner)
    apply (simp del: diverter_process_debugger_requests.simps diversion_serves.simps
        split: sum.splits prod.splits option.splits)
    done
qed


theorem diversion_refcount_protocol_witness:
  "divert example_extern example_server example_session 7
     [example_write_memory, example_read_memory, example_read_siginfo, example_request DREQ_CONT,
      example_request DREQ_WRITE_SIGINFO, example_request DREQ_WRITE_SIGINFO, example_request DREQ_CONT,
      example_request DREQ_GET_REGS]
   = Inr (example_request DREQ_CONT,
          example_server
            \<lparr>dbg := \<lparr>sent = [reply_set_mem True, reply_get_mem [1, 2, 3, 4], reply_read_siginfo [0, 0, 0, 0],
                              notify_stop \<lparr>pid = 7, tid = 7\<rparr> SIGTRAP 0,
                              reply_write_siginfo, reply_write_siginfo],
                      reverse_execution = True\<rparr>\<rparr>,
          [example_request DREQ_GET_REGS])"
proof -
  let ?X = example_extern
  let ?c = "example_request DREQ_CONT"
  let ?w = "example_request DREQ_WRITE_SIGINFO"
  let ?g = "example_request DREQ_GET_REGS"
  let ?pre1 = "[example_write_memory, example_read_memory, example_read_siginfo]"
  let ?pre2 = "[?w, ?w]"
  let ?rest1 = "?pre2 @ ?c # [?g]"
  let ?reqs = "?pre1 @ ?c # ?rest1"
  let ?S1 = "sent_more example_server
               [reply_set_mem True, reply_get_mem [1, 2, 3, 4], reply_read_siginfo [0, 0, 0, 0]]"
  let ?S2 = "sent_more example_server
               [reply_set_mem True, reply_get_mem [1, 2, 3, 4], reply_read_siginfo [0, 0, 0, 0],
                notify_stop \<lparr>pid = 7, tid = 7\<rparr> SIGTRAP 0]"
  let ?S3 = "sent_more example_server
               [reply_set_mem True, reply_get_mem [1, 2, 3, 4], reply_read_siginfo [0, 0, 0, 0],
                notify_stop \<lparr>pid = 7, tid = 7\<rparr> SIGTRAP 0, reply_write_siginfo, reply_write_siginfo]"
  have types: "req_type example_read_siginfo = DREQ_READ_SIGINFO" "req_type ?w = DREQ_WRITE_SIGINFO"
    "req_type ?c = DREQ_CONT" "run_direction (cont ?c) = RUN_FORWARD" "actions (cont ?c) = []"
    by (simp_all add: example_read_siginfo_def example_request_def new_GdbRequest_def)
  have pre1: "\<forall>q \<in> set ?pre1. diversion_request q"
    and pre2: "\<forall>q \<in> set ?pre2. diversion_request q"
    by (simp_all add: diversion_request_def is_resume_request_def types example_memory_requests)
  have count1: "refcount_after 1 ?pre1 = Some 2"
    and count2: "refcount_after 2 ?pre2 = Some 0"
    by (simp_all add: types example_memory_requests)
  have r: "is_resume_request ?c \<or> req_type ?c = DREQ_RESTART \<or> req_type ?c = DREQ_DETACH"
    by (simp add: is_resume_request_def types)
  have serves2: "diversion_serves ?X ?S2 (Some 7) example_diversion ?pre2 = Inr (?S3, Some 7, example_diversion)"
    by (simp add: types siginfo_reply_def sent_more_simps(3,4))
  have step: "diversion_step ?X example_diversion 7 RUN_CONTINUE 0
                = (\<lparr>diversion_status = DIVERSION_CONTINUE,
                    diversion_break_status = new_BreakStatus\<lparr>task := Some example_task,
                                                               singlestep_complete := True\<rparr>\<rparr>,
                   example_diversion)"
    by (simp add: example_extern_def)
  have stop: "maybe_notify_stop ?S1 (new_BreakStatus\<lparr>task := Some example_task, singlestep_complete := True\<rparr>)
                = Inr ?S2"
    by (simp add: maybe_notify_stop_def is_last_thread_exit_def stop_signal_def stop_watch_addr_def
        new_BreakStatus_def and_then_def Let_def SIGTRAP_def get_threadid_def example_task_def
        sent_more_simps(3,4))
  note thm1 = diversion_refcount_protocol [OF pre1 count1 r, of ?X example_server example_session 7 ?reqs
      example_server "Some 7" "clone_diversion example_session" ?rest1]
  note thm2 = diversion_refcount_protocol [OF pre2 count2 r, of ?X example_server example_session 7 ?reqs
      ?S2 "Some 7" example_diversion "[?g]"]
  have "divert ?X example_server example_session 7 ?reqs
          = divert_loop ?X example_server (Some 7) (clone_diversion example_session) 1 ?reqs"
    using thm1 by (simp only: example_apply_breakpoints example_diversion_task)
  also have "\<dots> = divert_loop ?X ?S2 (Some 7) example_diversion 2 ?rest1"
    using thm1
    by (simp add: example_diversion_serves is_resume_request_def types example_diversion_task
        compute_run_command_from_actions_def step stop
        del: diversion_serves.simps)
  also have "\<dots> = Inr (?c, ?S3, [?g])"
    using thm2
    by (simp add: serves2 is_resume_request_def types del: diversion_serves.simps)
  finally show ?thesis
    by (simp add: sent_more_def example_server_def)
qed

text \<open>C2, as stated, fails. A diversion whose first request is a detach
  request ends there and returns that request, although no resume request
  arrived and the reference count was 1 when the request arrived.\<close>

theorem diversion_ends_on_detach:
  "divert example_extern example_server example_session 7 [example_request DREQ_DETACH]
     = Inr (example_request DREQ_DETACH, example_server, [])
   \<and> diverter_process_debugger_requests example_extern example_server (Some 7)
       (clone_diversion example_session) 1 [example_request DREQ_DETACH]
     = Inr (None, example_request DREQ_DETACH, example_server, clone_diversion example_session, 0, [])
   \<and> \<not> is_resume_request (example_request DREQ_DETACH)"
proof -
  have ty: "req_type (example_request DREQ_DETACH) = DREQ_DETACH"
    by (simp add: example_request_def new_GdbRequest_def)
  have found: "find_task (clone_diversion example_session) 7 = Some 7"
    by (simp add: find_task_def clone_diversion_def example_session_def)
  have inner: "diverter_process_debugger_requests example_extern example_server (Some 7)
       (clone_diversion example_session) 1 [example_request DREQ_DETACH]
     = Inr (None, example_request DREQ_DETACH, example_server, clone_diversion example_session, 0, [])"
    by (simp add: ty is_resume_request_def)
  have "divert example_extern example_server example_session 7 [example_request DREQ_DETACH]
     = Inr (example_request DREQ_DETACH, example_server, [])"
    unfolding divert_def Let_def example_apply_breakpoints found
    by (subst divert_loop.simps) (simp only: inner, simp)
  with inner ty show ?thesis
    by (simp add: is_resume_request_def)
qed

section \<open>Requests after the end of the trace\<close>

lemma try_lazy_reverse_singlesteps_not_served:
  assumes "deref (current_session (timeline srv)) t = Inr T"
    and "\<not> lazy_step_request T req \<or> lazy_reverse_singlestep (timeline srv) (mark (timeline srv)) T = None"
  shows "try_lazy_reverse_singlesteps srv t req reqs = Inr (req, srv, reqs)"
proof -
  from assms(2) have "lazy_rounds (timeline srv) T (mark (timeline srv)) req []"
    by simp
  from try_lazy_reverse_singlesteps_loop_rounds [of srv t T None req "[]" False reqs] assms
  show ?thesis
    by (simp add: try_lazy_reverse_singlesteps_def sent_more_simps)
qed

lemma process_debugger_requests_lazy_skipped:
  assumes t: "deref (current_session (timeline srv)) (Some k) = Inr T"
    and refetch: "find_task_by_tuid (current_session (timeline srv)) (tuid T) = Some k"
    and no: "\<not> lazy_step_request T req \<or> lazy_reverse_singlestep (timeline srv) (mark (timeline srv)) T = None"
  shows "(if is_running (timeline srv) \<and> Some k \<noteq> None then
              (case deref (current_session (timeline srv)) (Some k) of
                 Inl e \<Rightarrow> Inl e
               | Inr T \<Rightarrow>
                   (case try_lazy_reverse_singlesteps srv (Some k) req reqs of
                      Inl e \<Rightarrow> Inl e
                    | Inr (req1, srv1, reqs1) \<Rightarrow>
                        Inr (req1, srv1, reqs1, find_task_by_tuid (current_session (timeline srv1)) (tuid T))))
            else Inr (req, srv, reqs, Some k)) = Inr (req, srv, reqs, Some k)"
  by (simp add: t refetch try_lazy_reverse_singlesteps_not_served [OF t no])

lemma process_debugger_requests_returns:
  assumes t: "deref (current_session (timeline srv)) (Some k) = Inr T"
    and refetch: "find_task_by_tuid (current_session (timeline srv)) (tuid T) = Some k"
    and replay: "as_replay (current_session (timeline srv))"
    and r: "req_type r = DREQ_DETACH \<or> req_type r = DREQ_RESTART
            \<or> is_resume_request r
              \<and> (\<not> lazy_step_request T (r\<lparr>suppress_debugger_stop := False\<rparr>)
                   \<or> lazy_reverse_singlestep (timeline srv) (mark (timeline srv)) T = None)"
  shows "process_debugger_requests X srv (Some k) state (r # rest)
           = Inr (if is_resume_request r
                  then maybe_singlestep_for_event X (current_session (timeline srv)) T
                         (r\<lparr>suppress_debugger_stop := False\<rparr>)
                  else r\<lparr>suppress_debugger_stop := False\<rparr>,
                  if req_type r = DREQ_DETACH then sent_more srv [reply_detach] else srv,
                  rest)"
proof -
  let ?req = "r\<lparr>suppress_debugger_stop := False\<rparr>"
  from r have no: "\<not> lazy_step_request T ?req
                    \<or> lazy_reverse_singlestep (timeline srv) (mark (timeline srv)) T = None"
    by (auto simp: lazy_step_request_def)
  show ?thesis
    apply (subst process_debugger_requests.simps)
    apply (simp only: Let_def process_debugger_requests_lazy_skipped [OF t refetch no])
    using r
    apply (auto simp: is_resume_request_def t replay replay_session_def sent_more_simps)
    done
qed

lemma timeline_reply_to: "timeline (reply_to srv r) = timeline srv"
  by (simp add: reply_to_def)

lemma dispatch_report_state:
  "dispatch_debugger_request X srv sr t q REPORT_THREADS_DEAD =
     (if req_type q = DREQ_GET_THREAD_LIST then Inr (reply_to srv (reply_get_thread_list []), sr)
      else dispatch_debugger_request X srv sr t q REPORT_NORMAL)"
  by (simp add: dispatch_debugger_request_def is_resume_request_def Let_def)

lemma magic_command_keeps_position:
  "maybe_process_magic_command srv q = Inr (h, srv')
   \<Longrightarrow> current_session (timeline srv') = current_session (timeline srv)
       \<and> current_mark (timeline srv') = current_mark (timeline srv)
       \<and> singlestep_cache (timeline srv') = singlestep_cache (timeline srv)"
  by (auto simp: maybe_process_magic_command_def Let_def add_explicit_checkpoint_def
      remove_explicit_checkpoint_def timeline_reply_to split: if_splits option.splits)

lemma timeline_ops_keep_position:
  "add_breakpoint tml T a c = (ok, tml')
   \<Longrightarrow> current_session tml' = current_session tml \<and> current_mark tml' = current_mark tml
       \<and> singlestep_cache tml' = singlestep_cache tml"
  "add_watchpoint fits tml T a k ty c = (ok, tml')
   \<Longrightarrow> current_session tml' = current_session tml \<and> current_mark tml' = current_mark tml
       \<and> singlestep_cache tml' = singlestep_cache tml"
  "current_session (remove_breakpoint tml T a) = current_session tml"
  "current_mark (remove_breakpoint tml T a) = current_mark tml"
  "singlestep_cache (remove_breakpoint tml T a) = singlestep_cache tml"
  "current_session (remove_watchpoint tml T a k ty) = current_session tml"
  "current_mark (remove_watchpoint tml T a k ty) = current_mark tml"
  "singlestep_cache (remove_watchpoint tml T a k ty) = singlestep_cache tml"
  by (auto simp: add_breakpoint_def remove_breakpoint_def add_watchpoint_def remove_watchpoint_def
      Let_def split: if_splits)

lemma dispatch_target_keeps_position:
  assumes "dispatch_target_request X srv Current t tg q = Inr (srv', sr')"
    and "\<not> is_diversion (current_session (timeline srv))"
  shows "current_session (timeline srv') = current_session (timeline srv)
         \<and> current_mark (timeline srv') = current_mark (timeline srv)
         \<and> singlestep_cache (timeline srv') = singlestep_cache (timeline srv)"
  using assms
  unfolding dispatch_target_request_def Let_def the_session_def and_then_def
  by (auto simp: maybe_process_magic_read_def dispatch_regs_request_def timeline_ops_keep_position(3-8)
      timeline_reply_to
      dest: magic_command_keeps_position timeline_ops_keep_position(1,2)
      split: if_splits sum.splits prod.splits auxv_file.splits)

lemma dispatch_keeps_position:
  assumes "dispatch_debugger_request X srv Current t q state = Inr (srv', sr')"
    and "\<not> is_diversion (current_session (timeline srv))"
  shows "current_session (timeline srv') = current_session (timeline srv)
         \<and> current_mark (timeline srv') = current_mark (timeline srv)
         \<and> singlestep_cache (timeline srv') = singlestep_cache (timeline srv)"
  using assms
  unfolding dispatch_debugger_request_def Let_def the_session_def and_then_def
  by (auto simp: timeline_reply_to dest: dispatch_target_keeps_position
      split: if_splits sum.splits option.splits)

lemma exited_answers_keep_position:
  assumes "exited_answers X srv t qs = Inr srv'"
    and "\<not> is_diversion (current_session (timeline srv))"
  shows "current_session (timeline srv') = current_session (timeline srv)
         \<and> current_mark (timeline srv') = current_mark (timeline srv)
         \<and> singlestep_cache (timeline srv') = singlestep_cache (timeline srv)"
  using assms
proof (induction qs arbitrary: srv)
  case Nil
  then show ?case by simp
next
  case (Cons q qs)
  show ?case
  proof (cases "req_type q = DREQ_GET_THREAD_LIST")
    case True
    with Cons.prems have "exited_answers X (reply_to srv (reply_get_thread_list [])) t qs = Inr srv'"
      by simp
    from Cons.IH [OF this] Cons.prems(2) show ?thesis by (simp add: timeline_reply_to)
  next
    case False
    with Cons.prems(1) obtain srv1 sr1 where
      d: "dispatch_debugger_request X srv Current t (q\<lparr>suppress_debugger_stop := False\<rparr>) REPORT_NORMAL
            = Inr (srv1, sr1)"
      and rest: "exited_answers X srv1 t qs = Inr srv'"
      by (auto split: sum.splits)
    note same = dispatch_keeps_position [OF d Cons.prems(2)]
    with Cons.IH [OF rest] Cons.prems(2) show ?thesis by simp
  qed
qed

lemma process_debugger_requests_answers:
  assumes t: "deref (current_session (timeline srv)) (Some k) = Inr T"
    and refetch: "find_task_by_tuid (current_session (timeline srv)) (tuid T) = Some k"
    and replay: "as_replay (current_session (timeline srv))"
    and qs: "\<forall>q \<in> set qs. answered_request q"
  shows "process_debugger_requests X srv (Some k) REPORT_THREADS_DEAD (qs @ rest) =
           (case exited_answers X srv (Some k) qs of
              Inl e \<Rightarrow> Inl e
            | Inr srv' \<Rightarrow> process_debugger_requests X srv' (Some k) REPORT_THREADS_DEAD rest)"
  using assms
proof (induction qs arbitrary: srv)
  case Nil
  then show ?case by simp
next
  case (Cons q qs)
  let ?q = "q\<lparr>suppress_debugger_stop := False\<rparr>"
  from Cons.prems have q: "\<not> is_resume_request q" "req_type q \<noteq> DREQ_RESTART" "req_type q \<noteq> DREQ_DETACH"
    "req_type q \<noteq> DREQ_READ_SIGINFO" and qs: "\<forall>q \<in> set qs. answered_request q"
    by (simp_all add: answered_request_def)
  from q have no: "\<not> lazy_step_request T ?q
                    \<or> lazy_reverse_singlestep (timeline srv) (mark (timeline srv)) T = None"
    by (simp add: lazy_step_request_def is_resume_request_def)
  from Cons.prems(3) have nd: "\<not> is_diversion (current_session (timeline srv))"
    by (simp add: as_replay_def is_diversion_def)
  have step: "process_debugger_requests X srv (Some k) REPORT_THREADS_DEAD (q # qs @ rest) =
                (case dispatch_debugger_request X srv Current (Some k) ?q REPORT_THREADS_DEAD of
                   Inl e \<Rightarrow> Inl e
                 | Inr (srv3, sr3) \<Rightarrow> process_debugger_requests X srv3 (Some k) REPORT_THREADS_DEAD (qs @ rest))"
    apply (subst process_debugger_requests.simps)
    apply (simp only: Let_def process_debugger_requests_lazy_skipped [OF Cons.prems(1,2) no])
    using q apply (simp add: is_resume_request_def)
    done
  show ?case
  proof (cases "dispatch_debugger_request X srv Current (Some k) ?q REPORT_THREADS_DEAD")
    case (Inl e)
    with step show ?thesis
      by (auto simp: dispatch_report_state split: if_splits)
  next
    case (Inr res)
    then obtain srv3 sr3 where
      d: "dispatch_debugger_request X srv Current (Some k) ?q REPORT_THREADS_DEAD = Inr (srv3, sr3)"
      by (cases res) auto
    from dispatch_keeps_position [OF d nd]
    have same: "current_session (timeline srv3) = current_session (timeline srv)" by simp
    note IH = Cons.IH [of srv3, unfolded same, OF Cons.prems(1,2,3) qs]
    from step d IH show ?thesis
      by (auto simp: dispatch_report_state split: if_splits)
  qed
qed

lemma example_diversion_run:
  assumes S: "timeline S = example_timeline"
  shows "divert example_extern S example_session 7
           [example_request DREQ_CONT, example_request DREQ_WRITE_SIGINFO, example_request DREQ_DETACH]
         = Inr (example_request DREQ_DETACH,
                sent_more S [notify_stop \<lparr>pid = 7, tid = 7\<rparr> SIGTRAP 0, reply_write_siginfo], [])"
proof -
  let ?X = example_extern
  let ?c = "example_request DREQ_CONT"
  let ?w = "example_request DREQ_WRITE_SIGINFO"
  let ?d = "example_request DREQ_DETACH"
  let ?ds = "clone_diversion example_session"
  let ?S1 = "sent_more S [notify_stop \<lparr>pid = 7, tid = 7\<rparr> SIGTRAP 0]"
  have types: "req_type ?c = DREQ_CONT" "req_type ?w = DREQ_WRITE_SIGINFO" "req_type ?d = DREQ_DETACH"
    "run_direction (cont ?c) = RUN_FORWARD" "actions (cont ?c) = []"
    by (simp_all add: example_request_def new_GdbRequest_def)
  have start: "(if is_running (timeline S)
                then S\<lparr>timeline := apply_breakpoints_and_watchpoints (timeline S)\<rparr> else S) = S"
    by (simp add: S apply_breakpoints_and_watchpoints_def example_timeline_def)
  have task: "find_task ?ds 7 = Some 7" "deref ?ds (Some 7) = Inr example_task"
    by (simp_all add: find_task_def deref_def clone_diversion_def example_session_def)
  have first: "diverter_process_debugger_requests ?X S (Some 7) ?ds 1 [?c, ?w, ?d]
                 = Inr (Some 7, ?c, S, ?ds, 1, [?w, ?d])"
    by (simp add: is_resume_request_def types)
  have step: "diversion_step ?X ?ds 7 RUN_CONTINUE 0
                = (\<lparr>diversion_status = DIVERSION_CONTINUE,
                    diversion_break_status = new_BreakStatus\<lparr>task := Some example_task,
                                                               singlestep_complete := True\<rparr>\<rparr>, ?ds)"
    by (simp add: example_extern_def)
  have stop: "maybe_notify_stop S (new_BreakStatus\<lparr>task := Some example_task, singlestep_complete := True\<rparr>)
                = Inr ?S1"
    by (simp add: maybe_notify_stop_def is_last_thread_exit_def stop_signal_def stop_watch_addr_def
        new_BreakStatus_def and_then_def Let_def SIGTRAP_def get_threadid_def example_task_def
        sent_more_simps(3))
  have second: "diverter_process_debugger_requests ?X ?S1 (Some 7) ?ds 1 [?w, ?d]
                  = Inr (None, ?d, sent_more ?S1 [reply_write_siginfo], ?ds, 0, [])"
    by (simp add: is_resume_request_def types sent_more_simps(3))
  have "divert ?X S example_session 7 [?c, ?w, ?d] = divert_loop ?X S (Some 7) ?ds 1 [?c, ?w, ?d]"
    by (simp only: divert_def Let_def start task)
  also have "\<dots> = divert_loop ?X ?S1 (Some 7) ?ds 1 [?w, ?d]"
    apply (subst divert_loop.simps)
    apply (simp only: first)
    apply (simp add: task types compute_run_command_from_actions_def step stop)
    done
  also have "\<dots> = Inr (?d, sent_more ?S1 [reply_write_siginfo], [])"
    apply (subst divert_loop.simps)
    apply (simp only: second)
    apply simp
    done
  finally show ?thesis
    by (simp add: sent_more_simps(4))
qed


text \<open>C9, as amended. After the end of the trace the adapter notifies the
  client of the exit code 0.  Without a task the fatal error follows at once.
  With a task it processes requests with the report state
  \<^verbatim>\<open>REPORT_THREADS_DEAD\<close>: the requests \<open>qs\<close> that precede the first resume,
  restart, detach or \<^verbatim>\<open>read_siginfo\<close> request are dispatched and answered
  as during normal debugging, except that a thread-list request is answered
  with the empty list (a fault of the dispatcher ends the run).  When the first
  of those requests is a detach request, it is acknowledged and the debugging
  stops; when it is a restart request, the session is restarted and the
  debugging continues; when it is a resume request that the reverse-step fast
  path does not serve (the request is not a backward single-step of the task
  without a signal, or the timeline has no mark cached before the current one),
  it is a fatal error.\<close>

theorem exited_state_requests:
  assumes t: "deref (current_session (timeline srv)) (Some k) = Inr T"
    and refetch: "find_task_by_tuid (current_session (timeline srv)) (tuid T) = Some k"
    and replay: "as_replay (current_session (timeline srv))"
    and qs: "\<forall>q \<in> set qs. answered_request q"
    and r: "req_type r = DREQ_DETACH \<or> req_type r = DREQ_RESTART
            \<or> is_resume_request r
              \<and> (\<not> lazy_step_request T (r\<lparr>suppress_debugger_stop := False\<rparr>)
                   \<or> lazy_reverse_singlestep (timeline srv) (mark (timeline srv)) T = None)"
  shows "handle_exited_state X srv None reqs = Some (Inl FatalError)
         \<and> handle_exited_state X srv (Some k) (qs @ r # rest) =
           (case exited_answers X (reply_to srv (notify_exit_code 0)) (Some k) qs of
              Inl f \<Rightarrow> Some (Inl f)
            | Inr srv1 \<Rightarrow>
                if req_type r = DREQ_DETACH then
                  Some (Inr (STOP_DEBUGGING, reply_to srv1 reply_detach, rest))
                else if req_type r = DREQ_RESTART then
                  (case restart_session X srv1 (r\<lparr>suppress_debugger_stop := False\<rparr>) of
                     None \<Rightarrow> None
                   | Some (Inl f) \<Rightarrow> Some (Inl f)
                   | Some (Inr srv2) \<Rightarrow> Some (Inr (CONTINUE_DEBUGGING, srv2, rest)))
                else Some (Inl FatalError))"
proof
  show "handle_exited_state X srv None reqs = Some (Inl FatalError)"
    by (simp add: handle_exited_state_def)
next
  let ?srv0 = "reply_to srv (notify_exit_code 0)"
  let ?r = "r\<lparr>suppress_debugger_stop := False\<rparr>"
  from t refetch replay
  have t0: "deref (current_session (timeline ?srv0)) (Some k) = Inr T"
    and f0: "find_task_by_tuid (current_session (timeline ?srv0)) (tuid T) = Some k"
    and r0: "as_replay (current_session (timeline ?srv0))"
    by (simp_all add: timeline_reply_to)
  from r0 have nd: "\<not> is_diversion (current_session (timeline ?srv0))"
    by (simp add: as_replay_def is_diversion_def)
  have resume: "req_type (maybe_singlestep_for_event X s T q) = DREQ_CONT" if "req_type q = DREQ_CONT" for s q
    using that by (simp add: maybe_singlestep_for_event_def new_GdbRequest_def)
  note loop = process_debugger_requests_answers [OF t0 f0 r0 qs, of X "r # rest"]
  show "handle_exited_state X srv (Some k) (qs @ r # rest) =
           (case exited_answers X ?srv0 (Some k) qs of
              Inl f \<Rightarrow> Some (Inl f)
            | Inr srv1 \<Rightarrow>
                if req_type r = DREQ_DETACH then
                  Some (Inr (STOP_DEBUGGING, reply_to srv1 reply_detach, rest))
                else if req_type r = DREQ_RESTART then
                  (case restart_session X srv1 ?r of
                     None \<Rightarrow> None
                   | Some (Inl f) \<Rightarrow> Some (Inl f)
                   | Some (Inr srv2) \<Rightarrow> Some (Inr (CONTINUE_DEBUGGING, srv2, rest)))
                else Some (Inl FatalError))"
  proof (cases "exited_answers X ?srv0 (Some k) qs")
    case (Inl f)
    with loop show ?thesis
      by (simp add: handle_exited_state_def Let_def)
  next
    case (Inr srv1)
    from exited_answers_keep_position [OF Inr nd]
    have same: "current_session (timeline srv1) = current_session (timeline srv)"
      and cache: "lazy_reverse_singlestep (timeline srv1) (mark (timeline srv1)) T
                    = lazy_reverse_singlestep (timeline srv) (mark (timeline srv)) T"
      by (simp_all add: timeline_reply_to lazy_reverse_singlestep_def mark_def)
    from t refetch replay same
    have t1: "deref (current_session (timeline srv1)) (Some k) = Inr T"
      and f1: "find_task_by_tuid (current_session (timeline srv1)) (tuid T) = Some k"
      and r1: "as_replay (current_session (timeline srv1))"
      by simp_all
    from r cache
    have r': "req_type r = DREQ_DETACH \<or> req_type r = DREQ_RESTART
            \<or> is_resume_request r
              \<and> (\<not> lazy_step_request T (r\<lparr>suppress_debugger_stop := False\<rparr>)
                   \<or> lazy_reverse_singlestep (timeline srv1) (mark (timeline srv1)) T = None)"
      by simp
    note ret = process_debugger_requests_returns [OF t1 f1 r1 r', of X REPORT_THREADS_DEAD rest]
    from r show ?thesis
      unfolding handle_exited_state_def Let_def
      apply (simp only: loop Inr sum.case ret)
      apply (auto simp: detach_or_restart_def is_resume_request_def resume sent_more_simps(3)
          split: option.splits sum.splits)
      done
  qed
qed


theorem exited_state_requests_witness:
  "handle_exited_state example_extern example_server None [example_request DREQ_DETACH]
   = Some (Inl FatalError)
   \<and> handle_exited_state example_extern example_server (Some 7)
       [example_request DREQ_GET_THREAD_LIST, example_request DREQ_GET_CURRENT_THREAD,
        example_request DREQ_CONT, example_request DREQ_GET_REGS]
   = Some (Inl FatalError)
   \<and> handle_exited_state example_extern example_server (Some 7)
       [example_request DREQ_GET_CURRENT_THREAD, example_request DREQ_GET_THREAD_LIST,
        example_request DREQ_DETACH]
   = Some (Inr (STOP_DEBUGGING,
                example_server
                  \<lparr>dbg := \<lparr>sent = [notify_exit_code 0, reply_get_current_thread \<lparr>pid = 7, tid = 7\<rparr>,
                                    reply_get_thread_list [], reply_detach],
                           reverse_execution = True\<rparr>\<rparr>,
                []))"
proof -
  let ?X = example_extern
  let ?l = "example_request DREQ_GET_THREAD_LIST"
  let ?t = "example_request DREQ_GET_CURRENT_THREAD"
  let ?c = "example_request DREQ_CONT"
  let ?d = "example_request DREQ_DETACH"
  let ?g = "example_request DREQ_GET_REGS"
  let ?srv0 = "reply_to example_server (notify_exit_code 0)"
  have types: "req_type ?l = DREQ_GET_THREAD_LIST" "req_type ?t = DREQ_GET_CURRENT_THREAD"
    "req_type ?c = DREQ_CONT" "req_type ?d = DREQ_DETACH"
    by (simp_all add: example_request_def new_GdbRequest_def)
  have q1: "\<forall>q \<in> set [?l, ?t]. answered_request q"
    and q2: "\<forall>q \<in> set [?t, ?l]. answered_request q"
    by (simp_all add: answered_request_def is_resume_request_def types)
  have c: "req_type ?c = DREQ_DETACH \<or> req_type ?c = DREQ_RESTART
           \<or> is_resume_request ?c
             \<and> (\<not> lazy_step_request example_task (?c\<lparr>suppress_debugger_stop := False\<rparr>)
                  \<or> lazy_reverse_singlestep (timeline example_server) (mark (timeline example_server))
                       example_task = None)"
    by (simp add: is_resume_request_def lazy_step_request_def example_request_def new_GdbRequest_def)
  have d: "req_type ?d = DREQ_DETACH \<or> req_type ?d = DREQ_RESTART
           \<or> is_resume_request ?d
             \<and> (\<not> lazy_step_request example_task (?d\<lparr>suppress_debugger_stop := False\<rparr>)
                  \<or> lazy_reverse_singlestep (timeline example_server) (mark (timeline example_server))
                       example_task = None)"
    by (simp add: types)
  have cur: "dispatch_debugger_request ?X srv Current (Some 7) (?t\<lparr>suppress_debugger_stop := False\<rparr>)
               REPORT_NORMAL
             = Inr (reply_to srv (reply_get_current_thread \<lparr>pid = 7, tid = 7\<rparr>), Current)"
    if "current_session (timeline srv) = example_session" for srv
    using that
    by (simp add: dispatch_debugger_request_def is_resume_request_def types the_session_def and_then_def
        deref_def get_threadid_def Let_def example_session_def example_task_def)
  have s0: "current_session (timeline example_server) = example_session"
    by (simp add: example_server_def example_timeline_def)
  have a1: "exited_answers ?X ?srv0 (Some 7) [?l, ?t]
              = Inr (sent_more example_server
                       [notify_exit_code 0, reply_get_thread_list [], reply_get_current_thread \<lparr>pid = 7, tid = 7\<rparr>])"
    by (simp add: types cur s0 sent_more_simps(2,3,4))
  have a2: "exited_answers ?X ?srv0 (Some 7) [?t, ?l]
              = Inr (sent_more example_server
                       [notify_exit_code 0, reply_get_current_thread \<lparr>pid = 7, tid = 7\<rparr>, reply_get_thread_list []])"
    by (simp add: types cur s0 sent_more_simps(2,3,4))
  note thm1 = exited_state_requests [OF example_server_task q1 c, of ?X "[?d]" "[?g]"]
  note thm2 = exited_state_requests [OF example_server_task q2 d, of ?X "[?d]" "[]"]
  from thm1 have first: "handle_exited_state ?X example_server None [?d] = Some (Inl FatalError)"
    and second: "handle_exited_state ?X example_server (Some 7) [?l, ?t, ?c, ?g] = Some (Inl FatalError)"
    by (simp_all add: a1 types del: exited_answers.simps)
  from thm2 have "handle_exited_state ?X example_server (Some 7) [?t, ?l, ?d]
      = Some (Inr (STOP_DEBUGGING,
                   reply_to (sent_more example_server
                               [notify_exit_code 0, reply_get_current_thread \<lparr>pid = 7, tid = 7\<rparr>,
                                reply_get_thread_list []]) reply_detach, []))"
    by (simp add: a2 types del: exited_answers.simps)
  then have third: "handle_exited_state ?X example_server (Some 7) [?t, ?l, ?d]
      = Some (Inr (STOP_DEBUGGING,
                example_server
                  \<lparr>dbg := \<lparr>sent = [notify_exit_code 0, reply_get_current_thread \<lparr>pid = 7, tid = 7\<rparr>,
                                    reply_get_thread_list [], reply_detach],
                           reverse_execution = True\<rparr>\<rparr>,
                []))"
    by (simp add: sent_more_def reply_to_def send_def example_server_def)
  from first second third show ?thesis by blast
qed


text \<open>C9, as stated, fails. After the end of the trace a thread-list request
  is answered with the empty thread list; a reverse single-step that the fast
  path can serve (a resume request) is answered with a stop notification; and a
  \<^verbatim>\<open>read_siginfo\<close> request opens a diversion, in which the resume request
  that follows is executed and its stop reported.  In the three runs there is
  no fatal error, and the debugging stops at the detach request that comes
  last.\<close>

theorem requests_after_exit_are_answered:
  "handle_exited_state example_extern example_server (Some 7)
     [example_request DREQ_GET_THREAD_LIST, example_request DREQ_DETACH]
   = Some (Inr (STOP_DEBUGGING,
                example_server\<lparr>dbg := \<lparr>sent = [notify_exit_code 0, reply_get_thread_list [], reply_detach],
                                         reverse_execution = True\<rparr>\<rparr>,
                []))
   \<and> handle_exited_state example_extern example_server (Some 7)
       [example_reverse_step, example_request DREQ_DETACH]
   = Some (Inr (STOP_DEBUGGING,
                example_server
                  \<lparr>dbg := \<lparr>sent = [notify_exit_code 0, notify_stop \<lparr>pid = 7, tid = 7\<rparr> SIGTRAP 0, reply_detach],
                           reverse_execution = True\<rparr>,
                   timeline := example_timeline\<lparr>current_mark := example_mark 9, seeks := [example_mark 9]\<rparr>\<rparr>,
                []))
   \<and> handle_exited_state example_extern example_server (Some 7)
       [example_read_siginfo, example_request DREQ_CONT, example_request DREQ_WRITE_SIGINFO,
        example_request DREQ_DETACH]
   = Some (Inr (STOP_DEBUGGING,
                example_server
                  \<lparr>dbg := \<lparr>sent = [notify_exit_code 0, reply_read_siginfo [0, 0, 0, 0],
                                    notify_stop \<lparr>pid = 7, tid = 7\<rparr> SIGTRAP 0, reply_write_siginfo,
                                    reply_detach],
                           reverse_execution = True\<rparr>\<rparr>,
                []))"
proof -
  let ?X = example_extern
  let ?l = "example_request DREQ_GET_THREAD_LIST"
  let ?c = "example_request DREQ_CONT"
  let ?w = "example_request DREQ_WRITE_SIGINFO"
  let ?d = "example_request DREQ_DETACH"
  let ?srv0 = "sent_more example_server [notify_exit_code 0]"
  let ?srv1 = "sent_more ?srv0 [reply_get_thread_list []]"
  have types: "req_type ?l = DREQ_GET_THREAD_LIST" "req_type ?d = DREQ_DETACH"
    by (simp_all add: example_request_def new_GdbRequest_def)
  have same: "?d\<lparr>suppress_debugger_stop := False\<rparr> = ?d"
    "example_reverse_step\<lparr>suppress_debugger_stop := False\<rparr> = example_reverse_step"
    by (simp_all add: example_request_def example_reverse_step_def new_GdbRequest_def)
  have ql: "\<forall>q \<in> set [?l]. answered_request q"
    by (simp add: answered_request_def is_resume_request_def types)
  have d: "req_type ?d = DREQ_DETACH \<or> req_type ?d = DREQ_RESTART
           \<or> is_resume_request ?d
             \<and> (\<not> lazy_step_request example_task (?d\<lparr>suppress_debugger_stop := False\<rparr>)
                  \<or> lazy_reverse_singlestep (timeline ?srv1) (mark (timeline ?srv1)) example_task = None)"
    by (simp add: types)
  have t0: "deref (current_session (timeline ?srv0)) (Some 7) = Inr example_task"
    "find_task_by_tuid (current_session (timeline ?srv0)) (tuid example_task) = Some 7"
    and r0: "as_replay (current_session (timeline ?srv0))"
    and t1: "deref (current_session (timeline ?srv1)) (Some 7) = Inr example_task"
    "find_task_by_tuid (current_session (timeline ?srv1)) (tuid example_task) = Some 7"
    "as_replay (current_session (timeline ?srv1))"
    by (simp_all add: sent_more_simps example_server_task)
  have answers: "exited_answers ?X ?srv0 (Some 7) [?l] = Inr ?srv1"
    by (simp add: types sent_more_simps(3))
  have loop: "process_debugger_requests ?X ?srv0 (Some 7) REPORT_THREADS_DEAD [?l, ?d]
                = Inr (?d, sent_more ?srv1 [reply_detach], [])"
    using process_debugger_requests_answers [OF t0 r0 ql, of ?X "[?d]"]
      process_debugger_requests_returns [OF t1 d, of ?X REPORT_THREADS_DEAD "[]"]
    by (simp add: answers types same is_resume_request_def del: exited_answers.simps)
  have "handle_exited_state ?X example_server (Some 7) [?l, ?d]
          = Some (Inr (STOP_DEBUGGING, sent_more ?srv1 [reply_detach], []))"
    unfolding handle_exited_state_def Let_def
    apply (simp only: sent_more_simps(3) loop)
    apply (simp add: detach_or_restart_def types)
    done
  then have first: "handle_exited_state ?X example_server (Some 7) [?l, ?d]
      = Some (Inr (STOP_DEBUGGING,
                example_server\<lparr>dbg := \<lparr>sent = [notify_exit_code 0, reply_get_thread_list [], reply_detach],
                                         reverse_execution = True\<rparr>\<rparr>,
                []))"
    by (simp add: sent_more_def example_server_def)
  let ?stepped = "(sent_more ?srv0 [notify_stop (get_threadid example_task) SIGTRAP 0])
                    \<lparr>timeline := seek_to_mark (example_mark 9) (timeline ?srv0)\<rparr>"
  have step: "lazy_step_request example_task example_reverse_step"
    by (simp add: lazy_step_request_def example_reverse_step_def example_request_def
        new_GdbRequest_def matches_threadid_def example_task_def)
  have nostep: "\<not> lazy_step_request example_task ?d"
    by (simp add: lazy_step_request_def types)
  have cache: "lazy_reverse_singlestep (timeline ?srv0) (mark (timeline ?srv0)) example_task
                 = Some (example_mark 9)"
    by (simp add: sent_more_simps lazy_reverse_singlestep_def mark_def example_server_def
        example_timeline_def example_task_def example_mark_def)
  have rounds: "lazy_rounds (timeline ?srv0) example_task
                  (case None of None \<Rightarrow> mark (timeline ?srv0) | Some m \<Rightarrow> m)
                  example_reverse_step [(example_mark 9, [], ?d)]"
    using step nostep cache by (simp add: types same)
  have lazy: "try_lazy_reverse_singlesteps ?srv0 (Some 7) example_reverse_step [?d]
                = Inr (?d, ?stepped, [])"
    using try_lazy_reverse_singlesteps_loop_rounds [OF t0(1) rounds, of False "[]"]
    by (simp add: try_lazy_reverse_singlesteps_def same sent_more_simps(1,2,4))
  have after: "find_task_by_tuid (current_session (timeline ?stepped)) (tuid example_task) = Some 7"
    "is_running (timeline ?srv0)"
    by (simp_all add: seek_to_mark_def sent_more_simps find_task_by_tuid_def example_server_def
        example_timeline_def example_session_def example_task_def)
  have loop2: "process_debugger_requests ?X ?srv0 (Some 7) REPORT_THREADS_DEAD
                 [example_reverse_step, ?d]
               = Inr (?d, sent_more ?stepped [reply_detach], [])"
    apply (subst process_debugger_requests.simps)
    apply (simp only: Let_def same lazy t0 after)
    apply (simp add: types is_resume_request_def sent_more_simps(3))
    done
  have "handle_exited_state ?X example_server (Some 7) [example_reverse_step, ?d]
          = Some (Inr (STOP_DEBUGGING, sent_more ?stepped [reply_detach], []))"
    unfolding handle_exited_state_def Let_def
    apply (simp only: sent_more_simps(3) loop2)
    apply (simp add: detach_or_restart_def types)
    done
  then have second: "handle_exited_state ?X example_server (Some 7) [example_reverse_step, ?d]
      = Some (Inr (STOP_DEBUGGING,
                example_server
                  \<lparr>dbg := \<lparr>sent = [notify_exit_code 0, notify_stop \<lparr>pid = 7, tid = 7\<rparr> SIGTRAP 0, reply_detach],
                           reverse_execution = True\<rparr>,
                   timeline := example_timeline\<lparr>current_mark := example_mark 9, seeks := [example_mark 9]\<rparr>\<rparr>,
                []))"
    by (simp add: sent_more_def seek_to_mark_def get_threadid_def example_task_def
        example_server_def example_timeline_def)
  let ?S = "sent_more example_server [notify_exit_code 0, reply_read_siginfo [0, 0, 0, 0]]"
  have rs: "req_type example_read_siginfo = DREQ_READ_SIGINFO"
    "example_read_siginfo\<lparr>suppress_debugger_stop := False\<rparr> = example_read_siginfo"
    "replicate (len (mem example_read_siginfo)) (0 :: byte) = [0, 0, 0, 0]"
    by (simp_all add: example_read_siginfo_def example_request_def new_GdbRequest_def eval_nat_numeral)
  have no: "\<not> lazy_step_request example_task example_read_siginfo
            \<or> lazy_reverse_singlestep (timeline ?srv0) (mark (timeline ?srv0)) example_task = None"
    by (simp add: lazy_step_request_def rs)
  have session: "replay_session (current_session (timeline ?srv0)) = Inr example_session"
    "rec_tid example_task = 7"
    by (simp_all add: replay_session_def as_replay_def sent_more_simps(2) example_server_def
        example_timeline_def example_session_def example_task_def)
  have S: "timeline ?S = example_timeline"
    by (simp add: sent_more_simps(2) example_server_def)
  have loop3: "process_debugger_requests ?X ?srv0 (Some 7) REPORT_THREADS_DEAD
                [example_read_siginfo, ?c, ?w, ?d]
              = Inr (?d, sent_more ?S [notify_stop \<lparr>pid = 7, tid = 7\<rparr> SIGTRAP 0, reply_write_siginfo,
                                      reply_detach], [])"
    apply (subst process_debugger_requests.simps)
    apply (simp only: Let_def rs process_debugger_requests_lazy_skipped [OF t0 no])
    apply (simp add: rs types t0 session is_resume_request_def sent_more_simps(3,4)
        example_diversion_run [OF S])
    done
  have "handle_exited_state ?X example_server (Some 7) [example_read_siginfo, ?c, ?w, ?d]
          = Some (Inr (STOP_DEBUGGING,
                       sent_more ?S [notify_stop \<lparr>pid = 7, tid = 7\<rparr> SIGTRAP 0, reply_write_siginfo,
                                     reply_detach], []))"
    unfolding handle_exited_state_def Let_def
    apply (simp only: sent_more_simps(3) loop3)
    apply (simp add: detach_or_restart_def types)
    done
  then have third: "handle_exited_state ?X example_server (Some 7) [example_read_siginfo, ?c, ?w, ?d]
      = Some (Inr (STOP_DEBUGGING,
                example_server
                  \<lparr>dbg := \<lparr>sent = [notify_exit_code 0, reply_read_siginfo [0, 0, 0, 0],
                                    notify_stop \<lparr>pid = 7, tid = 7\<rparr> SIGTRAP 0, reply_write_siginfo,
                                    reply_detach],
                           reverse_execution = True\<rparr>\<rparr>,
                []))"
    by (simp add: sent_more_def example_server_def)
  from first second third show ?thesis by blast
qed

end
